(* ===== verification/Prelude.thy ===== *)
theory Prelude
  imports Complex_Main
begin

text \<open>
  Shared vocabulary of the glio development: the Python exceptions the modelled code can
  raise, the result type \<open>'a result\<close> (an exception is \<open>Inl\<close>, a return value \<open>Inr\<close>),
  its sequencing combinator \<open>bind_r\<close> (the propagation of an uncaught exception), Python's
  \<open>%\<close> with its \<open>ZeroDivisionError\<close>, and the generic list lemmas the component
  theories share.  The collection \<open>model_simps\<close> gathers the equations that evaluate the
  model's small helpers.
\<close>

named_theorems model_simps "equations that evaluate the helpers of the glio model"

datatype py_error =
    ZeroDivisionError
  | IndexError
  | ValueError
  | RuntimeError
  | AttributeError
  | NotImplementedError
  | KeyError
  | TypeError

type_synonym 'a result = "py_error + 'a"

definition bind_r :: "'a result \<Rightarrow> ('a \<Rightarrow> 'b result) \<Rightarrow> 'b result" where
  "bind_r m f = (case m of Inl e \<Rightarrow> Inl e | Inr x \<Rightarrow> f x)"

text \<open>Python's \<open>a % b\<close> on ints: the result has the sign of \<open>b\<close>, as HOL's \<open>mod\<close> on
  \<open>int\<close>; \<open>b = 0\<close> raises instead of returning \<open>a\<close>.\<close>

definition py_mod :: "int \<Rightarrow> int \<Rightarrow> int result" where
  "py_mod a b = (if b = 0 then Inl ZeroDivisionError else Inr (a mod b))"

subsection \<open>Sequencing of results\<close>

lemma bind_r_Inl [simp]: "bind_r (Inl e) f = Inl e"
  by (simp add: bind_r_def)

lemma bind_r_Inr [simp]: "bind_r (Inr x) f = f x"
  by (simp add: bind_r_def)

lemma bind_r_eq_Inr:
  "bind_r m f = Inr y \<longleftrightarrow> (\<exists>x. m = Inr x \<and> f x = Inr y)"
  by (cases m) auto

lemma bind_r_eq_Inl:
  "bind_r m f = Inl e \<longleftrightarrow> m = Inl e \<or> (\<exists>x. m = Inr x \<and> f x = Inl e)"
  by (cases m) auto

lemma bind_r_assoc: "bind_r (bind_r m f) g = bind_r m (\<lambda>x. bind_r (f x) g)"
  by (cases m) auto

lemma py_mod_ok [model_simps]: "b \<noteq> 0 \<Longrightarrow> py_mod a b = Inr (a mod b)"
  by (simp add: py_mod_def)

lemma py_mod_zero [model_simps]: "py_mod a 0 = Inl ZeroDivisionError"
  by (simp add: py_mod_def)

lemma bind_r_InrE:
  assumes "bind_r m f = Inr y"
  obtains x where "m = Inr x" and "f x = Inr y"
  using assms by (cases m) auto

subsection \<open>Lists\<close>

lemma count_list_concat: "count_list (concat xss) x = sum_list (map (\<lambda>xs. count_list xs x) xss)"
  by (induction xss) auto

lemma count_list_concat_replicate:
  "count_list (concat (replicate n xs)) x = n * count_list xs x"
  by (induction n) auto


lemma count_list_map_inj_zero:
  "(\<And>x. f x \<noteq> c) \<Longrightarrow> count_list (map f xs) c = 0"
  by (induction xs) auto

lemma sum_list_replicate_nat: "sum_list (replicate n (c::nat)) = n * c"
  by (induction n) auto

end
