(* ===== verification/TensorTools.thy ===== *)
theory TensorTools
  imports Prelude
begin

text \<open>
  The recursive tensor helpers of \<^verbatim>\<open>src/glio/torch_tools.py\<close> (lines 16--45):
  \<open>to_device\<close>, \<open>smart_detach\<close>, \<open>smart_to_cpu\<close>, \<open>smart_detach_cpu\<close> and
  \<open>smart_to_float\<close>.  A Python value the helpers can meet is a \<open>pyval\<close>: a tensor, a
  list, a tuple, or a leaf they return unchanged.  A tensor is its data, its device and
  whether it is attached to the autograd graph; \<open>Tensor.to\<close>, \<open>.detach()\<close> and
  \<open>.cpu()\<close> are the framework operations on those three fields.
\<close>

datatype device = Cpu | Cuda

datatype tensor = Tensor (t_vals: "real list") (t_dev: device) (t_grad: bool)

datatype pyval =
    PTensor tensor
  | PList "pyval list"
  | PTuple "pyval list"
  | PFloat real
  | PInt int
  | PStr string
  | PNone

subsection \<open>Framework operations on one tensor\<close>

definition tensor_to :: "device \<Rightarrow> tensor \<Rightarrow> tensor" where
  "tensor_to d t = Tensor (t_vals t) d (t_grad t)"

definition tensor_detach :: "tensor \<Rightarrow> tensor" where
  "tensor_detach t = Tensor (t_vals t) (t_dev t) False"

definition numel :: "tensor \<Rightarrow> nat" where
  "numel t = length (t_vals t)"

subsection \<open>The recursive helpers\<close>

fun to_device :: "pyval \<Rightarrow> device option \<Rightarrow> pyval" where
  "to_device x None = x"
| "to_device (PTensor t) (Some d) = PTensor (tensor_to d t)"
| "to_device (PList xs) (Some d) = PList (map (\<lambda>i. to_device i (Some d)) xs)"
| "to_device (PTuple xs) (Some d) = PList (map (\<lambda>i. to_device i (Some d)) xs)"
| "to_device x (Some d) = x"

fun smart_detach :: "pyval \<Rightarrow> pyval" where
  "smart_detach (PTensor t) = PTensor (tensor_detach t)"
| "smart_detach (PList xs) = PList (map smart_detach xs)"
| "smart_detach (PTuple xs) = PList (map smart_detach xs)"
| "smart_detach x = x"

fun smart_to_cpu :: "pyval \<Rightarrow> pyval" where
  "smart_to_cpu (PTensor t) = PTensor (tensor_to Cpu t)"
| "smart_to_cpu (PList xs) = PList (map smart_to_cpu xs)"
| "smart_to_cpu (PTuple xs) = PList (map smart_to_cpu xs)"
| "smart_to_cpu x = x"

fun smart_detach_cpu :: "pyval \<Rightarrow> pyval" where
  "smart_detach_cpu (PTensor t) = PTensor (tensor_to Cpu (tensor_detach t))"
| "smart_detach_cpu (PList xs) = PList (map smart_detach_cpu xs)"
| "smart_detach_cpu (PTuple xs) = PList (map smart_detach_cpu xs)"
| "smart_detach_cpu x = x"


subsection \<open>Observations on values\<close>

text \<open>The tensors of a value, left to right, and its shape: the value with every tensor
  replaced by its data and every tuple read as a list (the helpers return lists).\<close>

fun pv_tensors :: "pyval \<Rightarrow> tensor list" where
  "pv_tensors (PTensor t) = [t]"
| "pv_tensors (PList xs) = concat (map pv_tensors xs)"
| "pv_tensors (PTuple xs) = concat (map pv_tensors xs)"
| "pv_tensors x = []"

definition requires_grad :: "pyval \<Rightarrow> bool" where
  "requires_grad v = (case v of PTensor t \<Rightarrow> t_grad t | _ \<Rightarrow> False)"

definition detached :: "pyval \<Rightarrow> bool" where
  "detached v = list_all (\<lambda>t. \<not> t_grad t) (pv_tensors v)"

definition on_device :: "device \<Rightarrow> pyval \<Rightarrow> bool" where
  "on_device d v = list_all (\<lambda>t. t_dev t = d) (pv_tensors v)"

text \<open>The shape of a value: tuples read as lists (every helper returns lists) and each
  tensor reduced to its data, with device and autograd flag erased.\<close>

fun pv_shape :: "pyval \<Rightarrow> pyval" where
  "pv_shape (PTensor t) = PTensor (Tensor (t_vals t) Cpu False)"
| "pv_shape (PList xs) = PList (map pv_shape xs)"
| "pv_shape (PTuple xs) = PList (map pv_shape xs)"
| "pv_shape x = x"

lemmas tensor_ops = tensor_to_def tensor_detach_def numel_def

subsection \<open>Each helper acts on the tensors of a value one by one\<close>

lemma pv_tensors_to_device:
  "pv_tensors (to_device x (Some d)) = map (tensor_to d) (pv_tensors x)"
  by (induction x) (auto simp: map_concat comp_def cong: map_cong)

lemma pv_tensors_smart_detach:
  "pv_tensors (smart_detach x) = map tensor_detach (pv_tensors x)"
  by (induction x) (auto simp: map_concat comp_def cong: map_cong)

lemma pv_tensors_smart_to_cpu:
  "pv_tensors (smart_to_cpu x) = map (tensor_to Cpu) (pv_tensors x)"
  by (induction x) (auto simp: map_concat comp_def cong: map_cong)

lemma pv_tensors_smart_detach_cpu:
  "pv_tensors (smart_detach_cpu x) = map (tensor_to Cpu \<circ> tensor_detach) (pv_tensors x)"
  by (induction x) (auto simp: map_concat comp_def cong: map_cong)

lemma pv_shape_tensor_maps:
  "pv_shape (to_device x (Some d)) = pv_shape x"
  "pv_shape (smart_detach x) = pv_shape x"
  "pv_shape (smart_to_cpu x) = pv_shape x"
  "pv_shape (smart_detach_cpu x) = pv_shape x"
  by (induction x) (auto simp: tensor_ops comp_def cong: map_cong)

lemma detached_iff: "detached v \<longleftrightarrow> (\<forall>t \<in> set (pv_tensors v). \<not> t_grad t)"
  by (simp add: detached_def list_all_iff)

lemma on_device_iff: "on_device d v \<longleftrightarrow> (\<forall>t \<in> set (pv_tensors v). t_dev t = d)"
  by (simp add: on_device_def list_all_iff)

lemma detached_smart_detach: "detached (smart_detach x)"
  by (simp add: detached_iff pv_tensors_smart_detach tensor_ops)

lemma requires_grad_detached: "detached v \<Longrightarrow> \<not> requires_grad v"
  by (cases v) (auto simp: detached_def requires_grad_def)


text \<open>The collection of facts the component proofs about these helpers share.\<close>

lemmas pv_tensors_helpers =
  pv_tensors_to_device pv_tensors_smart_detach pv_tensors_smart_to_cpu
  pv_tensors_smart_detach_cpu

subsection \<open>Properties of the helpers\<close>

text \<open>C12. \<open>smart_detach_cpu\<close> is equivalent to detaching and then moving to the CPU, and
  to moving and then detaching: the one-pass helper agrees with the composition of the two
  others on every value.\<close>

theorem smart_detach_cpu_equiv:
  "smart_detach_cpu x = smart_to_cpu (smart_detach x) \<and> smart_detach_cpu x = smart_detach (smart_to_cpu x)"
proof
  show "smart_detach_cpu x = smart_to_cpu (smart_detach x)"
    by (induction x) (auto simp: tensor_ops cong: map_cong)
  show "smart_detach_cpu x = smart_detach (smart_to_cpu x)"
    by (induction x) (auto simp: tensor_ops cong: map_cong)
qed

text \<open>C13. What \<open>smart_detach_cpu\<close> returns is safe to keep: no tensor in it is
  attached to the autograd graph, every tensor is on the CPU, and the data and nesting of
  the value are unchanged (tuples read as lists).\<close>

theorem smart_detach_cpu_safe:
  "detached (smart_detach_cpu x) \<and> on_device Cpu (smart_detach_cpu x) \<and> pv_shape (smart_detach_cpu x) = pv_shape x"
  by (simp add: detached_iff on_device_iff pv_tensors_smart_detach_cpu pv_shape_tensor_maps tensor_ops)

text \<open>C14. \<open>to_device\<close> with a device puts every tensor of the value on that device
  and keeps data, nesting and autograd flags; with \<open>None\<close> it returns the value
  itself.\<close>

theorem to_device_moves:
  "on_device d (to_device x (Some d)) \<and> pv_shape (to_device x (Some d)) = pv_shape x \<and>
   map t_grad (pv_tensors (to_device x (Some d))) = map t_grad (pv_tensors x) \<and> to_device x None = x"
  by (simp add: on_device_iff pv_tensors_to_device pv_shape_tensor_maps tensor_ops comp_def)

text \<open>C15. Each of \<open>smart_detach\<close> and \<open>smart_to_cpu\<close> does half of what both
  docstrings promise (detach and move to the CPU): \<open>smart_detach\<close> leaves every
  tensor on its device and \<open>smart_to_cpu\<close> leaves every autograd flag as it was.\<close>

theorem smart_detach_to_cpu_halves:
  "map t_dev (pv_tensors (smart_detach x)) = map t_dev (pv_tensors x) \<and>
   map t_grad (pv_tensors (smart_to_cpu x)) = map t_grad (pv_tensors x)"
  by (simp add: pv_tensors_smart_detach pv_tensors_smart_to_cpu tensor_ops comp_def)


end
