(* ===== verification/Learner.thy ===== *)
theory Learner
  imports TensorTools
begin

text \<open>
  The event-driven training loop of \<^verbatim>\<open>src/glio/train/cbs_default.py\<close>: the default
  callbacks a \<open>Learner\<close> dispatches its events to.  The learner is a record of the
  fields the callbacks read and write; the framework objects it holds (model, loss
  function, optimizer, scheduler, accelerator) appear through what the callbacks observe
  of them: the model and loss function as functions on values, the others by whether
  they are present or have \<open>train\<close>/\<open>eval\<close> methods.  Every framework call a callback
  makes is appended, in order, to the field \<open>calls\<close>; an event or context of the
  learner is appended the same way.  A raised exception is an \<open>Inl\<close> result.
  \<open>torch.no_grad()\<close> is the flag \<open>grad_enabled\<close>: under it, what the model and the
  loss function return is detached from the autograd graph.
\<close>

datatype fw_call =
    ModelTrain | ModelEval | OptTrain | OptEval
  | ModelForward | LossFn
  | ZeroGrad | LossBackward | AccelBackward | OptimizerStep | SchedulerStep
  | Event string | ContextEnter string | ContextExit string

record learner =
  model :: "pyval \<Rightarrow> pyval"
  loss_fn :: "pyval \<Rightarrow> pyval \<Rightarrow> pyval"
  model_has_mode :: bool
  opt_has_mode :: bool
  model_training :: bool
  opt_training :: bool
  accelerator :: bool
  scheduler :: bool
  device :: device
  grad_enabled :: bool
  preds :: pyval
  loss :: pyval
  cur_batch :: nat
  cur_epoch :: int
  total_epoch :: nat
  total_batch :: nat
  logger :: "(string \<times> pyval \<times> nat) list"
  calls :: "fw_call list"

type_synonym batches = "(pyval \<times> pyval) list"

definition record_call :: "learner \<Rightarrow> fw_call \<Rightarrow> learner" where
  "record_call l c = l\<lparr>calls := calls l @ [c]\<rparr>"

subsection \<open>Framework behaviour the callbacks rely on\<close>

definition run_model :: "learner \<Rightarrow> pyval \<Rightarrow> pyval" where
  "run_model l x = (if grad_enabled l then model l x else smart_detach (model l x))"

definition run_loss :: "learner \<Rightarrow> pyval \<Rightarrow> pyval \<Rightarrow> pyval" where
  "run_loss l p t = (if grad_enabled l then loss_fn l p t else smart_detach (loss_fn l p t))"

text \<open>\<open>loss.backward()\<close>: a tensor outside the autograd graph raises
  \<open>RuntimeError\<close>, a value that is no tensor has no \<open>backward\<close>.\<close>

definition tensor_backward :: "pyval \<Rightarrow> py_error option" where
  "tensor_backward v =
     (case v of PTensor t \<Rightarrow> if t_grad t then None else Some RuntimeError
      | _ \<Rightarrow> Some AttributeError)"

text \<open>\<open>x.to(device)\<close> on a batch element: a method of tensors only.\<close>

definition tensor_to_dev :: "device \<Rightarrow> pyval \<Rightarrow> pyval result" where
  "tensor_to_dev d v = (case v of PTensor t \<Rightarrow> Inr (PTensor (tensor_to d t)) | _ \<Rightarrow> Inl AttributeError)"

subsection \<open>The primitive callbacks\<close>

definition forward_cb :: "learner \<Rightarrow> pyval \<Rightarrow> learner \<times> pyval" where
  "forward_cb l inputs =
     (let p = run_model l inputs in (record_call (l\<lparr>preds := p\<rparr>) ModelForward, p))"

definition get_loss_cb :: "learner \<Rightarrow> pyval \<Rightarrow> pyval \<Rightarrow> learner \<times> pyval" where
  "get_loss_cb l p t =
     (let v = run_loss l p t in (record_call (l\<lparr>loss := v\<rparr>) LossFn, v))"

definition backward_cb :: "learner \<Rightarrow> learner result" where
  "backward_cb l =
     (if \<not> accelerator l
      then (case tensor_backward (loss l) of Some e \<Rightarrow> Inl e
            | None \<Rightarrow> Inr (record_call l LossBackward))
      else (case tensor_backward (loss l) of Some e \<Rightarrow> Inl e
            | None \<Rightarrow> Inr (record_call l AccelBackward)))"

definition optimizer_step_cb :: "learner \<Rightarrow> learner" where
  "optimizer_step_cb l = record_call l OptimizerStep"

definition zero_grad_cb :: "learner \<Rightarrow> learner" where
  "zero_grad_cb l = record_call l ZeroGrad"

definition scheduler_step_cb :: "learner \<Rightarrow> learner" where
  "scheduler_step_cb l = (if scheduler l then record_call l SchedulerStep else l)"

definition train_cb :: "learner \<Rightarrow> learner" where
  "train_cb l =
     (let l1 = (if model_has_mode l then record_call (l\<lparr>model_training := True\<rparr>) ModelTrain else l)
      in if opt_has_mode l1 then record_call (l1\<lparr>opt_training := True\<rparr>) OptTrain else l1)"

definition eval_cb :: "learner \<Rightarrow> learner" where
  "eval_cb l =
     (let l1 = (if model_has_mode l then record_call (l\<lparr>model_training := False\<rparr>) ModelEval else l)
      in if opt_has_mode l1 then record_call (l1\<lparr>opt_training := False\<rparr>) OptEval else l1)"

subsection \<open>One batch, one epoch, fit\<close>

text \<open>The backpropagation block of \<open>DefaultOneBatchCB\<close>, run when \<open>train\<close> holds.\<close>

definition backprop :: "learner \<Rightarrow> learner result" where
  "backprop l =
     bind_r (backward_cb (zero_grad_cb l)) (\<lambda>l'. Inr (scheduler_step_cb (optimizer_step_cb l')))"

text \<open>Line 89: without an accelerator both batch elements are moved with \<open>.to\<close>.\<close>

definition move_batch :: "learner \<Rightarrow> pyval \<Rightarrow> pyval \<Rightarrow> (pyval \<times> pyval) result" where
  "move_batch l inputs targets =
     (if accelerator l then Inr (inputs, targets)
      else bind_r (tensor_to_dev (device l) inputs)
             (\<lambda>i. bind_r (tensor_to_dev (device l) targets) (\<lambda>t. Inr (i, t))))"

text \<open>Lines 90--103: the block under \<open>nullcontext()\<close> (training) or \<open>torch.no_grad()\<close>;
  leaving the block restores the autograd mode.\<close>

definition batch_body :: "learner \<Rightarrow> pyval \<Rightarrow> pyval \<Rightarrow> bool \<Rightarrow> learner result" where
  "batch_body l inputs targets train =
     (let g = grad_enabled l;
          l2 = fst (forward_cb (l\<lparr>grad_enabled := g \<and> train\<rparr>) inputs);
          l3 = fst (get_loss_cb l2 (preds l2) targets)
      in bind_r (if train then backprop l3 else Inr l3) (\<lambda>l4. Inr (l4\<lparr>grad_enabled := g\<rparr>)))"

definition one_batch_cb :: "learner \<Rightarrow> pyval \<Rightarrow> pyval \<Rightarrow> bool \<Rightarrow> learner result" where
  "one_batch_cb l inputs targets train =
     (let l1 = train_cb l in
      bind_r (move_batch l1 inputs targets) (\<lambda>(i, t). batch_body l1 i t train))"

fun one_epoch_loop :: "learner \<Rightarrow> nat \<Rightarrow> batches \<Rightarrow> bool \<Rightarrow> learner result" where
  "one_epoch_loop l i [] train = Inr l"
| "one_epoch_loop l i ((x, y) # bs) train =
     bind_r (one_batch_cb (l\<lparr>cur_batch := i\<rparr>) x y train) (\<lambda>l'. one_epoch_loop l' (Suc i) bs train)"

definition one_epoch_cb :: "learner \<Rightarrow> batches \<Rightarrow> bool \<Rightarrow> learner result" where
  "one_epoch_cb l dl train = one_epoch_loop l 0 dl train"

text \<open>The three blocks of one iteration of the loop of \<open>DefaultFitCB\<close>: the test
  epoch before the first (lines 138--139), the training epoch (142--143) and the test epoch
  every \<open>test_every\<close> epochs (146--147), whose \<open>%\<close> is evaluated only when there is
  a test loader.\<close>

definition test_first_step :: "learner \<Rightarrow> batches option \<Rightarrow> bool \<Rightarrow> learner result" where
  "test_first_step l dltest test_first =
     (case dltest of
        Some dl \<Rightarrow> if cur_epoch l = 0 \<and> test_first then one_epoch_cb l dl False else Inr l
      | None \<Rightarrow> Inr l)"

definition train_step :: "learner \<Rightarrow> batches option \<Rightarrow> learner result" where
  "train_step l dltrain = (case dltrain of Some dl \<Rightarrow> one_epoch_cb l dl True | None \<Rightarrow> Inr l)"

definition test_step :: "learner \<Rightarrow> batches option \<Rightarrow> int \<Rightarrow> learner result" where
  "test_step l dltest test_every =
     (case dltest of
        Some dl \<Rightarrow> bind_r (py_mod (cur_epoch l) test_every)
                     (\<lambda>r. if r = 0 then one_epoch_cb l dl False else Inr l)
      | None \<Rightarrow> Inr l)"

text \<open>One iteration (lines 134--150): the epoch counter is set by the \<open>for\<close>, the
  blocks run inside the \<open>full_epoch\<close> context, between the two epoch events, and
  \<open>total_epoch\<close> is incremented last inside the context.\<close>

definition fit_epoch ::
  "learner \<Rightarrow> int \<Rightarrow> batches option \<Rightarrow> batches option \<Rightarrow> bool \<Rightarrow> int \<Rightarrow> learner result" where
  "fit_epoch l e dltrain dltest test_first test_every =
     bind_r (test_first_step (record_call (record_call (l\<lparr>cur_epoch := e\<rparr>) (Event ''before_epoch''))
                                (ContextEnter ''full_epoch'')) dltest test_first)
       (\<lambda>l2. bind_r (train_step l2 dltrain)
         (\<lambda>l3. bind_r (test_step l3 dltest test_every)
           (\<lambda>l4. Inr (record_call (record_call (l4\<lparr>total_epoch := Suc (total_epoch l4)\<rparr>)
                      (ContextExit ''full_epoch'')) (Event ''after_epoch'')))))"

fun fit_cb ::
  "learner \<Rightarrow> int list \<Rightarrow> batches option \<Rightarrow> batches option \<Rightarrow> bool \<Rightarrow> int \<Rightarrow> learner result" where
  "fit_cb l [] dltrain dltest test_first test_every = Inr l"
| "fit_cb l (e # es) dltrain dltest test_first test_every =
     bind_r (fit_epoch l e dltrain dltest test_first test_every)
       (\<lambda>l'. fit_cb l' es dltrain dltest test_first test_every)"

subsection \<open>Inference and logging\<close>

text \<open>\<open>DefaultInferenceCB\<close> imports \<open>ensure_device\<close>, \<open>ensure_detach\<close> and
  \<open>ensure_detach_cpu\<close> from \<^verbatim>\<open>torch_tools.py\<close>, which defines them under the names
  \<open>to_device\<close>, \<open>smart_detach\<close> and \<open>smart_detach_cpu\<close>; those are used here.\<close>

definition inference_cb :: "learner \<Rightarrow> pyval \<Rightarrow> bool \<Rightarrow> learner \<times> pyval" where
  "inference_cb l batch to_cpu =
     (let l1 = eval_cb l;
          b = to_device batch (Some (device l1));
          g = grad_enabled l1;
          (l2, out) = forward_cb (l1\<lparr>grad_enabled := False\<rparr>) b
      in (l2\<lparr>grad_enabled := g\<rparr>, if to_cpu then smart_detach_cpu out else smart_detach out))"

definition log_cb :: "learner \<Rightarrow> string \<Rightarrow> pyval \<Rightarrow> learner" where
  "log_cb l metric value = l\<lparr>logger := logger l @ [(metric, value, total_batch l)]\<rparr>"

subsection \<open>Specifications of the call traces\<close>

text \<open>What one batch, one epoch and one iteration of \<open>fit\<close> are meant to do, as the
  framework calls they issue: \<open>train_calls\<close> and \<open>eval_calls\<close> are the mode
  switches of \<open>DefaultTrainCB\<close> and \<open>DefaultEvalCB\<close>; a batch switches to training
  mode, predicts, computes the loss and, when it trains, zeroes the gradients,
  backpropagates, steps the optimizer and then the scheduler.\<close>

definition train_calls :: "learner \<Rightarrow> fw_call list" where
  "train_calls l = (if model_has_mode l then [ModelTrain] else []) @ (if opt_has_mode l then [OptTrain] else [])"

definition eval_calls :: "learner \<Rightarrow> fw_call list" where
  "eval_calls l = (if model_has_mode l then [ModelEval] else []) @ (if opt_has_mode l then [OptEval] else [])"

definition batch_calls :: "learner \<Rightarrow> bool \<Rightarrow> fw_call list" where
  "batch_calls l train =
     train_calls l @ [ModelForward, LossFn] @
     (if train then [ZeroGrad, if accelerator l then AccelBackward else LossBackward, OptimizerStep] @
                    (if scheduler l then [SchedulerStep] else [])
      else [])"

definition epoch_calls :: "learner \<Rightarrow> batches \<Rightarrow> bool \<Rightarrow> fw_call list" where
  "epoch_calls l dl train = concat (replicate (length dl) (batch_calls l train))"

definition opt_epoch_calls :: "learner \<Rightarrow> batches option \<Rightarrow> bool \<Rightarrow> fw_call list" where
  "opt_epoch_calls l dl train = (case dl of None \<Rightarrow> [] | Some d \<Rightarrow> epoch_calls l d train)"

definition fit_epoch_calls ::
  "learner \<Rightarrow> int \<Rightarrow> batches option \<Rightarrow> batches option \<Rightarrow> bool \<Rightarrow> int \<Rightarrow> fw_call list" where
  "fit_epoch_calls l e dltrain dltest test_first test_every =
     [Event ''before_epoch'', ContextEnter ''full_epoch''] @
     (if e = 0 \<and> test_first then opt_epoch_calls l dltest False else []) @
     opt_epoch_calls l dltrain True @
     (if e mod test_every = 0 then opt_epoch_calls l dltest False else []) @
     [ContextExit ''full_epoch'', Event ''after_epoch'']"

text \<open>The part of the learner no callback of a batch writes, and the fields an epoch keeps.\<close>

definition batch_config ::
  "learner \<Rightarrow> (pyval \<Rightarrow> pyval) \<times> (pyval \<Rightarrow> pyval \<Rightarrow> pyval) \<times> bool \<times> bool \<times> bool \<times> bool \<times> device" where
  "batch_config l = (model l, loss_fn l, model_has_mode l, opt_has_mode l, accelerator l, scheduler l, device l)"

definition keeps_config :: "learner \<Rightarrow> learner \<Rightarrow> bool" where
  "keeps_config l l' \<longleftrightarrow> batch_config l' = batch_config l \<and> grad_enabled l' = grad_enabled l \<and>
     cur_epoch l' = cur_epoch l \<and> total_epoch l' = total_epoch l"

text \<open>When a run of \<open>fit\<close> cannot raise: the batch elements are tensors (or an
  accelerator places them), the loss of every training batch is attached to the autograd
  graph, autograd is on, and \<open>test_every\<close> is not zero when there is a test loader.\<close>

definition is_tensor :: "pyval \<Rightarrow> bool" where
  "is_tensor v = (case v of PTensor _ \<Rightarrow> True | _ \<Rightarrow> False)"

definition moved :: "learner \<Rightarrow> pyval \<Rightarrow> pyval" where
  "moved l v = (if accelerator l then v else to_device v (Some (device l)))"

definition batch_ready :: "learner \<Rightarrow> pyval \<times> pyval \<Rightarrow> bool" where
  "batch_ready l b = (accelerator l \<or> is_tensor (fst b) \<and> is_tensor (snd b))"

definition loss_ok :: "learner \<Rightarrow> pyval \<times> pyval \<Rightarrow> bool" where
  "loss_ok l b = (tensor_backward (loss_fn l (model l (moved l (fst b))) (moved l (snd b))) = None)"

definition loader_batches :: "batches option \<Rightarrow> batches" where
  "loader_batches dl = (case dl of None \<Rightarrow> [] | Some d \<Rightarrow> d)"

definition fit_ready :: "learner \<Rightarrow> batches option \<Rightarrow> batches option \<Rightarrow> int \<Rightarrow> bool" where
  "fit_ready l dltrain dltest test_every \<longleftrightarrow>
     grad_enabled l \<and> (dltest \<noteq> None \<longrightarrow> test_every \<noteq> 0) \<and>
     (\<forall>b \<in> set (loader_batches dltrain). batch_ready l b \<and> loss_ok l b) \<and>
     (\<forall>b \<in> set (loader_batches dltest). batch_ready l b)"

text \<open>A concrete learner for the witnesses: a model whose output is attached to the
  graph, the prediction as loss, a scheduler, no accelerator, the model on CUDA.\<close>

definition ex_model :: "pyval \<Rightarrow> pyval" where
  "ex_model x = (case x of PTensor t \<Rightarrow> PTensor (Tensor (t_vals t) (t_dev t) True) | v \<Rightarrow> v)"

definition ex_learner :: learner where
  "ex_learner = \<lparr>model = ex_model, loss_fn = (\<lambda>p t. p), model_has_mode = True, opt_has_mode = False,
     model_training = False, opt_training = False, accelerator = False, scheduler = True,
     device = Cuda, grad_enabled = True, preds = PNone, loss = PNone, cur_batch = 0, cur_epoch = 0,
     total_epoch = 0, total_batch = 0, logger = [], calls = []\<rparr>"

definition ex_batch :: "pyval \<times> pyval" where
  "ex_batch = (PTensor (Tensor [1] Cpu False), PTensor (Tensor [0] Cpu False))"

subsection \<open>Lemmas: one batch\<close>

lemma train_cb_fields [simp]:
  "calls (train_cb l) = calls l @ train_calls l"
  "model_training (train_cb l) = (model_has_mode l \<or> model_training l)"
  "model (train_cb l) = model l" "loss_fn (train_cb l) = loss_fn l"
  "model_has_mode (train_cb l) = model_has_mode l" "opt_has_mode (train_cb l) = opt_has_mode l"
  "accelerator (train_cb l) = accelerator l" "scheduler (train_cb l) = scheduler l"
  "device (train_cb l) = device l" "grad_enabled (train_cb l) = grad_enabled l"
  "cur_batch (train_cb l) = cur_batch l" "cur_epoch (train_cb l) = cur_epoch l"
  "total_epoch (train_cb l) = total_epoch l" "total_batch (train_cb l) = total_batch l"
  by (simp_all add: train_cb_def record_call_def train_calls_def Let_def)

lemma backprop_Inr:
  "backprop l = Inr l' \<longleftrightarrow> tensor_backward (loss l) = None \<and>
     l' = scheduler_step_cb (optimizer_step_cb (record_call (zero_grad_cb l) (if accelerator l then AccelBackward else LossBackward)))"
  by (auto simp: backprop_def backward_cb_def zero_grad_cb_def record_call_def bind_r_eq_Inr split: option.splits)

text \<open>The body of a batch in closed form.\<close>

lemma batch_body_Inr:
  "batch_body l i t train = Inr l' \<longleftrightarrow>
   (let p = run_model (l\<lparr>grad_enabled := grad_enabled l \<and> train\<rparr>) i;
        v = run_loss (l\<lparr>grad_enabled := grad_enabled l \<and> train\<rparr>) p t
    in (train \<longrightarrow> tensor_backward v = None) \<and>
       l' = l\<lparr>preds := p, loss := v,
              calls := calls l @ [ModelForward, LossFn] @
                (if train then [ZeroGrad, if accelerator l then AccelBackward else LossBackward, OptimizerStep] @
                    (if scheduler l then [SchedulerStep] else []) else [])\<rparr>)"
  by (auto simp: batch_body_def Let_def backprop_Inr forward_cb_def get_loss_cb_def record_call_def
      optimizer_step_cb_def zero_grad_cb_def scheduler_step_cb_def run_loss_def bind_r_eq_Inr)

lemma one_batch_Inr:
  "one_batch_cb l x y train = Inr l' \<longleftrightarrow>
   (\<exists>i t. move_batch (train_cb l) x y = Inr (i, t) \<and> batch_body (train_cb l) i t train = Inr l')"
  unfolding one_batch_cb_def Let_def bind_r_eq_Inr by auto

lemma one_batch_cases:
  assumes "one_batch_cb l x y train = Inr l'"
  obtains i t where "move_batch (train_cb l) x y = Inr (i, t)"
    and "train \<Longrightarrow> tensor_backward (run_loss ((train_cb l)\<lparr>grad_enabled := grad_enabled l\<rparr>)
           (run_model ((train_cb l)\<lparr>grad_enabled := grad_enabled l\<rparr>) i) t) = None"
    and "l' = (train_cb l)\<lparr>preds := run_model ((train_cb l)\<lparr>grad_enabled := grad_enabled l \<and> train\<rparr>) i,
              loss := run_loss ((train_cb l)\<lparr>grad_enabled := grad_enabled l \<and> train\<rparr>)
                        (run_model ((train_cb l)\<lparr>grad_enabled := grad_enabled l \<and> train\<rparr>) i) t,
              calls := calls (train_cb l) @ [ModelForward, LossFn] @
                (if train then [ZeroGrad, if accelerator l then AccelBackward else LossBackward, OptimizerStep] @
                    (if scheduler l then [SchedulerStep] else []) else [])\<rparr>"
proof -
  from assms obtain i t where mv: "move_batch (train_cb l) x y = Inr (i, t)"
    and bb: "batch_body (train_cb l) i t train = Inr l'"
    by (auto simp: one_batch_Inr)
  from bb show thesis
    by (intro that [OF mv]) (auto simp: batch_body_Inr Let_def)
qed

lemma one_batch_calls:
  assumes "one_batch_cb l x y train = Inr l'"
  shows "calls l' = calls l @ batch_calls l train"
  using assms by (rule one_batch_cases) (simp add: batch_calls_def)

lemma one_batch_frame:
  assumes "one_batch_cb l x y train = Inr l'"
  shows "batch_config l' = batch_config l \<and> grad_enabled l' = grad_enabled l \<and>
     cur_batch l' = cur_batch l \<and> cur_epoch l' = cur_epoch l \<and> total_epoch l' = total_epoch l"
  using assms by (rule one_batch_cases) (simp add: batch_config_def)

lemma tensor_backward_detach: "tensor_backward (smart_detach v) \<noteq> None"
  by (cases v) (auto simp: tensor_backward_def tensor_detach_def)

subsection \<open>Lemmas: epochs and fit\<close>

lemma batch_calls_config:
  "batch_config l' = batch_config l \<Longrightarrow> batch_calls l' train = batch_calls l train"
  by (simp add: batch_config_def batch_calls_def train_calls_def)

lemma one_epoch_loop_calls:
  assumes "one_epoch_loop l i dl train = Inr l'"
  shows "calls l' = calls l @ epoch_calls l dl train \<and> batch_config l' = batch_config l \<and>
    grad_enabled l' = grad_enabled l \<and> cur_epoch l' = cur_epoch l \<and> total_epoch l' = total_epoch l \<and>
    cur_batch l' = (if dl = [] then cur_batch l else i + length dl - 1)"
  using assms
proof (induction dl arbitrary: l i)
  case Nil
  then show ?case by (simp add: epoch_calls_def)
next
  case (Cons b bs)
  obtain x y where b: "b = (x, y)" by (cases b)
  from Cons.prems b obtain l1 where
    s1: "one_batch_cb (l\<lparr>cur_batch := i\<rparr>) x y train = Inr l1" and
    s2: "one_epoch_loop l1 (Suc i) bs train = Inr l'"
    by (auto simp: bind_r_eq_Inr)
  have c1: "calls l1 = calls l @ batch_calls l train"
    using one_batch_calls [OF s1] batch_calls_config[of "l\<lparr>cur_batch := i\<rparr>" l]
    by (simp add: batch_config_def)
  have f1: "batch_config l1 = batch_config l" "grad_enabled l1 = grad_enabled l"
      "cur_epoch l1 = cur_epoch l" "total_epoch l1 = total_epoch l" "cur_batch l1 = i"
    using one_batch_frame [OF s1] by (simp_all add: batch_config_def)
  from Cons.IH [OF s2] c1 f1 batch_calls_config [OF f1(1)] show ?case
    by (auto simp: epoch_calls_def)
qed

lemma keeps_config_record_call [simp]: "keeps_config l (record_call l c)"
  by (simp add: keeps_config_def batch_config_def record_call_def)

lemma one_epoch_cb_ok:
  assumes "one_epoch_cb l d train = Inr l'"
  shows "calls l' = calls l @ epoch_calls l d train \<and> keeps_config l l'"
  using one_epoch_loop_calls [OF assms [unfolded one_epoch_cb_def]] by (simp add: keeps_config_def)

lemma opt_epoch_step:
  assumes "(case dl of Some d \<Rightarrow> one_epoch_cb l d train | None \<Rightarrow> Inr l) = Inr l'"
  shows "calls l' = calls l @ opt_epoch_calls l dl train \<and> keeps_config l l'"
proof (cases dl)
  case None
  with assms show ?thesis by (simp add: opt_epoch_calls_def keeps_config_def)
next
  case (Some d)
  with assms one_epoch_cb_ok [of l d train l'] show ?thesis by (simp add: opt_epoch_calls_def)
qed

lemma opt_epoch_calls_config:
  assumes "batch_config l' = batch_config l"
  shows "opt_epoch_calls l' dl train = opt_epoch_calls l dl train"
  by (cases dl) (simp_all add: opt_epoch_calls_def epoch_calls_def batch_calls_config [OF assms])

lemma keeps_config_trans: "keeps_config l l1 \<Longrightarrow> keeps_config l1 l2 \<Longrightarrow> keeps_config l l2"
  by (simp add: keeps_config_def)

lemma opt_epoch_calls_if:
  "opt_epoch_calls l (if c then d else None) train = (if c then opt_epoch_calls l d train else [])"
  by (simp add: opt_epoch_calls_def)

lemma test_first_step_ok:
  assumes "test_first_step l dltest test_first = Inr l'"
  shows "calls l' = calls l @ (if cur_epoch l = 0 \<and> test_first then opt_epoch_calls l dltest False else [])
    \<and> keeps_config l l'"
proof (cases "cur_epoch l = 0 \<and> test_first")
  case True
  with assms have "(case dltest of Some d \<Rightarrow> one_epoch_cb l d False | None \<Rightarrow> Inr l) = Inr l'"
    by (cases dltest) (simp_all add: test_first_step_def)
  from opt_epoch_step [OF this] True show ?thesis by simp
next
  case False
  with assms have "l' = l" by (cases dltest) (simp_all add: test_first_step_def)
  with False show ?thesis by (simp add: keeps_config_def if_not_P [OF False])
qed

lemma train_step_ok:
  assumes "train_step l dltrain = Inr l'"
  shows "calls l' = calls l @ opt_epoch_calls l dltrain True \<and> keeps_config l l'"
  using assms unfolding train_step_def by (rule opt_epoch_step)

lemma test_step_ok:
  assumes "test_step l dltest test_every = Inr l'"
  shows "calls l' = calls l @ (if cur_epoch l mod test_every = 0 then opt_epoch_calls l dltest False else [])
    \<and> keeps_config l l' \<and> (dltest \<noteq> None \<longrightarrow> test_every \<noteq> 0)"
proof (cases dltest)
  case None
  with assms show ?thesis by (simp add: test_step_def opt_epoch_calls_def keeps_config_def)
next
  case (Some dl)
  from assms Some have nz: "test_every \<noteq> 0" by (auto simp: test_step_def py_mod_def)
  with assms Some have "(case (if cur_epoch l mod test_every = 0 then dltest else None) of
      Some d \<Rightarrow> one_epoch_cb l d False | None \<Rightarrow> Inr l) = Inr l'"
    by (auto simp: test_step_def py_mod_def split: if_splits)
  from opt_epoch_step [OF this] nz show ?thesis
    by (simp add: opt_epoch_calls_if)
qed

lemma fit_epoch_calls_ok:
  assumes "fit_epoch l e dltrain dltest test_first test_every = Inr l'"
  shows "calls l' = calls l @ fit_epoch_calls l e dltrain dltest test_first test_every \<and>
    batch_config l' = batch_config l \<and> grad_enabled l' = grad_enabled l \<and>
    total_epoch l' = Suc (total_epoch l) \<and> cur_epoch l' = e \<and> (dltest \<noteq> None \<longrightarrow> test_every \<noteq> 0)"
proof -
  define l1 where "l1 = record_call (record_call (l\<lparr>cur_epoch := e\<rparr>) (Event ''before_epoch''))
                 (ContextEnter ''full_epoch'')"
  from assms [unfolded fit_epoch_def, folded l1_def] obtain l2 l3 l4 where
    s2: "test_first_step l1 dltest test_first = Inr l2" and
    s3: "train_step l2 dltrain = Inr l3" and
    s4: "test_step l3 dltest test_every = Inr l4" and
    l': "Inr (record_call (record_call (l4\<lparr>total_epoch := Suc (total_epoch l4)\<rparr>)
                           (ContextExit ''full_epoch'')) (Event ''after_epoch'')) = Inr l'"
    by (elim bind_r_InrE) (simp add: that)
  have k1: "calls l1 = calls l @ [Event ''before_epoch'', ContextEnter ''full_epoch'']"
    "batch_config l1 = batch_config l" "grad_enabled l1 = grad_enabled l" "cur_epoch l1 = e"
    "total_epoch l1 = total_epoch l"
    by (simp_all add: l1_def record_call_def batch_config_def keeps_config_def)
  note k2 = test_first_step_ok [OF s2] and k3 = train_step_ok [OF s3] and k4 = test_step_ok [OF s4]
  have cfg12: "keeps_config l1 l2" using k2 by (rule conjunct2)
  have cfg13: "keeps_config l1 l3" by (rule keeps_config_trans [OF cfg12 conjunct2 [OF k3]])
  have cfg14: "keeps_config l1 l4" by (rule keeps_config_trans [OF cfg13 conjunct1 [OF conjunct2 [OF k4]]])
  have b: "batch_config l2 = batch_config l" "batch_config l3 = batch_config l"
    "batch_config l4 = batch_config l" "cur_epoch l3 = e" "cur_epoch l4 = e"
    "grad_enabled l4 = grad_enabled l" "total_epoch l4 = total_epoch l"
    using cfg12 cfg13 cfg14 k1 by (simp_all add: keeps_config_def)
  have c4: "calls l4 = calls l @ [Event ''before_epoch'', ContextEnter ''full_epoch''] @
     (if e = 0 \<and> test_first then opt_epoch_calls l dltest False else []) @
     opt_epoch_calls l dltrain True @
     (if e mod test_every = 0 then opt_epoch_calls l dltest False else [])"
    using k1 k2 k3 k4 b opt_epoch_calls_config [OF k1(2)] opt_epoch_calls_config [OF b(1)]
      opt_epoch_calls_config [OF b(2)]
    by simp
  from l' have "l' = record_call (record_call (l4\<lparr>total_epoch := Suc (total_epoch l4)\<rparr>)
                           (ContextExit ''full_epoch'')) (Event ''after_epoch'')" by simp
  with c4 b k4 show ?thesis
    by (simp add: fit_epoch_calls_def record_call_def batch_config_def)
qed

lemma fit_epoch_calls_config:
  assumes "batch_config l' = batch_config l"
  shows "fit_epoch_calls l' e dltrain dltest test_first test_every =
         fit_epoch_calls l e dltrain dltest test_first test_every"
  by (simp add: fit_epoch_calls_def opt_epoch_calls_config [OF assms])

lemma fit_cb_calls:
  assumes "fit_cb l es dltrain dltest test_first test_every = Inr l'"
  shows "calls l' = calls l @ concat (map (\<lambda>e. fit_epoch_calls l e dltrain dltest test_first test_every) es) \<and>
    total_epoch l' = total_epoch l + length es \<and> batch_config l' = batch_config l \<and>
    grad_enabled l' = grad_enabled l \<and> (es \<noteq> [] \<longrightarrow> cur_epoch l' = last es)"
  using assms
proof (induction es arbitrary: l)
  case Nil
  then show ?case by simp
next
  case (Cons e es)
  from Cons.prems [unfolded fit_cb.simps] obtain l1 where
    s1: "fit_epoch l e dltrain dltest test_first test_every = Inr l1" and
    s2: "fit_cb l1 es dltrain dltest test_first test_every = Inr l'"
    by (elim bind_r_InrE) (simp add: that)
  note h1 = fit_epoch_calls_ok [OF s1] and h2 = Cons.IH [OF s2]
  from h1 have cfg: "batch_config l1 = batch_config l" by simp
  show ?case
  proof (cases es)
    case Nil
    with s2 h1 show ?thesis by simp
  next
    case (Cons e' es')
    with h1 h2 fit_epoch_calls_config [OF cfg] show ?thesis by simp
  qed
qed

subsection \<open>Lemmas: progress\<close>

lemma batch_ready_config:
  "batch_config l' = batch_config l \<Longrightarrow> batch_ready l' b = batch_ready l b \<and> loss_ok l' b = loss_ok l b"
  by (simp add: batch_config_def batch_ready_def loss_ok_def moved_def)

lemma move_batch_ready:
  "batch_ready l (x, y) \<Longrightarrow> move_batch l x y = Inr (moved l x, moved l y)"
  by (auto simp: batch_ready_def move_batch_def moved_def is_tensor_def tensor_to_dev_def split: pyval.splits)

lemma one_batch_progress:
  assumes "batch_ready l (x, y)" and "train \<Longrightarrow> grad_enabled l \<and> loss_ok l (x, y)"
  shows "\<exists>l'. one_batch_cb l x y train = Inr l'"
proof -
  have r: "batch_ready (train_cb l) (x, y)" "train \<Longrightarrow> loss_ok (train_cb l) (x, y)"
    using assms batch_ready_config [of "train_cb l" l "(x, y)"] by (simp_all add: batch_config_def)
  have "\<exists>l'. batch_body (train_cb l) (moved (train_cb l) x) (moved (train_cb l) y) train = Inr l'"
    using r(2) assms(2) by (simp add: batch_body_Inr Let_def run_model_def run_loss_def loss_ok_def)
  then show ?thesis
    by (simp add: one_batch_cb_def Let_def move_batch_ready [OF r(1)])
qed

lemma one_epoch_loop_progress:
  assumes "\<forall>b \<in> set dl. batch_ready l b \<and> (train \<longrightarrow> grad_enabled l \<and> loss_ok l b)"
  shows "\<exists>l'. one_epoch_loop l i dl train = Inr l'"
  using assms
proof (induction dl arbitrary: l i)
  case Nil
  then show ?case by simp
next
  case (Cons b bs)
  obtain x y where b: "b = (x, y)" by (cases b)
  let ?l0 = "l\<lparr>cur_batch := i\<rparr>"
  have c0: "batch_config ?l0 = batch_config l" by (simp add: batch_config_def)
  from Cons.prems b batch_ready_config [OF c0, of b] obtain l1 where
    s1: "one_batch_cb ?l0 x y train = Inr l1"
    using one_batch_progress [of ?l0 x y train] by auto
  from one_batch_frame [OF s1] c0 have c1: "batch_config l1 = batch_config l" "grad_enabled l1 = grad_enabled l"
    by simp_all
  have "\<forall>b \<in> set bs. batch_ready l1 b \<and> (train \<longrightarrow> grad_enabled l1 \<and> loss_ok l1 b)"
    using Cons.prems c1 batch_ready_config [OF c1(1)] by simp
  from Cons.IH [OF this] s1 b show ?case by simp
qed

lemma fit_ready_config:
  assumes "batch_config l' = batch_config l" and "grad_enabled l' = grad_enabled l"
  shows "fit_ready l' dltrain dltest test_every = fit_ready l dltrain dltest test_every"
  using assms batch_ready_config [OF assms(1)] by (simp add: fit_ready_def)

lemma opt_epoch_progress:
  assumes "\<forall>b \<in> set (loader_batches dl). batch_ready l b \<and> (train \<longrightarrow> grad_enabled l \<and> loss_ok l b)"
  shows "\<exists>l'. (case dl of Some d \<Rightarrow> one_epoch_cb l d train | None \<Rightarrow> Inr l) = Inr l'"
  using assms one_epoch_loop_progress [of _ l train 0]
  by (cases dl) (simp_all add: loader_batches_def one_epoch_cb_def)

lemma fit_epoch_progress:
  assumes "fit_ready l dltrain dltest test_every"
  shows "\<exists>l'. fit_epoch l e dltrain dltest test_first test_every = Inr l'"
proof -
  define l1 where "l1 = record_call (record_call (l\<lparr>cur_epoch := e\<rparr>) (Event ''before_epoch''))
                 (ContextEnter ''full_epoch'')"
  have r1: "fit_ready l1 dltrain dltest test_every"
    using assms fit_ready_config [of l1 l] by (simp add: l1_def record_call_def batch_config_def)
  obtain l2 where s2: "test_first_step l1 dltest test_first = Inr l2"
  proof (cases "cur_epoch l1 = 0 \<and> test_first")
    case True
    from r1 opt_epoch_progress [of dltest l1 False] obtain l2 where
      "(case dltest of Some d \<Rightarrow> one_epoch_cb l1 d False | None \<Rightarrow> Inr l1) = Inr l2"
      by (auto simp: fit_ready_def)
    with True show thesis by (intro that [of l2]) (cases dltest; simp add: test_first_step_def)
  next
    case False
    show thesis by (intro that [of l1]) (cases dltest; simp add: test_first_step_def if_not_P [OF False])
  qed
  have r2: "fit_ready l2 dltrain dltest test_every"
    using r1 test_first_step_ok [OF s2] fit_ready_config [of l2 l1] by (simp add: keeps_config_def)
  from r2 opt_epoch_progress [of dltrain l2 True] obtain l3 where s3: "train_step l2 dltrain = Inr l3"
    by (auto simp: fit_ready_def train_step_def)
  have r3: "fit_ready l3 dltrain dltest test_every"
    using r2 train_step_ok [OF s3] fit_ready_config [of l3 l2] by (simp add: keeps_config_def)
  obtain l4 where s4: "test_step l3 dltest test_every = Inr l4"
  proof (cases dltest)
    case None
    then show thesis by (intro that [of l3]) (simp add: test_step_def)
  next
    case (Some dl)
    with r3 have nz: "test_every \<noteq> 0" by (simp add: fit_ready_def)
    have "\<forall>b \<in> set (loader_batches (if cur_epoch l3 mod test_every = 0 then dltest else None)).
        batch_ready l3 b \<and> (False \<longrightarrow> grad_enabled l3 \<and> loss_ok l3 b)"
      using r3 Some by (simp add: fit_ready_def loader_batches_def)
    from opt_epoch_progress [OF this] obtain l4 where
      "(case (if cur_epoch l3 mod test_every = 0 then dltest else None) of
        Some d \<Rightarrow> one_epoch_cb l3 d False | None \<Rightarrow> Inr l3) = Inr l4"
      by blast
    with Some nz show thesis by (intro that [of l4]) (simp add: test_step_def py_mod_def split: if_splits)
  qed
  from s2 s3 s4 show ?thesis by (simp add: fit_epoch_def l1_def [symmetric])
qed

lemma fit_cb_progress_aux:
  assumes "fit_ready l dltrain dltest test_every"
  shows "\<exists>l'. fit_cb l es dltrain dltest test_first test_every = Inr l'"
  using assms
proof (induction es arbitrary: l)
  case Nil
  then show ?case by simp
next
  case (Cons e es)
  from fit_epoch_progress [OF Cons.prems] obtain l1 where
    s1: "fit_epoch l e dltrain dltest test_first test_every = Inr l1" by blast
  from fit_epoch_calls_ok [OF s1] Cons.prems fit_ready_config [of l1 l]
  have "fit_ready l1 dltrain dltest test_every" by simp
  from Cons.IH [OF this] s1 show ?case by simp
qed

subsection \<open>Lemmas: counting calls\<close>

lemma count_batch_calls:
  "count_list (batch_calls l train) ModelForward = 1"
  "count_list (batch_calls l train) OptimizerStep = (if train then 1 else 0)"
  by (simp_all add: batch_calls_def train_calls_def)

lemma count_fit_epoch_calls:
  "count_list (fit_epoch_calls l e dltrain dltest test_first test_every) ModelForward =
     (if e = 0 \<and> test_first then length (loader_batches dltest) else 0) +
     length (loader_batches dltrain) +
     (if e mod test_every = 0 then length (loader_batches dltest) else 0)"
  "count_list (fit_epoch_calls l e dltrain dltest test_first test_every) OptimizerStep =
     length (loader_batches dltrain)"
  by (simp_all add: fit_epoch_calls_def opt_epoch_calls_def epoch_calls_def loader_batches_def
      count_list_concat_replicate count_batch_calls split: option.splits)

text \<open>The equations that evaluate the model on a concrete learner.\<close>

lemmas learner_eval = ex_learner_def ex_model_def ex_batch_def one_batch_cb_def move_batch_def batch_body_def
  forward_cb_def get_loss_cb_def backprop_def backward_cb_def zero_grad_cb_def optimizer_step_cb_def
  scheduler_step_cb_def train_cb_def eval_cb_def record_call_def run_model_def run_loss_def tensor_backward_def
  tensor_to_dev_def tensor_to_def one_epoch_cb_def fit_epoch_def test_first_step_def train_step_def
  test_step_def py_mod_def Let_def

subsection \<open>Properties of the training loop\<close>

text \<open>C1. A training batch issues its framework calls in the order the optimisation
  needs: switch to training mode, predict, compute the loss, zero the gradients,
  backpropagate, step the optimizer, then step the scheduler if there is one.\<close>

theorem one_batch_train_order:
  assumes "one_batch_cb l x y True = Inr l'"
  shows "calls l' = calls l @ train_calls l @
     [ModelForward, LossFn, ZeroGrad, if accelerator l then AccelBackward else LossBackward, OptimizerStep] @
     (if scheduler l then [SchedulerStep] else [])"
  using one_batch_calls [OF assms] by (simp add: batch_calls_def)

theorem one_batch_train_order_witness:
  "\<exists>l'. one_batch_cb ex_learner (fst ex_batch) (snd ex_batch) True = Inr l' \<and>
     calls l' = [ModelTrain, ModelForward, LossFn, ZeroGrad, LossBackward, OptimizerStep, SchedulerStep]"
proof -
  obtain l' where h: "one_batch_cb ex_learner (fst ex_batch) (snd ex_batch) True = Inr l'"
    by (simp add: learner_eval)
  from h one_batch_train_order [OF h] show ?thesis
    by (simp add: ex_learner_def train_calls_def)
qed

text \<open>C2. An evaluation batch makes no optimizer call: after switching modes it only
  predicts and computes the loss; both are detached from the autograd graph, and the
  autograd mode is restored when the \<open>no_grad\<close> block is left.\<close>

theorem one_batch_eval_no_update:
  assumes "one_batch_cb l x y False = Inr l'"
  shows "calls l' = calls l @ train_calls l @ [ModelForward, LossFn] \<and>
    detached (preds l') \<and> detached (loss l') \<and> grad_enabled l' = grad_enabled l"
  using assms by (rule one_batch_cases) (simp add: run_model_def run_loss_def detached_smart_detach)

theorem one_batch_eval_no_update_witness:
  "\<exists>l'. one_batch_cb ex_learner (fst ex_batch) (snd ex_batch) False = Inr l' \<and>
     calls l' = [ModelTrain, ModelForward, LossFn] \<and> detached (loss l')"
proof -
  obtain l' where h: "one_batch_cb ex_learner (fst ex_batch) (snd ex_batch) False = Inr l'"
    by (simp add: learner_eval)
  from h one_batch_eval_no_update [OF h] show ?thesis
    by (simp add: ex_learner_def train_calls_def)
qed

text \<open>C3. \<open>DefaultOneBatchCB\<close> calls \<open>learner.train()\<close> before every batch, also an
  evaluation batch: after an evaluation batch a model with a \<open>train\<close> method is in
  training mode (dropout and batch-norm statistics active during evaluation).\<close>

theorem one_batch_eval_keeps_train_mode:
  assumes "one_batch_cb l x y False = Inr l'"
  shows "model_training l' = (model_has_mode l \<or> model_training l)"
  using assms by (rule one_batch_cases) simp

theorem one_batch_eval_keeps_train_mode_witness:
  "\<exists>l'. one_batch_cb ex_learner (fst ex_batch) (snd ex_batch) False = Inr l' \<and> model_training l'"
proof -
  obtain l' where h: "one_batch_cb ex_learner (fst ex_batch) (snd ex_batch) False = Inr l'"
    by (simp add: learner_eval)
  from h one_batch_eval_keeps_train_mode [OF h] show ?thesis
    by (simp add: ex_learner_def)
qed

text \<open>C4. A run of \<open>fit\<close> refines its trace specification: the calls it issues are,
  epoch after epoch, those of \<open>fit_epoch_calls\<close> (the epoch events around the context,
  the optional first test epoch, the training epoch, the periodic test epoch), and the
  epoch counter grows by the number of epochs.\<close>

theorem fit_trace_refines:
  assumes "fit_cb l es dltrain dltest test_first test_every = Inr l'"
  shows "calls l' = calls l @ concat (map (\<lambda>e. fit_epoch_calls l e dltrain dltest test_first test_every) es) \<and>
    total_epoch l' = total_epoch l + length es"
  using fit_cb_calls [OF assms] by simp

theorem fit_trace_refines_witness:
  "\<exists>l'. fit_cb ex_learner [0, 1] (Some [ex_batch]) None False 1 = Inr l' \<and>
     total_epoch l' = 2 \<and>
     calls l' = [Event ''before_epoch'', ContextEnter ''full_epoch'',
       ModelTrain, ModelForward, LossFn, ZeroGrad, LossBackward, OptimizerStep, SchedulerStep,
       ContextExit ''full_epoch'', Event ''after_epoch'',
       Event ''before_epoch'', ContextEnter ''full_epoch'',
       ModelTrain, ModelForward, LossFn, ZeroGrad, LossBackward, OptimizerStep, SchedulerStep,
       ContextExit ''full_epoch'', Event ''after_epoch'']"
proof -
  obtain l' where h: "fit_cb ex_learner [0, 1] (Some [ex_batch]) None False 1 = Inr l'"
    by (simp add: learner_eval)
  from h fit_trace_refines [OF h] show ?thesis
    by (simp add: ex_learner_def fit_epoch_calls_def opt_epoch_calls_def epoch_calls_def
        batch_calls_def train_calls_def)
qed

text \<open>C5. \<open>fit\<close> returns on every input it is meant for: when the batch elements are
  tensors, every training loss is attached to the graph, autograd is on and
  \<open>test_every\<close> is not zero where a test loader is given, it raises nothing.\<close>

theorem fit_cb_completes:
  assumes "fit_ready l dltrain dltest test_every"
  shows "\<exists>l'. fit_cb l es dltrain dltest test_first test_every = Inr l'"
  using fit_cb_progress_aux [OF assms] .

theorem fit_cb_completes_witness:
  "fit_ready ex_learner (Some [ex_batch]) (Some [ex_batch]) 2 \<and>
   (\<exists>l'. fit_cb ex_learner [0, 1, 2] (Some [ex_batch]) (Some [ex_batch]) True 2 = Inr l')"
proof -
  have r: "fit_ready ex_learner (Some [ex_batch]) (Some [ex_batch]) 2"
    by (simp add: fit_ready_def loader_batches_def batch_ready_def loss_ok_def moved_def is_tensor_def learner_eval)
  from r fit_cb_completes [OF r] show ?thesis by blast
qed


text \<open>C7. The number of forward passes of a run of \<open>fit\<close>: per epoch, the test
  batches once before epoch 0 when \<open>test_first\<close> holds, the training batches, and the
  test batches again in the epochs divisible by \<open>test_every\<close>.\<close>

theorem fit_forward_count:
  assumes "fit_cb l es dltrain dltest test_first test_every = Inr l'"
  shows "count_list (calls l') ModelForward = count_list (calls l) ModelForward +
    (\<Sum>e\<leftarrow>es. (if e = 0 \<and> test_first then length (loader_batches dltest) else 0) +
                length (loader_batches dltrain) +
                (if e mod test_every = 0 then length (loader_batches dltest) else 0))"
  using fit_cb_calls [OF assms]
  by (simp add: count_list_concat comp_def count_fit_epoch_calls)

theorem fit_forward_count_witness:
  "\<exists>l'. fit_cb ex_learner [0, 1] (Some [ex_batch]) (Some [ex_batch, ex_batch]) True 2 = Inr l' \<and>
     count_list (calls l') ModelForward = 6"
proof -
  obtain l' where h: "fit_cb ex_learner [0, 1] (Some [ex_batch]) (Some [ex_batch, ex_batch]) True 2 = Inr l'"
    by (simp add: learner_eval)
  from h fit_forward_count [OF h] show ?thesis
    by (simp add: ex_learner_def loader_batches_def)
qed

text \<open>C8. Only training batches step the optimizer: a run of \<open>fit\<close> steps it once per
  training batch per epoch, whatever the test loader.\<close>

theorem fit_optimizer_steps:
  assumes "fit_cb l es dltrain dltest test_first test_every = Inr l'"
  shows "count_list (calls l') OptimizerStep =
    count_list (calls l) OptimizerStep + length es * length (loader_batches dltrain)"
  using fit_cb_calls [OF assms]
  by (simp add: count_list_concat comp_def count_fit_epoch_calls sum_list_triv)

theorem fit_optimizer_steps_witness:
  "\<exists>l'. fit_cb ex_learner [0, 1, 2] (Some [ex_batch, ex_batch]) (Some [ex_batch]) True 1 = Inr l' \<and>
     count_list (calls l') OptimizerStep = 6"
proof -
  obtain l' where h: "fit_cb ex_learner [0, 1, 2] (Some [ex_batch, ex_batch]) (Some [ex_batch]) True 1 = Inr l'"
    by (simp add: learner_eval)
  from h fit_optimizer_steps [OF h] show ?thesis
    by (simp add: ex_learner_def loader_batches_def)
qed

text \<open>C9. A training batch run while autograd is off (inside an outer
  \<open>torch.no_grad()\<close>) always raises: the loss is detached and \<open>backward\<close> fails.\<close>

theorem one_batch_no_grad_fails:
  assumes "\<not> grad_enabled l"
  shows "one_batch_cb l x y True \<noteq> Inr l'"
proof
  assume "one_batch_cb l x y True = Inr l'"
  then show False
    by (rule one_batch_cases) (simp add: assms run_loss_def tensor_backward_detach)
qed

theorem one_batch_no_grad_fails_witness:
  "\<not> grad_enabled (ex_learner\<lparr>grad_enabled := False\<rparr>) \<and>
   (\<forall>l'. one_batch_cb (ex_learner\<lparr>grad_enabled := False\<rparr>) (fst ex_batch) (snd ex_batch) True \<noteq> Inr l')"
  using one_batch_no_grad_fails [of "ex_learner\<lparr>grad_enabled := False\<rparr>"] by simp

text \<open>C10. An epoch runs its batches in order with \<open>cur_batch\<close> set by
  \<open>enumerate\<close>: after a non-empty epoch \<open>cur_batch\<close> is the index of the last batch,
  and the calls are those of its batches one after another.\<close>

theorem one_epoch_batches:
  assumes "one_epoch_cb l dl train = Inr l'" and "dl \<noteq> []"
  shows "cur_batch l' = length dl - 1 \<and> calls l' = calls l @ epoch_calls l dl train"
  using one_epoch_loop_calls [OF assms(1) [unfolded one_epoch_cb_def]] assms(2) by simp

theorem one_epoch_batches_witness:
  "\<exists>l'. one_epoch_cb ex_learner [ex_batch, ex_batch, ex_batch] False = Inr l' \<and> cur_batch l' = 2"
proof -
  obtain l' where h: "one_epoch_cb ex_learner [ex_batch, ex_batch, ex_batch] False = Inr l'"
    by (simp add: learner_eval)
  from h one_epoch_batches [OF h] show ?thesis by simp
qed

text \<open>C11. Inference switches to evaluation mode, runs under \<open>no_grad\<close> and returns a
  result detached from the graph, on the CPU when \<open>to_cpu\<close> holds; the autograd mode
  is restored afterwards.\<close>

theorem inference_detached:
  "detached (snd (inference_cb l b to_cpu)) \<and>
   (to_cpu \<longrightarrow> on_device Cpu (snd (inference_cb l b to_cpu))) \<and>
   grad_enabled (fst (inference_cb l b to_cpu)) = grad_enabled l \<and>
   model_training (fst (inference_cb l b to_cpu)) = (model_training l \<and> \<not> model_has_mode l)"
  by (simp add: inference_cb_def eval_cb_def forward_cb_def record_call_def Let_def split_def
      detached_iff on_device_iff pv_tensors_smart_detach pv_tensors_smart_detach_cpu tensor_ops)

theorem inference_detached_witness:
  "on_device Cpu (snd (inference_cb ex_learner (fst ex_batch) True)) \<and>
   \<not> model_training (fst (inference_cb ex_learner (fst ex_batch) True))"
  using inference_detached [of ex_learner "fst ex_batch" True] by (simp add: ex_learner_def)

end
