(* ===== verification/StateDict.thy ===== *)
theory StateDict
  imports Prelude
begin

text \<open>
  State dicts, their copies and backups: \<open>copy_state_dict\<close>, \<open>BackupModule\<close> and
  \<open>FreezeModel\<close> of \<^verbatim>\<open>src/glio/torch_tools.py\<close> (lines 47--61, 175--200).  A
  framework state dict holds \<^emph>\<open>references\<close> to the tensors of a module, and the
  optimizer changes those tensors in place, so whether a dict shares tensors with a module
  decides what it holds later.  The tensors therefore live in an explicit store (addresses
  to data, with the next free address); a state dict is a tree whose leaves are addresses,
  nested dicts or other values, kept as an association list in insertion order.
\<close>

type_synonym addr = nat

record store =
  heap :: "addr \<Rightarrow> real list"
  next_addr :: addr

datatype sd_val = SDTensor addr | SDDict "(string \<times> sd_val) list" | SDLeaf int

type_synonym state_dict = "(string \<times> sd_val) list"

text \<open>The contents of a state dict: the same tree with every reference read.\<close>

datatype rd_val = RTensor "real list" | RDict "(string \<times> rd_val) list" | RLeaf int

subsection \<open>The store\<close>

text \<open>\<open>t.detach().clone()\<close>: a fresh tensor with the same data.\<close>

definition clone :: "store \<Rightarrow> addr \<Rightarrow> store \<times> addr" where
  "clone s a = (s\<lparr>heap := (heap s)(next_addr s := heap s a), next_addr := Suc (next_addr s)\<rparr>, next_addr s)"

fun read_val :: "store \<Rightarrow> sd_val \<Rightarrow> rd_val" where
  "read_val s (SDTensor a) = RTensor (heap s a)"
| "read_val s (SDDict kvs) = RDict (map (\<lambda>(k, v). (k, read_val s v)) kvs)"
| "read_val s (SDLeaf x) = RLeaf x"

definition read_sd :: "store \<Rightarrow> state_dict \<Rightarrow> (string \<times> rd_val) list" where
  "read_sd s sd = map (\<lambda>(k, v). (k, read_val s v)) sd"

fun addrs_val :: "sd_val \<Rightarrow> addr set" where
  "addrs_val (SDTensor a) = {a}"
| "addrs_val (SDDict kvs) = (\<Union>(k, v) \<in> set kvs. addrs_val v)"
| "addrs_val (SDLeaf x) = {}"

definition addrs_sd :: "state_dict \<Rightarrow> addr set" where
  "addrs_sd sd = (\<Union>(k, v) \<in> set sd. addrs_val v)"

subsection \<open>\<open>copy_state_dict\<close> (lines 175--185)\<close>

text \<open>Each item in order: a tensor is cloned, a dict copied recursively, any other value
  kept (\<open>try_copy\<close> of an immutable value is the value).\<close>

fun copy_val :: "store \<Rightarrow> sd_val \<Rightarrow> store \<times> sd_val"
and copy_items :: "store \<Rightarrow> state_dict \<Rightarrow> store \<times> state_dict" where
  "copy_val s (SDTensor a) = (let (s', b) = clone s a in (s', SDTensor b))"
| "copy_val s (SDDict kvs) = (let (s', kvs') = copy_items s kvs in (s', SDDict kvs'))"
| "copy_val s (SDLeaf x) = (s, SDLeaf x)"
| "copy_items s [] = (s, [])"
| "copy_items s ((k, v) # kvs) =
     (let (s1, v') = copy_val s v; (s2, kvs') = copy_items s1 kvs in (s2, (k, v') # kvs'))"

definition copy_state_dict :: "store \<Rightarrow> state_dict \<Rightarrow> store \<times> state_dict" where
  "copy_state_dict s sd = copy_items s sd"

subsection \<open>Modules and \<open>load_state_dict\<close>\<close>

text \<open>A module's parameters and buffers by name; \<open>module.state_dict()\<close> returns
  references to them, not copies.\<close>

type_synonym module = "(string \<times> addr) list"

definition module_sd :: "module \<Rightarrow> state_dict" where
  "module_sd m = map (\<lambda>(k, a). (k, SDTensor a)) m"

text \<open>The framework's \<open>load_state_dict\<close> (strict): the keys must be exactly the module's,
  else \<open>RuntimeError\<close>; each parameter is overwritten in place (\<open>copy_\<close>) with the
  data of the tensor under its name.\<close>

fun load_params :: "store \<Rightarrow> module \<Rightarrow> state_dict \<Rightarrow> store result" where
  "load_params s [] sd = Inr s"
| "load_params s ((k, a) # ps) sd =
     (case map_of sd k of
        Some (SDTensor b) \<Rightarrow> load_params (s\<lparr>heap := (heap s)(a := heap s b)\<rparr>) ps sd
      | _ \<Rightarrow> Inl RuntimeError)"

definition load_state_dict :: "store \<Rightarrow> module \<Rightarrow> state_dict \<Rightarrow> store result" where
  "load_state_dict s m sd =
     (if set (map fst sd) = set (map fst m) then load_params s m sd else Inl RuntimeError)"

subsection \<open>\<open>BackupModule\<close> (lines 188--200)\<close>

record backup =
  bm_model :: module
  bm_state :: state_dict

definition backup_init :: "store \<Rightarrow> module \<Rightarrow> store \<times> backup" where
  "backup_init s m =
     (let (s', sd) = copy_state_dict s (module_sd m) in (s', \<lparr>bm_model = m, bm_state = sd\<rparr>))"

definition backup_update :: "store \<Rightarrow> backup \<Rightarrow> module option \<Rightarrow> store \<times> backup" where
  "backup_update s bm mo =
     (let m = (case mo of None \<Rightarrow> bm_model bm | Some m' \<Rightarrow> m');
          (s', sd) = copy_state_dict s (module_sd m)
      in (s', bm\<lparr>bm_state := sd\<rparr>))"

definition backup_restore :: "store \<Rightarrow> backup \<Rightarrow> module option \<Rightarrow> (store \<times> module) result" where
  "backup_restore s bm mo =
     (let m = (case mo of None \<Rightarrow> bm_model bm | Some m' \<Rightarrow> m');
          (s1, sd) = copy_state_dict s (bm_state bm)
      in bind_r (load_state_dict s1 m sd) (\<lambda>s2. Inr (s2, m)))"

subsection \<open>\<open>FreezeModel\<close> (lines 47--61)\<close>

text \<open>The parameters of the model are seen through their \<open>requires_grad\<close> flags.\<close>

record freeze_model =
  original_requires_grads :: "bool list"
  frozen :: bool

definition freeze_init :: "bool list \<Rightarrow> freeze_model \<times> bool list" where
  "freeze_init rgs = (\<lparr>original_requires_grads = rgs, frozen = True\<rparr>, map (\<lambda>_. False) rgs)"

fun unfreeze_params :: "bool list \<Rightarrow> nat \<Rightarrow> bool list \<Rightarrow> bool list result" where
  "unfreeze_params orig i [] = Inr []"
| "unfreeze_params orig i (p # ps) =
     (if i < length orig then bind_r (unfreeze_params orig (Suc i) ps) (\<lambda>ps'. Inr (orig ! i # ps'))
      else Inl IndexError)"

definition unfreeze :: "freeze_model \<Rightarrow> bool list \<Rightarrow> (freeze_model \<times> bool list) result" where
  "unfreeze fm params =
     bind_r (unfreeze_params (original_requires_grads fm) 0 params) (\<lambda>ps. Inr (fm\<lparr>frozen := False\<rparr>, ps))"

subsection \<open>Example values\<close>

text \<open>A store with one parameter tensor at address 0, a state dict with a tensor and a
  nested dict, and a one-parameter module.\<close>

definition ex_store :: store where
  "ex_store = \<lparr>heap = (\<lambda>_. [])(0 := [1, 2]), next_addr = 1\<rparr>"

definition ex_sd :: state_dict where
  "ex_sd = [(''w'', SDTensor 0), (''opt'', SDDict [(''step'', SDLeaf 3)])]"

definition ex_module :: module where
  "ex_module = [(''w'', 0)]"

subsection \<open>Lemmas: reading and copying\<close>

lemma read_val_frame:
  "(\<forall>a \<in> addrs_val v. heap s' a = heap s a) \<Longrightarrow> read_val s' v = read_val s v"
  by (induction v) (auto cong: map_cong)

lemma read_sd_frame:
  "(\<forall>a \<in> addrs_sd sd. heap s' a = heap s a) \<Longrightarrow> read_sd s' sd = read_sd s sd"
  by (auto simp: read_sd_def addrs_sd_def intro!: read_val_frame)

lemma read_val_SDDict [simp]: "read_val s (SDDict kvs) = RDict (read_sd s kvs)"
  by (simp add: read_sd_def)

lemma addrs_val_SDDict [simp]: "addrs_val (SDDict kvs) = addrs_sd kvs"
  by (simp add: addrs_sd_def)

declare read_val.simps(2) [simp del] addrs_val.simps(2) [simp del]

lemma read_sd_Cons [simp]: "read_sd s ((k, v) # kvs) = (k, read_val s v) # read_sd s kvs"
  by (simp add: read_sd_def)

lemma read_sd_Nil [simp]: "read_sd s [] = []"
  by (simp add: read_sd_def)

lemma addrs_sd_simps [simp]:
  "addrs_sd [] = {}" "addrs_sd ((k, v) # kvs) = addrs_val v \<union> addrs_sd kvs"
  by (simp_all add: addrs_sd_def)

lemma copy_props:
  "copy_val s v = (s', v') \<Longrightarrow> addrs_val v \<subseteq> {..<next_addr s} \<Longrightarrow>
     read_val s' v' = read_val s v \<and> (\<forall>a < next_addr s. heap s' a = heap s a) \<and>
     next_addr s \<le> next_addr s' \<and> addrs_val v' \<subseteq> {next_addr s..<next_addr s'}"
  "copy_items s kvs = (s', kvs') \<Longrightarrow> addrs_sd kvs \<subseteq> {..<next_addr s} \<Longrightarrow>
     read_sd s' kvs' = read_sd s kvs \<and> (\<forall>a < next_addr s. heap s' a = heap s a) \<and>
     next_addr s \<le> next_addr s' \<and> addrs_sd kvs' \<subseteq> {next_addr s..<next_addr s'}"
proof (induction s v and s kvs arbitrary: s' v' and s' kvs' rule: copy_val_copy_items.induct)
  case (1 s a)
  then show ?case by (auto simp: clone_def)
next
  case (2 s kvs)
  obtain s1 kvs1 where c: "copy_items s kvs = (s1, kvs1)" by fastforce
  with "2.prems" have "s' = s1" "v' = SDDict kvs1" by simp_all
  with "2.IH" [OF c] "2.prems"(2) show ?case by simp
next
  case (3 s x)
  then show ?case by auto
next
  case (4 s)
  then show ?case by (simp add: read_sd_def addrs_sd_def)
next
  case (5 s k v kvs)
  obtain s1 v1 where c1: "copy_val s v = (s1, v1)" by fastforce
  obtain s2 kvs2 where c2: "copy_items s1 kvs = (s2, kvs2)" by fastforce
  from "5.prems" c1 c2 have eq: "s' = s2" "kvs' = (k, v1) # kvs2" by simp_all
  from "5.prems"(2) have a1: "addrs_val v \<subseteq> {..<next_addr s}" and a2: "addrs_sd kvs \<subseteq> {..<next_addr s}"
    by simp_all
  note h1 = "5.IH"(1) [OF c1 a1]
  from a2 h1 have a2': "addrs_sd kvs \<subseteq> {..<next_addr s1}" by auto
  note h2 = "5.IH"(2) [OF c1 [symmetric] refl c2 a2']
  have r1: "read_val s2 v1 = read_val s v"
  proof -
    have "read_val s2 v1 = read_val s1 v1"
      using h1 h2 by (intro read_val_frame) auto
    with h1 show ?thesis by simp
  qed
  have r2: "read_sd s2 kvs2 = read_sd s kvs"
  proof -
    have "read_sd s1 kvs = read_sd s kvs"
      using h1 a2 by (intro read_sd_frame) auto
    with h2 show ?thesis by simp
  qed
  from h1 h2 r1 r2 eq show ?case by auto
qed

lemma copy_items_keys: "copy_items s kvs = (s', kvs') \<Longrightarrow> map fst kvs' = map fst kvs"
  by (induction kvs arbitrary: s s' kvs') (auto split: prod.splits)

lemma copy_items_module_sd:
  "copy_items s (module_sd m) = (s', sd') \<Longrightarrow> \<exists>m'. sd' = module_sd m'"
proof (induction m arbitrary: s s' sd')
  case Nil
  then show ?case by (auto simp: module_sd_def intro: exI [of _ "[]"])
next
  case (Cons p m)
  obtain k a where p: "p = (k, a)" by fastforce
  obtain s1 b where c1: "clone s a = (s1, b)" by fastforce
  obtain s2 sd2 where c2: "copy_items s1 (module_sd m) = (s2, sd2)" by fastforce
  from Cons.IH [OF c2] obtain m2 where "sd2 = module_sd m2" ..
  with Cons.prems p c1 c2 have "sd' = module_sd ((k, b) # m2)"
    by (simp add: module_sd_def)
  then show ?case ..
qed

lemma keys_read_sd [simp]: "map fst (read_sd s sd) = map fst sd"
  by (induction sd) auto

lemma read_sd_module_sd: "read_sd s (module_sd m) = map (\<lambda>(k, a). (k, RTensor (heap s a))) m"
  by (induction m) (auto simp: module_sd_def)

lemma addrs_sd_module_sd [simp]: "addrs_sd (module_sd m) = snd ` set m"
  unfolding module_sd_def addrs_sd_def by force

lemma keys_module_sd [simp]: "map fst (module_sd m) = map fst m"
  by (induction m) (auto simp: module_sd_def)

text \<open>Two flat dicts with the same contents: each key of the first module finds, in the
  second dict, a tensor holding the same data.\<close>

lemma module_sd_lookup:
  assumes "read_sd s2 (module_sd m2) = read_sd s (module_sd m)"
    and "distinct (map fst m)" and "(k, a) \<in> set m"
  shows "\<exists>b. map_of (module_sd m2) k = Some (SDTensor b) \<and> b \<in> snd ` set m2 \<and> heap s2 b = heap s a"
  using assms
proof (induction m arbitrary: m2)
  case Nil
  then show ?case by simp
next
  case (Cons p m)
  from Cons.prems(1) obtain k2 b2 m2' where m2: "m2 = (k2, b2) # m2'"
    by (cases m2) (auto simp: read_sd_module_sd)
  show ?case
  proof (cases "p = (k, a)")
    case True
    with Cons.prems(1) m2 show ?thesis by (auto simp: read_sd_module_sd module_sd_def)
  next
    case False
    with Cons.prems have "(k, a) \<in> set m" by simp
    moreover from this Cons.prems(2) have "k \<noteq> fst p"
      by (metis distinct.simps(2) fst_conv image_eqI list.set_map list.simps(9))
    moreover from Cons.prems(1) m2 have "read_sd s2 (module_sd m2') = read_sd s (module_sd m)"
      "k2 = fst p" by (auto simp: read_sd_module_sd split: prod.splits)
    ultimately show ?thesis using Cons.IH [of m2'] Cons.prems(2) m2
      by (auto simp: module_sd_def)
  qed
qed

text \<open>\<open>load_params\<close> succeeds when each parameter finds a tensor, outside the module,
  under its name; it writes each parameter and nothing else.\<close>

lemma load_params_ok:
  assumes "\<forall>(k, a) \<in> set ps. \<exists>b. map_of sd k = Some (SDTensor b) \<and> b \<notin> snd ` set ps \<and> heap s b = v a"
  shows "\<exists>s'. load_params s ps sd = Inr s' \<and> (\<forall>a \<in> snd ` set ps. heap s' a = v a) \<and>
           (\<forall>a. a \<notin> snd ` set ps \<longrightarrow> heap s' a = heap s a) \<and> next_addr s' = next_addr s"
  using assms
proof (induction ps arbitrary: s)
  case Nil
  then show ?case by simp
next
  case (Cons p ps)
  obtain k a where p: "p = (k, a)" by fastforce
  with Cons.prems obtain b where b: "map_of sd k = Some (SDTensor b)" "b \<noteq> a"
    "b \<notin> snd ` set ps" "heap s b = v a" by auto
  define s1 where "s1 = s\<lparr>heap := (heap s)(a := heap s b)\<rparr>"
  have "\<forall>(k, a') \<in> set ps. \<exists>b. map_of sd k = Some (SDTensor b) \<and> b \<notin> snd ` set ps \<and> heap s1 b = v a'"
    using Cons.prems p by (fastforce simp: s1_def)
  from Cons.IH [OF this] obtain s' where "load_params s1 ps sd = Inr s'"
    "\<forall>a \<in> snd ` set ps. heap s' a = v a" "\<forall>a. a \<notin> snd ` set ps \<longrightarrow> heap s' a = heap s1 a"
    "next_addr s' = next_addr s1" by blast
  moreover from this have "heap s' a = v a"
    by (cases "a \<in> snd ` set ps") (auto simp: s1_def b)
  ultimately show ?case using p b by (auto simp: s1_def)
qed

lemma fresh_disjoint:
  assumes "A \<subseteq> {..<n}" and "B \<subseteq> {n'..<n''}" and "n \<le> (n' :: nat)"
  shows "A \<inter> B = {}"
proof (intro equals0I)
  fix x assume "x \<in> A \<inter> B"
  with assms(1,2) have "x \<in> {..<n}" "x \<in> {n'..<n''}" by blast+
  with assms(3) show False by simp
qed

lemma backup_init_facts:
  assumes "backup_init s0 m = (s1, bm)" and "snd ` set m \<subseteq> {..<next_addr s0}"
  shows "\<exists>mb. bm_state bm = module_sd mb \<and> bm_model bm = m \<and>
           read_sd s1 (module_sd mb) = read_sd s0 (module_sd m) \<and> next_addr s0 \<le> next_addr s1 \<and>
           snd ` set mb \<subseteq> {next_addr s0..<next_addr s1}"
proof -
  obtain x where c0: "copy_items s0 (module_sd m) = (s1, x)" and bm: "bm = \<lparr>bm_model = m, bm_state = x\<rparr>"
    using assms(1) by (auto simp: backup_init_def copy_state_dict_def split: prod.splits)
  from copy_items_module_sd [OF c0] obtain mb where x: "x = module_sd mb" ..
  from copy_props(2) [OF c0] assms(2) x bm show ?thesis by auto
qed

text \<open>Loading a copy of a module's contents into the module: the copy's tensors are
  outside the module, so each parameter receives the data under its name.\<close>

lemma load_module_copy:
  assumes rd: "read_sd s2 (module_sd m2) = read_sd s0 (module_sd m)"
    and keys: "distinct (map fst m)" and disj: "snd ` set m \<inter> snd ` set m2 = {}"
  shows "\<exists>s'. load_state_dict s2 m (module_sd m2) = Inr s' \<and> (\<forall>a \<in> snd ` set m. heap s' a = heap s0 a)"
proof -
  have "\<forall>(k, a) \<in> set m. \<exists>b. map_of (module_sd m2) k = Some (SDTensor b) \<and> b \<notin> snd ` set m \<and> heap s2 b = heap s0 a"
  proof (intro ballI, clarify)
    fix k a assume "(k, a) \<in> set m"
    from module_sd_lookup [OF rd keys this] disj
    show "\<exists>b. map_of (module_sd m2) k = Some (SDTensor b) \<and> b \<notin> snd ` set m \<and> heap s2 b = heap s0 a"
      by blast
  qed
  from load_params_ok [OF this] obtain s' where ld: "load_params s2 m (module_sd m2) = Inr s'"
    "\<forall>a \<in> snd ` set m. heap s' a = heap s0 a" by blast
  have "map fst m2 = map fst m"
    using arg_cong [OF rd, of "map fst"] by simp
  with ld show ?thesis by (simp add: load_state_dict_def)
qed

lemma unfreeze_params_spec:
  "unfreeze_params orig i ps =
     (if length ps \<le> length orig - i then Inr (take (length ps) (drop i orig)) else Inl IndexError)"
proof (induction ps arbitrary: i)
  case (Cons p ps)
  have "i < length orig \<Longrightarrow> drop i orig = orig ! i # drop (Suc i) orig"
    by (simp add: Cons_nth_drop_Suc)
  with Cons.IH [of "Suc i"] show ?case by auto
qed simp

subsection \<open>Properties\<close>

text \<open>C17. \<open>copy_state_dict\<close> is a deep copy: the copy reads the same as the original,
  has the same keys in the same order, shares no tensor with it, and leaves every tensor
  that existed before untouched.\<close>

theorem copy_state_dict_deep:
  assumes "copy_state_dict s sd = (s', sd')" and "addrs_sd sd \<subseteq> {..<next_addr s}"
  shows "read_sd s' sd' = read_sd s sd \<and> map fst sd' = map fst sd \<and>
         addrs_sd sd' \<inter> addrs_sd sd = {} \<and> (\<forall>a < next_addr s. heap s' a = heap s a)"
proof -
  from assms have "read_sd s' sd' = read_sd s sd" "\<forall>a < next_addr s. heap s' a = heap s a"
    "addrs_sd sd' \<subseteq> {next_addr s..<next_addr s'}"
    using copy_props(2) unfolding copy_state_dict_def by blast+
  moreover have "addrs_sd sd' \<inter> addrs_sd sd = {}"
  proof (intro equals0I)
    fix x assume "x \<in> addrs_sd sd' \<inter> addrs_sd sd"
    with assms(2) \<open>addrs_sd sd' \<subseteq> {next_addr s..<next_addr s'}\<close>
    have "next_addr s \<le> x" "x < next_addr s" by auto
    then show False by simp
  qed
  ultimately show ?thesis using assms(1)
    by (simp add: copy_state_dict_def copy_items_keys)
qed

theorem copy_state_dict_deep_witness:
  "read_sd (ex_store\<lparr>heap := (heap ex_store)(1 := [1, 2]), next_addr := 2\<rparr>)
      [(''w'', SDTensor 1), (''opt'', SDDict [(''step'', SDLeaf 3)])] = read_sd ex_store ex_sd \<and>
   addrs_sd [(''w'', SDTensor 1), (''opt'', SDDict [(''step'', SDLeaf 3)])] \<inter> addrs_sd ex_sd = {}"
  using copy_state_dict_deep [of ex_store ex_sd
      "ex_store\<lparr>heap := (heap ex_store)(1 := [1, 2]), next_addr := 2\<rparr>"
      "[(''w'', SDTensor 1), (''opt'', SDDict [(''step'', SDLeaf 3)])]"]
  by (simp add: copy_state_dict_def ex_store_def ex_sd_def clone_def)

text \<open>C18. Backup and restore: after \<open>BackupModule(model)\<close>, whatever in-place changes
  training makes to the model's parameters (and whatever new tensors it creates),
  \<open>restore()\<close> succeeds, returns the model, and puts back into each parameter the data it
  held when the backup was taken.\<close>

theorem backup_restore_roundtrip:
  assumes init: "backup_init s0 m = (s1, bm)"
    and params: "snd ` set m \<subseteq> {..<next_addr s0}" and keys: "distinct (map fst m)"
    and grow: "next_addr s1 \<le> next_addr s"
    and train: "\<forall>a < next_addr s1. a \<notin> snd ` set m \<longrightarrow> heap s a = heap s1 a"
  shows "\<exists>s'. backup_restore s bm None = Inr (s', m) \<and> (\<forall>(k, a) \<in> set m. heap s' a = heap s0 a)"
proof -
  from backup_init_facts [OF init params] obtain mb where mb: "bm_state bm = module_sd mb" "bm_model bm = m"
    and p1: "read_sd s1 (module_sd mb) = read_sd s0 (module_sd m)"
      "next_addr s0 \<le> next_addr s1" "snd ` set mb \<subseteq> {next_addr s0..<next_addr s1}" by blast
  obtain s2 sd2 where c2: "copy_items s (bm_state bm) = (s2, sd2)" by fastforce
  from copy_items_module_sd [OF c2 [unfolded mb(1)]] obtain m2 where m2: "sd2 = module_sd m2" ..
  have fr: "read_sd s (module_sd mb) = read_sd s1 (module_sd mb)"
  proof (rule read_sd_frame, intro ballI)
    fix a assume "a \<in> addrs_sd (module_sd mb)"
    with p1(3) fresh_disjoint [OF params p1(3) order.refl]
    have "a < next_addr s1" "a \<notin> snd ` set m" by auto
    with train show "heap s a = heap s1 a" by blast
  qed
  have "addrs_sd (bm_state bm) \<subseteq> {..<next_addr s}"
    using p1(3) grow mb(1) by fastforce
  from copy_props(2) [OF c2 this] m2 mb(1)
  have p2: "read_sd s2 (module_sd m2) = read_sd s (module_sd mb)"
    "snd ` set m2 \<subseteq> {next_addr s..<next_addr s2}" by simp_all
  have disj: "snd ` set m \<inter> snd ` set m2 = {}"
    using p1(2) grow by (intro fresh_disjoint [OF params p2(2)]) simp
  have rd: "read_sd s2 (module_sd m2) = read_sd s0 (module_sd m)"
    using p1(1) p2(1) fr by simp
  from load_module_copy [OF rd keys disj] obtain s' where
    "load_state_dict s2 m (module_sd m2) = Inr s'" "\<forall>a \<in> snd ` set m. heap s' a = heap s0 a"
    by blast
  with c2 mb m2 show ?thesis by (auto simp: backup_restore_def copy_state_dict_def)
qed

theorem backup_restore_roundtrip_witness:
  "\<exists>s'. backup_restore
          (ex_store\<lparr>heap := (heap ex_store)(1 := [1, 2], 0 := [5, 5]), next_addr := 2\<rparr>)
          \<lparr>bm_model = ex_module, bm_state = [(''w'', SDTensor 1)]\<rparr> None = Inr (s', ex_module) \<and>
        (\<forall>(k, a) \<in> set ex_module. heap s' a = heap ex_store a)"
  using backup_restore_roundtrip [of ex_store ex_module
      "ex_store\<lparr>heap := (heap ex_store)(1 := [1, 2]), next_addr := 2\<rparr>"
      "\<lparr>bm_model = ex_module, bm_state = [(''w'', SDTensor 1)]\<rparr>"
      "ex_store\<lparr>heap := (heap ex_store)(1 := [1, 2], 0 := [5, 5]), next_addr := 2\<rparr>"]
  by (simp add: backup_init_def copy_state_dict_def module_sd_def clone_def ex_store_def
      ex_module_def less_Suc_eq numeral_2_eq_2)

text \<open>C19. Freezing and unfreezing is a round trip: \<open>FreezeModel(model)\<close> records the
  flags, clears every \<open>requires_grad\<close> and is frozen; \<open>unfreeze()\<close> on the same
  parameters gives every parameter its original flag back.\<close>

theorem freeze_unfreeze_roundtrip:
  "frozen (fst (freeze_init rgs)) \<and> snd (freeze_init rgs) = replicate (length rgs) False \<and>
   unfreeze (fst (freeze_init rgs)) (snd (freeze_init rgs)) = Inr ((fst (freeze_init rgs))\<lparr>frozen := False\<rparr>, rgs)"
  by (simp add: freeze_init_def unfreeze_def unfreeze_params_spec map_replicate_const)

text \<open>C20. \<open>unfreeze()\<close> on any list of parameters: the \<open>i\<close>-th parameter gets the
  \<open>i\<close>-th recorded flag, and a model that has gained parameters since it was frozen makes
  \<open>original_requires_grads[i]\<close> raise \<open>IndexError\<close>.\<close>

theorem unfreeze_spec:
  "unfreeze fm ps =
     (if length ps \<le> length (original_requires_grads fm)
      then Inr (fm\<lparr>frozen := False\<rparr>, take (length ps) (original_requires_grads fm))
      else Inl IndexError)"
  by (simp add: unfreeze_def unfreeze_params_spec)

end
