(* ===== verification/Trainer.thy ===== *)
theory Trainer
  imports Learner StateDict
begin

text \<open>
  The plain training utilities of \<^verbatim>\<open>src/glio/torch_tools.py\<close>: the function
  \<open>one_batch\<close> (lines 113--131), the class \<open>Trainer\<close> with its best-loss tracking
  (lines 133--172), the learning-rate helpers \<open>get_lr\<close>, \<open>set_lr\<close>, \<open>change_lr\<close>
  (lines 203--212) and the loop of \<open>lr_finder_fn\<close> (lines 214--255).  The model's
  parameters live in the store of \<open>StateDict\<close>, so that \<open>optimizer.step()\<close> changes them
  in place and a state dict taken with \<open>model.state_dict()\<close> holds references to them.
  The framework calls are those of \<open>Learner\<close>, so that the traces of the two training
  loops can be compared.
\<close>

subsection \<open>The framework objects\<close>

text \<open>What \<open>one_batch\<close> and \<open>Trainer\<close> are given: the model and loss function as
  functions on values, the model's parameters (names and addresses in the store), the
  update \<open>optimizer.step()\<close> makes to each parameter (the framework's arithmetic, left
  abstract), whether a scheduler is present, and the device.\<close>

record fw_setup =
  fw_model :: "pyval \<Rightarrow> pyval"
  fw_loss_fn :: "pyval \<Rightarrow> pyval \<Rightarrow> pyval"
  fw_params :: module
  fw_opt :: "addr \<Rightarrow> real list \<Rightarrow> real list"
  fw_scheduler :: bool
  fw_device :: "device option"

text \<open>\<open>optimizer.step()\<close>: every parameter is updated in place.\<close>

definition opt_step :: "store \<Rightarrow> module \<Rightarrow> (addr \<Rightarrow> real list \<Rightarrow> real list) \<Rightarrow> store" where
  "opt_step s ps f = s\<lparr>heap := (\<lambda>a. if a \<in> snd ` set ps then f a (heap s a) else heap s a)\<rparr>"

text \<open>The block run when \<open>train\<close> holds, shared by \<open>one_batch\<close> (lines 127--130) and
  \<open>Trainer.one_batch\<close> (lines 162--165): \<open>zero_grad\<close>, \<open>loss.backward()\<close> (which
  raises on a loss outside the autograd graph), the optimizer step and, if present, the
  scheduler step.\<close>

definition fw_backprop :: "'a fw_setup_scheme \<Rightarrow> store \<Rightarrow> pyval \<Rightarrow> (store \<times> fw_call list) result" where
  "fw_backprop f s v =
     (case tensor_backward v of
        Some e \<Rightarrow> Inl e
      | None \<Rightarrow> Inr (opt_step s (fw_params f) (fw_opt f),
                    [ZeroGrad, LossBackward, OptimizerStep] @ (if fw_scheduler f then [SchedulerStep] else [])))"

text \<open>The forward pass and the loss, under \<open>torch.no_grad()\<close> when the autograd flag
  \<open>g\<close> is off.\<close>

definition grad_run :: "bool \<Rightarrow> pyval \<Rightarrow> pyval" where
  "grad_run g v = (if g then v else smart_detach v)"

subsection \<open>\<open>one_batch\<close> (lines 113--131)\<close>

text \<open>Returns the new store, the framework calls made, and \<open>(loss, preds)\<close>.\<close>

definition one_batch :: "'a fw_setup_scheme \<Rightarrow> store \<Rightarrow> pyval \<Rightarrow> pyval \<Rightarrow> bool \<Rightarrow>
    (store \<times> fw_call list \<times> pyval \<times> pyval) result" where
  "one_batch f s inputs targets train =
     (let p = fw_model f (to_device inputs (fw_device f));
          v = fw_loss_fn f p (to_device targets (fw_device f))
      in if train then bind_r (fw_backprop f s v) (\<lambda>(s', cs). Inr (s', [ModelForward, LossFn] @ cs, v, p))
         else Inr (s, [ModelForward, LossFn], v, p))"

subsection \<open>\<open>Trainer\<close> (lines 133--172)\<close>

text \<open>\<open>lowest_loss\<close> is \<open>None\<close> for \<open>float('inf')\<close>; \<open>losses\<close>, \<open>lowest_loss\<close> and
  \<open>best_model\<close> exist only when \<open>save_best\<close> holds, and are read only then.
  \<open>tr_grad\<close> is the autograd mode of the caller.\<close>

record trainer = fw_setup +
  tr_training :: bool
  tr_grad :: bool
  save_best :: bool
  losses :: "real list"
  lowest_loss :: "real option"
  best_model :: state_dict
  tr_calls :: "fw_call list"

text \<open>Lines 134--153.  \<open>model.to(device)\<close> moves the parameters in place: they keep
  their addresses in the store.\<close>

definition trainer_init :: "fw_setup \<Rightarrow> bool \<Rightarrow> bool \<Rightarrow> bool \<Rightarrow> trainer" where
  "trainer_init f training grad sb =
     \<lparr>fw_model = fw_model f, fw_loss_fn = fw_loss_fn f, fw_params = fw_params f, fw_opt = fw_opt f,
      fw_scheduler = fw_scheduler f, fw_device = fw_device f,
      tr_training = training, tr_grad = grad, save_best = sb, losses = [],
      lowest_loss = None, best_model = (if sb then module_sd (fw_params f) else []), tr_calls = []\<rparr>"

text \<open>\<open>loss.cpu().detach()\<close> compared with a float: a tensor of one element reads as
  its value, \<open>if\<close> on the comparison of a larger or empty tensor raises, and a value
  that is no tensor has no \<open>cpu\<close> method.\<close>

definition loss_scalar :: "pyval \<Rightarrow> real result" where
  "loss_scalar v =
     (case v of PTensor t \<Rightarrow> if numel t = 1 then Inr (hd (t_vals t)) else Inl RuntimeError
      | _ \<Rightarrow> Inl AttributeError)"

definition below_lowest :: "real \<Rightarrow> real option \<Rightarrow> bool" where
  "below_lowest x lo = (case lo of None \<Rightarrow> True | Some y \<Rightarrow> x < y)"

text \<open>Lines 166--171: the best-loss bookkeeping.  The best model is
  \<open>self.model.state_dict()\<close>: references to the parameters, not a copy.\<close>

definition track_best :: "trainer \<Rightarrow> pyval \<Rightarrow> trainer result" where
  "track_best tr v =
     bind_r (loss_scalar v) (\<lambda>x.
       let tr1 = (if below_lowest x (lowest_loss tr)
                  then tr\<lparr>lowest_loss := Some x, best_model := module_sd (fw_params tr)\<rparr> else tr)
       in Inr (tr1\<lparr>losses := losses tr1 @ [x]\<rparr>))"

text \<open>Lines 156--160: the mode switch, and the forward pass and the loss under
  \<open>nullcontext()\<close> (training) or \<open>torch.no_grad()\<close>.\<close>

definition tr_forward :: "trainer \<Rightarrow> pyval \<Rightarrow> pyval \<Rightarrow> bool \<Rightarrow> trainer \<times> pyval \<times> pyval" where
  "tr_forward tr inputs targets train =
     (let tr1 = (if \<not> train then tr\<lparr>tr_training := False, tr_calls := tr_calls tr @ [ModelEval]\<rparr>
                 else tr\<lparr>tr_training := True, tr_calls := tr_calls tr @ [ModelTrain]\<rparr>);
          g = tr_grad tr1 \<and> train;
          p = grad_run g (fw_model tr1 (to_device inputs (fw_device tr1)));
          v = grad_run g (fw_loss_fn tr1 p (to_device targets (fw_device tr1)))
      in (tr1\<lparr>tr_calls := tr_calls tr1 @ [ModelForward, LossFn]\<rparr>, v, p))"

text \<open>Lines 161--165.\<close>

definition tr_backprop :: "trainer \<Rightarrow> store \<Rightarrow> pyval \<Rightarrow> (trainer \<times> store) result" where
  "tr_backprop tr s v = bind_r (fw_backprop tr s v) (\<lambda>(s', cs). Inr (tr\<lparr>tr_calls := tr_calls tr @ cs\<rparr>, s'))"

definition trainer_one_batch :: "trainer \<Rightarrow> store \<Rightarrow> pyval \<Rightarrow> pyval \<Rightarrow> bool \<Rightarrow>
    (trainer \<times> store \<times> pyval \<times> pyval) result" where
  "trainer_one_batch tr s inputs targets train =
     (case tr_forward tr inputs targets train of
        (tr2, v, p) \<Rightarrow>
          bind_r (if train then tr_backprop tr2 s v else Inr (tr2, s))
            (\<lambda>(tr3, s3). bind_r (if save_best tr3 then track_best tr3 v else Inr tr3)
               (\<lambda>tr4. Inr (tr4, s3, v, p))))"

text \<open>A sequence of calls of \<open>Trainer.one_batch\<close>, each batch with its \<open>train\<close> flag.\<close>

fun trainer_run :: "trainer \<Rightarrow> store \<Rightarrow> (pyval \<times> pyval \<times> bool) list \<Rightarrow> (trainer \<times> store) result" where
  "trainer_run tr s [] = Inr (tr, s)"
| "trainer_run tr s ((x, y, b) # bs) =
     bind_r (trainer_one_batch tr s x y b) (\<lambda>(tr', s', _). trainer_run tr' s' bs)"

text \<open>What the best-loss bookkeeping reads and writes, and one step of it for a
  batch of loss \<open>l\<close>.\<close>

definition best_view :: "trainer \<Rightarrow> bool \<times> real list \<times> real option \<times> state_dict \<times> module" where
  "best_view tr = (save_best tr, losses tr, lowest_loss tr, best_model tr, fw_params tr)"

definition best_step :: "real \<Rightarrow> bool \<times> real list \<times> real option \<times> state_dict \<times> module \<Rightarrow>
    bool \<times> real list \<times> real option \<times> state_dict \<times> module" where
  "best_step l bv = (case bv of (sb, ls, lo, bm, ps) \<Rightarrow>
     (sb, ls @ [l], if below_lowest l lo then Some l else lo,
      if below_lowest l lo then module_sd ps else bm, ps))"

text \<open>The lowest of the recorded losses, \<open>None\<close> (infinity) for none.\<close>

definition min_loss :: "real list \<Rightarrow> real option" where
  "min_loss ls = (case ls of [] \<Rightarrow> None | x # xs \<Rightarrow> Some (fold min xs x))"

text \<open>The invariant of the bookkeeping: the lowest loss is the minimum of the losses and
  the best model is the parameters' state dict (references, set at the first batch).\<close>

definition best_inv :: "bool \<times> real list \<times> real option \<times> state_dict \<times> module \<Rightarrow> bool" where
  "best_inv bv = (case bv of (sb, ls, lo, bm, ps) \<Rightarrow> lo = min_loss ls \<and> bm = module_sd ps)"

subsection \<open>Learning-rate helpers (lines 203--212)\<close>

text \<open>An optimizer is seen through the learning rates of its parameter groups.\<close>

definition get_lr :: "real list \<Rightarrow> real result" where
  "get_lr gs = (case gs of [] \<Rightarrow> Inl IndexError | g # _ \<Rightarrow> Inr g)"

definition set_lr :: "real list \<Rightarrow> real \<Rightarrow> real list" where
  "set_lr gs lr = map (\<lambda>_. lr) gs"

definition change_lr :: "real list \<Rightarrow> (real \<Rightarrow> real) \<Rightarrow> real list" where
  "change_lr gs fn = map fn gs"

subsection \<open>\<open>lr_finder_fn\<close> (lines 214--255)\<close>

text \<open>The arguments of \<open>lr_finder_fn\<close> besides the function, the optimizer and the
  loader; \<open>None\<close> is Python's \<open>None\<close>.  \<open>plot\<close> and \<open>log\<close> only print.\<close>

record lr_cfg =
  lf_mul :: real
  lf_add :: real
  lf_end :: "real option"
  lf_max_increase :: "real option"
  lf_device :: "device option"

text \<open>Python's \<open>/\<close> on floats.\<close>

definition py_truediv :: "real \<Rightarrow> real \<Rightarrow> real result" where
  "py_truediv a b = (if b = 0 then Inl ZeroDivisionError else Inr (a / b))"

text \<open>\<open>float(loss.detach().cpu())\<close>: only a one-element tensor converts.\<close>

definition loss_float :: "pyval \<Rightarrow> real result" where
  "loss_float v =
     (case v of PTensor t \<Rightarrow> if numel t = 1 then Inr (hd (t_vals t)) else Inl ValueError
      | _ \<Rightarrow> Inl AttributeError)"

text \<open>Line 245, with the short circuit of \<open>and\<close> and \<open>or\<close>: the ratio to the lowest
  loss is computed only when the learning rate has not passed \<open>end\<close>.\<close>

definition lr_stop :: "lr_cfg \<Rightarrow> real list \<Rightarrow> real \<Rightarrow> real list \<Rightarrow> bool result" where
  "lr_stop c gs l ls =
     bind_r (case lf_end c of None \<Rightarrow> Inr False | Some e \<Rightarrow> bind_r (get_lr gs) (\<lambda>lr. Inr (e < lr)))
       (\<lambda>b. if b then Inr True
            else (case lf_max_increase c of None \<Rightarrow> Inr False
                  | Some mi \<Rightarrow> bind_r (py_truediv l (fold min ls (hd ls))) (\<lambda>r. Inr (mi < r))))"

definition lr_step_fn :: "lr_cfg \<Rightarrow> real \<Rightarrow> real" where
  "lr_step_fn c x = x * lf_mul c + lf_add c"

text \<open>Lines 234--249.  \<open>EndlessContinuingIterator(dl)\<close> (of \<^verbatim>\<open>python_tools.py\<close>,
  not among the sources) yields the batches of the loader over and over: the \<open>i\<close>-th
  batch is \<open>dl ! (i mod length dl)\<close>.  On an empty loader the \<open>for\<close> loop ends at once and
  \<open>while True\<close> repeats it forever.  The state of \<open>one_batch_fn\<close> (the model, for
  \<open>Trainer.one_batch\<close>) is a type variable: the loop works for any function.  The result is
  that state, the learning rates of the optimizer's groups, and the lists \<open>lrs\<close> and
  \<open>losses\<close>; \<open>None\<close> is a loop that does not return.\<close>

text \<open>The learning rates a run goes through: \<open>start\<close>, then each step's.\<close>

definition lr_schedule :: "lr_cfg \<Rightarrow> real \<Rightarrow> nat \<Rightarrow> real list" where
  "lr_schedule c start n = map (\<lambda>j. (lr_step_fn c ^^ j) start) [0..<n]"

partial_function (option) lr_loop ::
  "('s \<Rightarrow> pyval \<Rightarrow> pyval \<Rightarrow> ('s \<times> pyval \<times> pyval) result) \<Rightarrow> lr_cfg \<Rightarrow> device \<Rightarrow> batches \<Rightarrow> nat \<Rightarrow>
   's \<Rightarrow> real list \<Rightarrow> real list \<Rightarrow> real list \<Rightarrow> ('s \<times> real list \<times> real list \<times> real list) result option"
where
  "lr_loop obf c d dl i st gs lrs ls =
     (if dl = [] then lr_loop obf c d dl i st gs lrs ls
      else
        (case bind_r (obf st (to_device (fst (dl ! (i mod length dl))) (Some d))
                             (to_device (snd (dl ! (i mod length dl))) (Some d)))
                (\<lambda>(st', v, _). bind_r (loss_float v) (\<lambda>l. bind_r (get_lr gs) (\<lambda>lr. Inr (st', l, lr)))) of
           Inl e \<Rightarrow> Some (Inl e)
         | Inr (st', l, lr) \<Rightarrow>
             (case lr_stop c (change_lr gs (lr_step_fn c)) l (ls @ [l]) of
                Inl e \<Rightarrow> Some (Inl e)
              | Inr b \<Rightarrow>
                  if b then Some (Inr (st', change_lr gs (lr_step_fn c), lrs @ [lr], ls @ [l]))
                  else lr_loop obf c d dl (Suc i) st' (change_lr gs (lr_step_fn c)) (lrs @ [lr]) (ls @ [l]))))"

text \<open>Lines 227--233: the device defaults to the CPU, the learning rate is set to
  \<open>start\<close> \<^emph>\<open>before\<close> the check that \<open>end\<close> or \<open>max_increase\<close> is given.\<close>

definition lr_finder_fn ::
  "('s \<Rightarrow> pyval \<Rightarrow> pyval \<Rightarrow> ('s \<times> pyval \<times> pyval) result) \<Rightarrow> real list \<Rightarrow> batches \<Rightarrow> real \<Rightarrow> lr_cfg \<Rightarrow> 's \<Rightarrow>
   ('s \<times> real list \<times> real list \<times> real list) result option" where
  "lr_finder_fn obf gs dl start c st =
     (let d = (case lf_device c of None \<Rightarrow> Cpu | Some d \<Rightarrow> d);
          gs1 = set_lr gs start
      in if lf_end c = None \<and> lf_max_increase c = None then Some (Inl ValueError)
         else lr_loop obf c d dl 0 st gs1 [] [])"

text \<open>What the loop returns: the learning rates it recorded follow the schedule from
  where it started, every group holds the next one, one loss per learning rate.\<close>

definition lr_state_ok :: "lr_cfg \<Rightarrow> real \<Rightarrow> nat \<Rightarrow> real list \<Rightarrow> real list \<Rightarrow> real list \<Rightarrow> bool" where
  "lr_state_ok c x0 k gs lrs ls \<longleftrightarrow>
     gs = replicate k ((lr_step_fn c ^^ length lrs) x0) \<and> lrs = lr_schedule c x0 (length lrs) \<and>
     length ls = length lrs"

subsection \<open>Example values\<close>

text \<open>A model that returns its input, a loss that is the prediction, one parameter at
  address 0 of \<open>ex_store\<close> which each optimizer step decreases by one, a scheduler; and
  a constant one-batch function for the learning-rate loop.\<close>

definition ex_setup :: fw_setup where
  "ex_setup = \<lparr>fw_model = (\<lambda>x. x), fw_loss_fn = (\<lambda>p t. p), fw_params = [(''w'', 0)],
     fw_opt = (\<lambda>a xs. map (\<lambda>v. v - 1) xs), fw_scheduler = True, fw_device = None\<rparr>"

definition ex_scalar :: "real \<Rightarrow> pyval" where
  "ex_scalar x = PTensor (Tensor [x] Cpu True)"

definition ex_obf :: "real \<Rightarrow> unit \<Rightarrow> pyval \<Rightarrow> pyval \<Rightarrow> (unit \<times> pyval \<times> pyval) result" where
  "ex_obf x u inputs targets = Inr (u, ex_scalar x, inputs)"

definition ex_cfg :: lr_cfg where
  "ex_cfg = \<lparr>lf_mul = 2, lf_add = 0, lf_end = Some 1, lf_max_increase = Some 3, lf_device = None\<rparr>"

subsection \<open>Lemmas: \<open>one_batch\<close> and \<open>Trainer\<close>\<close>

lemma fw_backprop_Inr:
  "fw_backprop f s v = Inr (s', cs) \<longleftrightarrow>
     tensor_backward v = None \<and> s' = opt_step s (fw_params f) (fw_opt f) \<and>
     cs = [ZeroGrad, LossBackward, OptimizerStep] @ (if fw_scheduler f then [SchedulerStep] else [])"
  by (auto simp: fw_backprop_def split: option.splits)

lemma tr_forward_view: "tr_forward tr x y b = (tr', v, p) \<Longrightarrow> best_view tr' = best_view tr"
  by (auto simp: tr_forward_def best_view_def Let_def split: if_splits)

lemma tr_backprop_view: "tr_backprop tr s v = Inr (tr', s') \<Longrightarrow> best_view tr' = best_view tr"
  by (auto simp: tr_backprop_def best_view_def fw_backprop_Inr bind_r_eq_Inr)

lemma track_best_view:
  "track_best tr v = Inr tr' \<Longrightarrow> \<exists>l. loss_scalar v = Inr l \<and> best_view tr' = best_step l (best_view tr)"
  by (auto simp: track_best_def best_view_def best_step_def bind_r_eq_Inr Let_def)

text \<open>One batch of a \<open>Trainer\<close>: the bookkeeping advances by the batch's loss when
  \<open>save_best\<close> holds and is untouched otherwise.\<close>

lemma trainer_one_batch_view:
  assumes "trainer_one_batch tr s x y b = Inr (tr', s', v, p)"
  shows "if save_best tr then \<exists>l. best_view tr' = best_step l (best_view tr) else best_view tr' = best_view tr"
proof -
  obtain tr2 v2 p2 where fw: "tr_forward tr x y b = (tr2, v2, p2)" by (cases "tr_forward tr x y b") auto
  from assms fw obtain tr3 s3 where bp: "(if b then tr_backprop tr2 s v2 else Inr (tr2, s)) = Inr (tr3, s3)"
    and tb: "(if save_best tr3 then track_best tr3 v2 else Inr tr3) = Inr tr'"
    by (auto simp: trainer_one_batch_def bind_r_eq_Inr)
  from bp tr_backprop_view tr_forward_view [OF fw] have v3: "best_view tr3 = best_view tr"
    by (auto split: if_splits)
  then have "save_best tr3 = save_best tr" by (simp add: best_view_def)
  show ?thesis
  proof (cases "save_best tr")
    case True
    with tb \<open>save_best tr3 = save_best tr\<close> have "track_best tr3 v2 = Inr tr'" by simp
    from track_best_view [OF this] v3 True show ?thesis by auto
  next
    case False
    with tb \<open>save_best tr3 = save_best tr\<close> v3 show ?thesis by simp
  qed
qed

lemma trainer_one_batch_calls:
  assumes "trainer_one_batch tr s x y b = Inr (tr', s', v, p)"
  shows "tr_calls tr' = tr_calls tr @ [if b then ModelTrain else ModelEval, ModelForward, LossFn] @
           (if b then [ZeroGrad, LossBackward, OptimizerStep] @ (if fw_scheduler tr then [SchedulerStep] else [])
            else [])"
  using assms
  by (auto simp: trainer_one_batch_def tr_forward_def tr_backprop_def track_best_def Let_def
      bind_r_eq_Inr fw_backprop_Inr split: if_splits)

lemma one_batch_calls_fn:
  "one_batch f s x y b = Inr (s', cs, v, p) \<Longrightarrow>
     cs = [ModelForward, LossFn] @
          (if b then [ZeroGrad, LossBackward, OptimizerStep] @ (if fw_scheduler f then [SchedulerStep] else []) else [])"
  by (auto simp: one_batch_def Let_def bind_r_eq_Inr fw_backprop_Inr split: if_splits)

lemma min_loss_snoc: "min_loss (ls @ [l]) = Some (case min_loss ls of None \<Rightarrow> l | Some m \<Rightarrow> min m l)"
  by (cases ls) (simp_all add: min_loss_def)

lemma best_step_inv: "best_inv bv \<Longrightarrow> best_inv (best_step l bv)"
  by (auto simp: best_inv_def best_step_def min_loss_snoc below_lowest_def min_def split: option.splits)

lemma trainer_run_view:
  assumes "trainer_run tr s bs = Inr (tr', s')" and "save_best tr" and "best_inv (best_view tr)"
  shows "save_best tr' \<and> best_inv (best_view tr') \<and> length (losses tr') = length (losses tr) + length bs"
  using assms
proof (induction bs arbitrary: tr s)
  case Nil
  then show ?case by simp
next
  case (Cons xyb bs)
  obtain x y b where xyb: "xyb = (x, y, b)" by (cases xyb) auto
  from Cons.prems(1) xyb obtain tr1 s1 v p where ob: "trainer_one_batch tr s x y b = Inr (tr1, s1, v, p)"
    and rest: "trainer_run tr1 s1 bs = Inr (tr', s')"
    by (auto simp: bind_r_eq_Inr split: prod.splits)
  from trainer_one_batch_view [OF ob] Cons.prems(2) obtain l where "best_view tr1 = best_step l (best_view tr)"
    by auto
  with Cons.prems(2,3) best_step_inv [of "best_view tr" l]
  have "save_best tr1" "best_inv (best_view tr1)" "length (losses tr1) = Suc (length (losses tr))"
    by (auto simp: best_view_def best_step_def)
  with Cons.IH [OF rest] show ?case by simp
qed

subsection \<open>Lemmas: the learning-rate loop\<close>

lemma get_lr_change [simp]: "gs \<noteq> [] \<Longrightarrow> get_lr (change_lr gs f) = Inr (f (hd gs))"
  by (cases gs) (simp_all add: get_lr_def change_lr_def)

lemma hd_change_lr [simp]: "gs \<noteq> [] \<Longrightarrow> hd (change_lr gs f) = f (hd gs)"
  by (cases gs) (simp_all add: change_lr_def)

lemma change_lr_Nil_iff [simp]: "change_lr gs f = [] \<longleftrightarrow> gs = []"
  by (simp add: change_lr_def)

lemma lr_stop_end: "lf_end c = Some e \<Longrightarrow> gs \<noteq> [] \<Longrightarrow> e < hd gs \<Longrightarrow> lr_stop c gs l ls = Inr True"
  by (cases gs) (simp_all add: lr_stop_def get_lr_def)

text \<open>What one batch of the loop reads: the loss, and the learning rate of the first
  group, so that a batch that succeeds had a group to read.\<close>

lemma lr_batch_Inr:
  assumes "bind_r m (\<lambda>(st', v, _). bind_r (loss_float v) (\<lambda>l. bind_r (get_lr gs) (\<lambda>lr. Inr (st', l, lr))))
             = Inr (st1, l, lr)"
  shows "gs \<noteq> [] \<and> lr = hd gs"
  using assms by (cases gs) (auto simp: get_lr_def bind_r_eq_Inr split: prod.splits)

text \<open>On an empty loader the loop never returns.\<close>

lemma lr_loop_empty: "lr_loop obf c d [] i st gs lrs ls = None"
proof -
  have "lr_loop obf c d dl i st gs lrs ls = Some r \<Longrightarrow> dl \<noteq> []" for dl r
    by (rule lr_loop.raw_induct [where P = "\<lambda>obf c d dl i st gs lrs ls r. dl \<noteq> []"])
      (fastforce split: if_splits)
  then show ?thesis by fastforce
qed

text \<open>The loop returns, by an exception or by stopping, at the latest at the batch
  after which the learning rate exceeds \<open>end\<close>.\<close>

lemma lr_loop_returns:
  assumes "dl \<noteq> []" and "lf_end c = Some e" and "e < (lr_step_fn c ^^ Suc n) (hd gs)"
  shows "lr_loop obf c d dl i st gs lrs ls \<noteq> None"
  using assms(3)
proof (induction n arbitrary: i st gs lrs ls)
  case 0
  then show ?case using assms(1,2)
    by (subst lr_loop.simps) (auto simp: lr_stop_end dest!: lr_batch_Inr split: sum.splits prod.splits)
next
  case (Suc n)
  have "gs \<noteq> [] \<Longrightarrow> e < (lr_step_fn c ^^ Suc n) (hd (change_lr gs (lr_step_fn c)))"
    using Suc.prems by (simp add: funpow_swap1)
  with Suc.IH [of "change_lr gs (lr_step_fn c)"] show ?case using assms(1,2)
    by (subst lr_loop.simps) (auto dest!: lr_batch_Inr split: sum.splits prod.splits)
qed

text \<open>Without groups, \<open>get_lr\<close> raises at the first batch.\<close>

lemma lr_loop_no_groups: "dl \<noteq> [] \<Longrightarrow> lr_loop obf c d dl i st [] lrs ls \<noteq> None"
  by (subst lr_loop.simps) (auto simp: get_lr_def bind_r_eq_Inr bind_r_eq_Inl split: sum.splits prod.splits)

lemma lr_state_ok_step:
  assumes "lr_state_ok c x0 k gs lrs ls" and "gs \<noteq> []"
  shows "lr_state_ok c x0 k (change_lr gs (lr_step_fn c)) (lrs @ [hd gs]) (ls @ [l])"
proof -
  from assms have "0 < k" by (auto simp: lr_state_ok_def)
  with assms(1) show ?thesis
    by (auto simp: lr_state_ok_def lr_schedule_def change_lr_def map_replicate funpow_swap1)
qed

lemma lr_loop_ok:
  assumes "lr_loop obf c d dl i st gs lrs ls = Some r"
  shows "\<forall>st' gs' lrs' ls'. r = Inr (st', gs', lrs', ls') \<longrightarrow> lr_state_ok c x0 k gs lrs ls \<longrightarrow>
           lr_state_ok c x0 k gs' lrs' ls' \<and> length lrs < length lrs'"
proof (rule lr_loop.raw_induct [where P = "\<lambda>obf c d dl i st gs lrs ls r.
    \<forall>st' gs' lrs' ls'. r = Inr (st', gs', lrs', ls') \<longrightarrow> lr_state_ok c x0 k gs lrs ls \<longrightarrow>
      lr_state_ok c x0 k gs' lrs' ls' \<and> length lrs < length lrs'", OF _ assms])
  fix f :: "('s \<Rightarrow> pyval \<Rightarrow> pyval \<Rightarrow> ('s \<times> pyval \<times> pyval) result) \<Rightarrow> lr_cfg \<Rightarrow> device \<Rightarrow> batches \<Rightarrow>
      nat \<Rightarrow> 's \<Rightarrow> real list \<Rightarrow> real list \<Rightarrow> real list \<Rightarrow> ('s \<times> real list \<times> real list \<times> real list) result option"
  fix obf c d dl i st gs lrs ls r
  assume IH: "\<And>obf c d dl i st gs lrs ls r. f obf c d dl i st gs lrs ls = Some r \<Longrightarrow>
      \<forall>st' gs' lrs' ls'. r = Inr (st', gs', lrs', ls') \<longrightarrow> lr_state_ok c x0 k gs lrs ls \<longrightarrow>
        lr_state_ok c x0 k gs' lrs' ls' \<and> length lrs < length lrs'"
  assume body: "(if dl = [] then f obf c d dl i st gs lrs ls
      else case bind_r (obf st (to_device (fst (dl ! (i mod length dl))) (Some d))
                             (to_device (snd (dl ! (i mod length dl))) (Some d)))
                (\<lambda>(st', v, _). bind_r (loss_float v) (\<lambda>l. bind_r (get_lr gs) (\<lambda>lr. Inr (st', l, lr)))) of
           Inl e \<Rightarrow> Some (Inl e)
         | Inr (st', l, lr) \<Rightarrow>
             (case lr_stop c (change_lr gs (lr_step_fn c)) l (ls @ [l]) of
                Inl e \<Rightarrow> Some (Inl e)
              | Inr b \<Rightarrow>
                  if b then Some (Inr (st', change_lr gs (lr_step_fn c), lrs @ [lr], ls @ [l]))
                  else f obf c d dl (Suc i) st' (change_lr gs (lr_step_fn c)) (lrs @ [lr]) (ls @ [l]))) = Some r"
  show "\<forall>st' gs' lrs' ls'. r = Inr (st', gs', lrs', ls') \<longrightarrow> lr_state_ok c x0 k gs lrs ls \<longrightarrow>
      lr_state_ok c x0 k gs' lrs' ls' \<and> length lrs < length lrs'"
  proof (intro allI impI)
    fix st' gs' lrs' ls'
    assume r: "r = Inr (st', gs', lrs', ls')" and ok: "lr_state_ok c x0 k gs lrs ls"
    show "lr_state_ok c x0 k gs' lrs' ls' \<and> length lrs < length lrs'"
    proof (cases "dl = []")
      case True
      with body IH r ok show ?thesis by auto
    next
      case False
      with body r obtain st1 l lr b where
        bt: "bind_r (obf st (to_device (fst (dl ! (i mod length dl))) (Some d))
                             (to_device (snd (dl ! (i mod length dl))) (Some d)))
                (\<lambda>(st', v, _). bind_r (loss_float v) (\<lambda>l. bind_r (get_lr gs) (\<lambda>lr. Inr (st', l, lr))))
              = Inr (st1, l, lr)"
        and stop: "lr_stop c (change_lr gs (lr_step_fn c)) l (ls @ [l]) = Inr b"
        and rest: "(if b then Some (Inr (st1, change_lr gs (lr_step_fn c), lrs @ [lr], ls @ [l]))
                    else f obf c d dl (Suc i) st1 (change_lr gs (lr_step_fn c)) (lrs @ [lr]) (ls @ [l])) = Some r"
        by (auto split: sum.splits prod.splits)
      from lr_batch_Inr [OF bt] have gs: "gs \<noteq> []" "lr = hd gs" by simp_all
      note ok' = lr_state_ok_step [OF ok gs(1), of l, folded gs(2)]
      show ?thesis
      proof (cases b)
        case True
        with rest r ok' show ?thesis by auto
      next
        case False
        with rest IH [of obf c d dl "Suc i" st1 "change_lr gs (lr_step_fn c)" "lrs @ [lr]" "ls @ [l]" r] r ok'
        show ?thesis by fastforce
      qed
    qed
  qed
qed

text \<open>With \<open>mul \<ge> 1\<close> and \<open>add \<ge> 0\<close> the learning rate grows at least geometrically
  and at least linearly.\<close>

lemma lr_lower:
  assumes "1 \<le> lf_mul c" "0 \<le> lf_add c" "0 \<le> x"
  shows "x * lf_mul c ^ n + of_nat n * lf_add c \<le> (lr_step_fn c ^^ n) x"
proof (induction n)
  case 0
  then show ?case by simp
next
  case (Suc n)
  let ?m = "lf_mul c" and ?a = "lf_add c" and ?y = "(lr_step_fn c ^^ n) x"
  have "of_nat n * ?a \<le> of_nat n * ?a * ?m"
    using mult_left_mono [OF assms(1), of "of_nat n * ?a"] assms(2) by simp
  then have "x * ?m ^ Suc n + of_nat (Suc n) * ?a \<le> (x * ?m ^ n + of_nat n * ?a) * ?m + ?a"
    by (simp add: algebra_simps)
  also have "\<dots> \<le> ?y * ?m + ?a"
    using Suc.IH assms(1) by (simp add: mult_right_mono)
  also have "\<dots> = (lr_step_fn c ^^ Suc n) x"
    by (simp add: lr_step_fn_def)
  finally show ?case .
qed

lemma lr_unbounded:
  assumes "1 \<le> lf_mul c" "0 \<le> lf_add c" "0 \<le> x" and "(1 < lf_mul c \<and> 0 < x) \<or> 0 < lf_add c"
  shows "\<exists>n. e < (lr_step_fn c ^^ Suc n) x"
proof -
  have low: "x * lf_mul c ^ Suc n + of_nat (Suc n) * lf_add c \<le> (lr_step_fn c ^^ Suc n) x" for n
    using lr_lower [OF assms(1-3)] .
  from assms(4) show ?thesis
  proof
    assume h: "1 < lf_mul c \<and> 0 < x"
    then obtain n where "e / x < lf_mul c ^ n" using real_arch_pow by blast
    then have "e < x * lf_mul c ^ n" using h by (simp add: pos_divide_less_eq mult.commute)
    also have "\<dots> \<le> x * lf_mul c ^ Suc n" using h by simp
    also have "\<dots> \<le> (lr_step_fn c ^^ Suc n) x"
      using low [of n] assms(2) by (smt (verit) of_nat_0_le_iff mult_nonneg_nonneg)
    finally show ?thesis ..
  next
    assume h: "0 < lf_add c"
    obtain n where "e < of_nat n * lf_add c" using reals_Archimedean3 [OF h] by blast
    also have "\<dots> \<le> of_nat (Suc n) * lf_add c" using h by simp
    also have "\<dots> \<le> (lr_step_fn c ^^ Suc n) x"
      using low [of n] assms(1,3) by (smt (verit) one_le_power mult_nonneg_nonneg)
    finally show ?thesis ..
  qed
qed

text \<open>The example run: two training batches of losses 2 and then 3.\<close>

lemma ex_trainer_run:
  "\<exists>tr' s'. trainer_run (trainer_init ex_setup False True True) ex_store
     [(ex_scalar 2, ex_scalar 0, True), (ex_scalar 3, ex_scalar 0, True)] = Inr (tr', s') \<and>
     heap s' 0 = [-1, 0] \<and> fw_params tr' = [(''w'', 0)] \<and> losses tr' = [2, 3]"
  by (simp add: trainer_one_batch_def tr_forward_def tr_backprop_def track_best_def fw_backprop_def
      trainer_init_def ex_setup_def ex_scalar_def ex_store_def opt_step_def loss_scalar_def
      tensor_backward_def grad_run_def below_lowest_def tensor_ops Let_def)

subsection \<open>Properties\<close>

text \<open>C21. The best-loss bookkeeping of a \<open>Trainer(save_best=True)\<close>: after any sequence
  of batches that returns, \<open>lowest_loss\<close> is the minimum of \<open>losses\<close> (infinity for
  none), and \<open>losses\<close> has one entry per batch.\<close>

theorem trainer_best_tracking:
  assumes "trainer_run (trainer_init f tm g True) s bs = Inr (tr', s')"
  shows "lowest_loss tr' = min_loss (losses tr') \<and> length (losses tr') = length bs"
proof -
  have "save_best (trainer_init f tm g True)" "best_inv (best_view (trainer_init f tm g True))"
    by (simp_all add: trainer_init_def best_view_def best_inv_def min_loss_def)
  from trainer_run_view [OF assms this] show ?thesis
    by (simp add: best_inv_def best_view_def trainer_init_def)
qed

theorem trainer_best_tracking_witness:
  "\<exists>tr' s'. trainer_run (trainer_init ex_setup False True True) ex_store
     [(ex_scalar 2, ex_scalar 0, True), (ex_scalar 3, ex_scalar 0, True)] = Inr (tr', s') \<and>
     lowest_loss tr' = Some 2 \<and> length (losses tr') = 2"
proof -
  from ex_trainer_run obtain tr' s' where run: "trainer_run (trainer_init ex_setup False True True) ex_store
     [(ex_scalar 2, ex_scalar 0, True), (ex_scalar 3, ex_scalar 0, True)] = Inr (tr', s')"
    and ls: "losses tr' = [2, 3]" by blast
  from trainer_best_tracking [OF run] ls run show ?thesis by (auto simp: min_loss_def)
qed

text \<open>C22. \<open>Trainer.best_model\<close> does not keep the best model: it is
  \<open>self.model.state_dict()\<close>, references to the parameters, so after any run it reads as
  the parameters' current data, whatever the losses were.\<close>

theorem trainer_best_model_aliases:
  assumes "trainer_run (trainer_init f tm g True) s bs = Inr (tr', s')"
  shows "read_sd s' (best_model tr') = map (\<lambda>(k, a). (k, RTensor (heap s' a))) (fw_params tr')"
proof -
  have "save_best (trainer_init f tm g True)" "best_inv (best_view (trainer_init f tm g True))"
    by (simp_all add: trainer_init_def best_view_def best_inv_def min_loss_def)
  from trainer_run_view [OF assms this] show ?thesis
    by (simp add: best_inv_def best_view_def read_sd_module_sd)
qed

text \<open>In the example run the loss rose at the second batch, but the best model reads
  as the weights after it, not as those after the first batch (\<open>[0, 1]\<close>).\<close>

theorem trainer_best_model_aliases_witness:
  "\<exists>tr' s'. trainer_run (trainer_init ex_setup False True True) ex_store
     [(ex_scalar 2, ex_scalar 0, True), (ex_scalar 3, ex_scalar 0, True)] = Inr (tr', s') \<and>
     read_sd s' (best_model tr') = [(''w'', RTensor [-1, 0])]"
proof -
  from ex_trainer_run obtain tr' s' where run: "trainer_run (trainer_init ex_setup False True True) ex_store
     [(ex_scalar 2, ex_scalar 0, True), (ex_scalar 3, ex_scalar 0, True)] = Inr (tr', s')"
    and h: "heap s' 0 = [-1, 0]" "fw_params tr' = [(''w'', 0)]" by blast
  from trainer_best_model_aliases [OF run] h run show ?thesis by auto
qed

text \<open>C24. \<open>lr_finder_fn\<close> returns (with its result or an exception), whatever the
  one-batch function does, when the loader is not empty, \<open>end\<close> is given, and the
  learning rate grows without bound: \<open>mul \<ge> 1\<close>, \<open>add \<ge> 0\<close>, \<open>start \<ge> 0\<close> and
  either \<open>mul > 1\<close> with \<open>start > 0\<close>, or \<open>add > 0\<close>.\<close>

theorem lr_finder_fn_terminates:
  assumes "dl \<noteq> []" and "lf_end c = Some e" and "1 \<le> lf_mul c" and "0 \<le> lf_add c" and "0 \<le> start"
    and "(1 < lf_mul c \<and> 0 < start) \<or> 0 < lf_add c"
  shows "lr_finder_fn obf gs dl start c st \<noteq> None"
proof (cases "gs = []")
  case True
  with assms(1,2) show ?thesis by (simp add: lr_finder_fn_def set_lr_def lr_loop_no_groups)
next
  case False
  from lr_unbounded [OF assms(3-6)] obtain n where "e < (lr_step_fn c ^^ Suc n) start" ..
  with False have "e < (lr_step_fn c ^^ Suc n) (hd (set_lr gs start))" by (simp add: set_lr_def hd_map)
  from lr_loop_returns [OF assms(1,2) this] assms(2) show ?thesis
    by (simp add: lr_finder_fn_def Let_def)
qed

theorem lr_finder_fn_terminates_witness:
  "lr_finder_fn (ex_obf 1) [1 / 10] [(ex_scalar 0, ex_scalar 0)] (1 / 2) ex_cfg () \<noteq> None"
  by (rule lr_finder_fn_terminates) (simp_all add: ex_cfg_def)

text \<open>C25. On an empty loader \<open>lr_finder_fn\<close> never returns: the \<open>for\<close> loop ends at
  once and \<open>while True\<close> repeats it; it raises \<open>ValueError\<close> first only when both
  \<open>end\<close> and \<open>max_increase\<close> are \<open>None\<close>.\<close>

theorem lr_finder_fn_empty_loader:
  "lr_finder_fn obf gs [] start c st =
     (if lf_end c = None \<and> lf_max_increase c = None then Some (Inl ValueError) else None)"
  by (simp add: lr_finder_fn_def Let_def lr_loop_empty)

text \<open>C26. A loss of zero at the first batch makes \<open>loss/min(losses)\<close> divide by zero:
  with \<open>max_increase\<close> given and the learning rate not yet past \<open>end\<close>,
  \<open>lr_finder_fn\<close> raises \<open>ZeroDivisionError\<close>.\<close>

theorem lr_finder_fn_zero_loss:
  assumes "dl \<noteq> []" and "gs \<noteq> []" and "lf_max_increase c = Some mi"
    and "case lf_end c of None \<Rightarrow> True | Some e \<Rightarrow> lr_step_fn c start \<le> e"
    and "obf st (to_device (fst (hd dl)) (Some (case lf_device c of None \<Rightarrow> Cpu | Some d \<Rightarrow> d)))
                (to_device (snd (hd dl)) (Some (case lf_device c of None \<Rightarrow> Cpu | Some d \<Rightarrow> d)))
         = Inr (st', PTensor (Tensor [0] dv g), p)"
  shows "lr_finder_fn obf gs dl start c st = Some (Inl ZeroDivisionError)"
proof -
  define d where "d = (case lf_device c of None \<Rightarrow> Cpu | Some d \<Rightarrow> d)"
  from assms(1) have "dl ! (0 mod length dl) = hd dl" by (simp add: hd_conv_nth)
  moreover from assms(2) have "set_lr gs start \<noteq> []" "hd (set_lr gs start) = start"
    by (simp_all add: set_lr_def hd_map)
  ultimately have "lr_loop obf c d dl 0 st (set_lr gs start) [] [] = Some (Inl ZeroDivisionError)"
    using assms(1,3,4,5) unfolding d_def
    by (subst lr_loop.simps) (auto simp: loss_float_def numel_def get_lr_def lr_stop_def py_truediv_def change_lr_def
        split: list.splits option.splits)
  with assms(3) show ?thesis by (simp add: lr_finder_fn_def d_def Let_def)
qed

theorem lr_finder_fn_zero_loss_witness:
  "lr_finder_fn (ex_obf 0) [1 / 10] [(ex_scalar 0, ex_scalar 0)] (1 / 4) ex_cfg () = Some (Inl ZeroDivisionError)"
  by (rule lr_finder_fn_zero_loss [where st' = "()" and dv = Cpu and g = True and p = "ex_scalar 0" and mi = 3])
     (simp_all add: ex_cfg_def ex_obf_def ex_scalar_def lr_step_fn_def tensor_ops)

text \<open>C27. What \<open>lr_finder_fn\<close> returns when it returns normally: the learning rates
  it recorded are \<open>start\<close>, \<open>start * mul + add\<close>, \<dots> (at least one), one loss for
  each, and every parameter group of the optimizer is left at the next rate of the
  schedule.\<close>

theorem lr_finder_fn_schedule:
  assumes "lr_finder_fn obf gs dl start c st = Some (Inr (st', gs', lrs, ls))"
  shows "lrs = lr_schedule c start (length lrs) \<and> lrs \<noteq> [] \<and> length ls = length lrs \<and>
         gs' = replicate (length gs) ((lr_step_fn c ^^ length lrs) start)"
proof -
  obtain d where "lr_loop obf c d dl 0 st (set_lr gs start) [] [] = Some (Inr (st', gs', lrs, ls))"
    using assms by (auto simp: lr_finder_fn_def Let_def split: if_splits)
  from lr_loop_ok [OF this, of start "length gs"]
  have "lr_state_ok c start (length gs) gs' lrs ls \<and> 0 < length lrs"
    by (simp add: lr_state_ok_def set_lr_def lr_schedule_def map_replicate_const)
  then show ?thesis by (auto simp: lr_state_ok_def)
qed

theorem lr_finder_fn_schedule_witness:
  "lr_finder_fn (ex_obf 1) [1 / 10] [(ex_scalar 0, ex_scalar 0)] (1 / 2) ex_cfg () =
     Some (Inr ((), [2], [1 / 2, 1], [1, 1])) \<and>
   [1 / 2, 1] = lr_schedule ex_cfg (1 / 2) 2 \<and> [2] = replicate 1 ((lr_step_fn ex_cfg ^^ 2) (1 / 2))"
proof -
  have run: "lr_finder_fn (ex_obf 1) [1 / 10] [(ex_scalar 0, ex_scalar 0)] (1 / 2) ex_cfg () =
     Some (Inr ((), [2], [1 / 2, 1], [1, 1]))"
    unfolding lr_finder_fn_def
    apply (simp add: ex_cfg_def set_lr_def)
    apply (subst lr_loop.simps)
    apply (simp add: ex_obf_def ex_scalar_def loss_float_def tensor_ops get_lr_def change_lr_def
        lr_stop_def lr_step_fn_def py_truediv_def)
    apply (subst lr_loop.simps)
    apply (simp add: ex_obf_def ex_scalar_def loss_float_def tensor_ops get_lr_def change_lr_def
        lr_stop_def lr_step_fn_def py_truediv_def)
    done
  from lr_finder_fn_schedule [OF run] run show ?thesis by (simp add: numeral_2_eq_2)
qed

end
