(* ===== verification/Jupyter.thy ===== *)
theory Jupyter
  imports TensorTools
begin

text \<open>
  The notebook helpers of \<^verbatim>\<open>src/glio/jupyter_tools.py\<close>: \<open>clean_ipython_hist\<close>,
  \<open>clean_tb\<close>, \<open>clean_mem\<close>, \<open>is_jupyter\<close>, \<open>isnotebook\<close> and
  \<open>markdown_if_jupyter\<close> (lines 9--122).  The interpreter they inspect is explicit: the
  IPython shell, if any (its module and class), the shell's user namespace and input
  history, and the three traceback attributes of \<open>sys\<close>.  Python's \<open>x in s\<close> on
  strings is \<open>py_in\<close>, \<open>repr\<close> of a non-negative int is \<open>nat_repr\<close>.
\<close>

subsection \<open>Strings\<close>

fun py_in :: "string \<Rightarrow> string \<Rightarrow> bool" where
  "py_in p [] = (p = [])"
| "py_in p (c # s) = (take (length p) (c # s) = p \<or> py_in p s)"

fun nat_repr :: "nat \<Rightarrow> string" where
  "nat_repr n = (if n < 10 then [char_of (48 + n)] else nat_repr (n div 10) @ [char_of (48 + n mod 10)])"

declare nat_repr.simps [simp del]

subsection \<open>The shell\<close>

text \<open>\<open>get_ipython()\<close>: \<open>None\<close> when the name is not defined (plain Python), else
  the module and the class of the shell.  \<open>str(type(shell))\<close> is
  \<open><class 'module.Class'>\<close>.\<close>

type_synonym shell = "(string \<times> string) option"

definition type_str :: "string \<times> string \<Rightarrow> string" where
  "type_str mc = ''<class '' @ [CHR 0x27] @ fst mc @ ''.'' @ snd mc @ [CHR 0x27] @ ''>''"

text \<open>The values \<open>is_jupyter\<close> can return.\<close>

datatype jval = JStr string | JBool bool | JNone

definition py_truthy :: "jval \<Rightarrow> bool" where
  "py_truthy v = (case v of JStr s \<Rightarrow> s \<noteq> [] | JBool b \<Rightarrow> b | JNone \<Rightarrow> False)"

text \<open>Lines 63--81: a bare \<open>except\<close> turns the \<open>NameError\<close> of plain Python into
  \<open>False\<close>; a shell whose type names neither \<open>zmqshell\<close> nor \<open>terminal\<close> falls off
  the end of the \<open>try\<close> block and returns \<open>None\<close>.\<close>

definition is_jupyter :: "shell \<Rightarrow> jval" where
  "is_jupyter sh =
     (case sh of None \<Rightarrow> JBool False
      | Some mc \<Rightarrow>
          (if py_in ''zmqshell'' (type_str mc) then JStr ''jupyter''
           else if py_in ''terminal'' (type_str mc) then JBool True
           else JNone))"

text \<open>Lines 83--102.\<close>

definition isnotebook :: "shell \<Rightarrow> bool" where
  "isnotebook sh =
     (case sh of None \<Rightarrow> False
      | Some (m, c) \<Rightarrow>
          (if c = ''ZMQInteractiveShell'' then True
           else if c = ''TerminalInteractiveShell'' then False
           else False))"

text \<open>Lines 104--122: the strings displayed and the value returned.\<close>

definition markdown_if_jupyter :: "shell \<Rightarrow> string \<Rightarrow> string list \<times> string option" where
  "markdown_if_jupyter sh s = (if py_truthy (is_jupyter sh) then ([s], None) else ([], Some s))"

subsection \<open>Cleaning the interpreter\<close>

text \<open>The shell's state \<open>clean_ipython_hist\<close> touches: the user namespace (a dict), the
  display hook's prompt count and whether it was flushed, and the history manager's
  parsed and raw input lists and its \<open>_i\<close>, \<open>_ii\<close>, \<open>_iii\<close>, \<open>_i00\<close>.\<close>

record ipy_state =
  user_ns :: "string \<Rightarrow> pyval option"
  prompt_count :: nat
  flushed :: bool
  input_hist_parsed :: "string list"
  input_hist_raw :: "string list"
  hm_i :: string
  hm_ii :: string
  hm_iii :: string
  hm_i00 :: string

text \<open>Line 22: \<open>user_ns.pop('_i' + repr(n), None)\<close> for \<open>n\<close> in \<open>range(1, pc)\<close>.\<close>

definition pop_inputs :: "nat \<Rightarrow> (string \<Rightarrow> pyval option) \<Rightarrow> string \<Rightarrow> pyval option" where
  "pop_inputs pc ns = fold (\<lambda>n ns. ns(''_i'' @ nat_repr n := None)) [1..<pc] ns"

text \<open>Lines 9--27.  The guard of line 17 asks whether the \<^emph>\<open>module's\<close> globals hold
  \<open>get_ipython\<close> (\<open>in_globals\<close>); otherwise nothing changes.\<close>

definition clean_ipython_hist :: "bool \<Rightarrow> ipy_state \<Rightarrow> ipy_state" where
  "clean_ipython_hist in_globals st =
     (if \<not> in_globals then st
      else let pc = prompt_count st + 1;
               ns = (pop_inputs pc (user_ns st))(''_i'' \<mapsto> PStr [], ''_ii'' \<mapsto> PStr [], ''_iii'' \<mapsto> PStr [])
           in st\<lparr>user_ns := ns, flushed := True, input_hist_parsed := replicate pc [],
                 input_hist_raw := replicate pc [], hm_i := [], hm_ii := [], hm_iii := [], hm_i00 := []\<rparr>)"

text \<open>The attributes \<open>sys.last_traceback\<close>, \<open>sys.last_type\<close>, \<open>sys.last_value\<close>
  (\<open>None\<close>: absent).  A traceback is the list of its frames, a frame the list of its
  local variables; \<open>traceback.clear_frames\<close> clears every frame's locals, which the
  holders of the traceback see.\<close>

record sys_state =
  last_traceback :: "(string \<times> pyval) list list option"
  last_type :: "string option"
  last_value :: "pyval option"

definition clear_frames :: "(string \<times> pyval) list list \<Rightarrow> (string \<times> pyval) list list" where
  "clear_frames tb = map (\<lambda>_. []) tb"

text \<open>Lines 29--45: the new \<open>sys\<close> and the traceback as its holders now see it.\<close>

definition clean_tb :: "sys_state \<Rightarrow> sys_state \<times> (string \<times> pyval) list list option" where
  "clean_tb sy =
     (let tb = map_option clear_frames (last_traceback sy);
          sy1 = (if last_traceback sy \<noteq> None then sy\<lparr>last_traceback := None\<rparr> else sy);
          sy2 = (if last_type sy1 \<noteq> None then sy1\<lparr>last_type := None\<rparr> else sy1);
          sy3 = (if last_value sy2 \<noteq> None then sy2\<lparr>last_value := None\<rparr> else sy2)
      in (sy3, tb))"

text \<open>Lines 46--59: \<open>gc.collect()\<close> and \<open>torch.cuda.empty_cache()\<close> change nothing
  the model observes.\<close>

definition clean_mem :: "bool \<Rightarrow> sys_state \<times> ipy_state \<Rightarrow> sys_state \<times> ipy_state" where
  "clean_mem in_globals ss = (fst (clean_tb (fst ss)), clean_ipython_hist in_globals (snd ss))"

subsection \<open>\<open>show_slices\<close> and \<open>show_slices_arr\<close> (lines 124--208)\<close>

text \<open>The widgets call the inner function \<open>f\<close> with one value per slider, within the
  slider's range; \<open>f\<close> indexes the array with them (all but the last when \<open>color\<close>
  holds) and returns, besides statistics, the shape of the view.  The array is seen
  through its shape; indexing an axis of size \<open>d\<close> accepts \<open>-d \<le> v < d\<close> and raises
  \<open>IndexError\<close> otherwise, as does an index past the last axis.\<close>

fun index_view :: "nat list \<Rightarrow> int list \<Rightarrow> nat list result" where
  "index_view sh [] = Inr sh"
| "index_view [] (v # vs) = Inl IndexError"
| "index_view (d # ds) (v # vs) = (if - int d \<le> v \<and> v < int d then index_view ds vs else Inl IndexError)"

definition slider_values :: "bool \<Rightarrow> int list \<Rightarrow> int list" where
  "slider_values color vs = (if color then butlast vs else vs)"

text \<open>Line 138: one slider \<open>(0, v - 1)\<close> per axis but the last two.\<close>

definition slider_ranges :: "nat list \<Rightarrow> (int \<times> int) list" where
  "slider_ranges shape = map (\<lambda>v. (0, int v - 1)) (take (length shape - 2) shape)"

text \<open>Lines 155--158.\<close>

definition show_slices_view :: "nat list \<Rightarrow> bool \<Rightarrow> int list \<Rightarrow> nat list result" where
  "show_slices_view shape color vs = index_view shape (slider_values color vs)"

text \<open>Line 177: every slider of \<open>show_slices_arr\<close> ranges over \<open>(0, max(shape) - 1)\<close>.\<close>

definition slider_ranges_arr :: "nat list \<Rightarrow> (int \<times> int) list" where
  "slider_ranges_arr shape = map (\<lambda>_. (0, int (Max (set shape)) - 1)) [0..<length shape - 2]"

text \<open>Python's \<open>sep.join(xs)\<close> and \<open>s.split(sep)\<close> for a one-character separator.\<close>

fun py_join :: "string \<Rightarrow> string list \<Rightarrow> string" where
  "py_join sep [] = []"
| "py_join sep [x] = x"
| "py_join sep (x # y # xs) = x @ sep @ py_join sep (y # xs)"

fun py_split :: "char \<Rightarrow> string \<Rightarrow> string list" where
  "py_split c [] = [[]]"
| "py_split c (x # xs) =
     (if x = c then [] # py_split c xs
      else (case py_split c xs of [] \<Rightarrow> [[x]] | w # ws \<Rightarrow> (x # w) # ws))"

text \<open>\<open>int(s)\<close> on a string of decimal digits with an optional sign; other strings
  raise \<open>ValueError\<close> (the forms Python also accepts with surrounding whitespace or
  underscores do not arise from \<open>split(" ")\<close> of the default string).\<close>

definition is_digit :: "char \<Rightarrow> bool" where
  "is_digit c = (48 \<le> (of_char c :: nat) \<and> (of_char c :: nat) < 58)"

definition digits_value :: "string \<Rightarrow> int" where
  "digits_value s = foldl (\<lambda>acc c. acc * 10 + int (of_char c - 48)) 0 s"

definition py_int :: "string \<Rightarrow> int result" where
  "py_int s =
     (case s of
        [] \<Rightarrow> Inl ValueError
      | c # cs \<Rightarrow>
          if c = CHR ''-'' \<and> cs \<noteq> [] \<and> list_all is_digit cs then Inr (- digits_value cs)
          else if c = CHR ''+'' \<and> cs \<noteq> [] \<and> list_all is_digit cs then Inr (digits_value cs)
          else if list_all is_digit s then Inr (digits_value s)
          else Inl ValueError)"

fun map_r :: "('a \<Rightarrow> 'b result) \<Rightarrow> 'a list \<Rightarrow> 'b list result" where
  "map_r f [] = Inr []"
| "map_r f (x # xs) = bind_r (f x) (\<lambda>y. bind_r (map_r f xs) (\<lambda>ys. Inr (y # ys)))"

text \<open>Line 178: the default permutation string \<open>"0 1 \<dots> n-1"\<close>, one axis per slider and
  two more.\<close>

definition default_permute :: "nat \<Rightarrow> string" where
  "default_permute n = py_join '' '' (map nat_repr [0..<n])"

text \<open>Line 203: \<open>[int(i) for i in permute.split(" ")]\<close>.\<close>

definition parse_permute :: "string \<Rightarrow> int list result" where
  "parse_permute s = map_r py_int (py_split CHR '' '' s)"

text \<open>Lines 203--207: \<open>np.transpose\<close> with the parsed axes (which must be a
  permutation of the axes, else \<open>ValueError\<close>), then the slider indices.\<close>

definition show_slices_arr_view :: "nat list \<Rightarrow> string \<Rightarrow> bool \<Rightarrow> int list \<Rightarrow> nat list result" where
  "show_slices_arr_view shape permute color vs =
     bind_r (parse_permute permute) (\<lambda>p.
       if sort p = map int [0..<length shape]
       then index_view (map (\<lambda>a. shape ! nat a) p) (slider_values color vs)
       else Inl ValueError)"

text \<open>A slider position: one value per slider, each within its range.\<close>

definition in_ranges :: "(int \<times> int) list \<Rightarrow> int list \<Rightarrow> bool" where
  "in_ranges rs vs = list_all2 (\<lambda>(lo, hi) v. lo \<le> v \<and> v \<le> hi) rs vs"

subsection \<open>Example values\<close>


subsection \<open>Lemmas\<close>

lemma nat_repr_digits: "c \<in> set (nat_repr n) \<Longrightarrow> \<exists>k::nat < 10. c = char_of (48 + k)"
proof (induction n rule: nat_repr.induct)
  case (1 n)
  show ?case
  proof (cases "n < 10")
    case True
    with "1.prems" show ?thesis by (subst (asm) nat_repr.simps) auto
  next
    case False
    with "1.prems" have "c \<in> set (nat_repr (n div 10)) \<or> c = char_of (48 + n mod 10)"
      by (subst (asm) nat_repr.simps) auto
    with "1.IH" False show ?thesis by (metis mod_less_divisor zero_less_numeral)
  qed
qed

lemma nat_repr_no_i: "CHR ''i'' \<notin> set (nat_repr n)"
proof
  assume "CHR ''i'' \<in> set (nat_repr n)"
  then obtain k :: nat where k: "k < 10" "CHR ''i'' = char_of (48 + k)" by (blast dest: nat_repr_digits)
  then have "of_char (CHR ''i'') = (48 + k) mod 256" by (simp add: of_char_of)
  with k(1) show False by simp
qed

lemma nat_repr_keys [simp]:
  "nat_repr n \<noteq> []" "[] \<noteq> nat_repr n" "nat_repr n \<noteq> ''i''" "''i'' \<noteq> nat_repr n"
  "nat_repr n \<noteq> ''ii''" "''ii'' \<noteq> nat_repr n"
proof -
  show ne: "nat_repr n \<noteq> []" by (subst nat_repr.simps) simp
  then show "[] \<noteq> nat_repr n" by simp
  show "nat_repr n \<noteq> ''i''" "''i'' \<noteq> nat_repr n" "nat_repr n \<noteq> ''ii''" "''ii'' \<noteq> nat_repr n"
    using nat_repr_no_i [of n] by (metis list.set_intros(1))+
qed



lemma is_jupyter_cases:
  "is_jupyter sh = JBool False \<longleftrightarrow> sh = None"
  "is_jupyter sh = JNone \<longleftrightarrow> (\<exists>mc. sh = Some mc \<and> \<not> py_in ''zmqshell'' (type_str mc) \<and> \<not> py_in ''terminal'' (type_str mc))"
  by (auto simp: is_jupyter_def split: option.splits)

subsection \<open>Lemmas: slices and the permutation string\<close>

lemma index_view_ok:
  "list_all2 (\<lambda>d v. 0 \<le> v \<and> v < int d) (take (length vs) sh) vs \<Longrightarrow> length vs \<le> length sh \<Longrightarrow>
     index_view sh (take m vs) = Inr (drop (min m (length vs)) sh)"
proof (induction vs arbitrary: sh m)
  case Nil
  then show ?case by simp
next
  case (Cons v vs)
  then obtain d ds where sh: "sh = d # ds" by (cases sh) auto
  show ?case
  proof (cases m)
    case 0
    then show ?thesis by simp
  next
    case (Suc m')
    with Cons.prems Cons.IH [of ds m'] sh show ?thesis by auto
  qed
qed

lemma index_view_out:
  "i < length sh \<Longrightarrow> int (sh ! i) \<le> v \<Longrightarrow> index_view sh (replicate i 0 @ v # rest) = Inl IndexError"
proof (induction i arbitrary: sh)
  case 0
  then show ?case by (cases sh) auto
next
  case (Suc i)
  then obtain d ds where "sh = d # ds" by (cases sh) auto
  with Suc show ?case by auto
qed

lemma py_split_no_sep: "c \<notin> set x \<Longrightarrow> py_split c x = [x]"
  by (induction x) auto

lemma py_split_append: "c \<notin> set x \<Longrightarrow> py_split c (x @ c # rest) = x # py_split c rest"
  by (induction x) auto

lemma py_split_join:
  "xs \<noteq> [] \<Longrightarrow> \<forall>x \<in> set xs. c \<notin> set x \<Longrightarrow> py_split c (py_join [c] xs) = xs"
  by (induction "[c]" xs rule: py_join.induct) (simp_all add: py_split_no_sep py_split_append)

lemma of_char_digit: "(k::nat) < 10 \<Longrightarrow> of_char (char_of (48 + k) :: char) = 48 + k"
  by (simp add: of_char_of)

lemma nat_repr_snoc:
  "nat_repr n = (if n < 10 then [char_of (48 + n)] else nat_repr (n div 10) @ [char_of (48 + n mod 10)])"
  by (rule nat_repr.simps)

lemma digits_nat_repr: "list_all is_digit (nat_repr n) \<and> digits_value (nat_repr n) = int n"
proof (induction n rule: nat_repr.induct)
  case (1 n)
  show ?case
  proof (cases "n < 10")
    case True
    then show ?thesis unfolding nat_repr_snoc [of n] by (simp add: is_digit_def digits_value_def of_char_digit)
  next
    case False
    have "n mod 10 < 10" by simp
    moreover have "int (n div 10) * 10 + int (n mod 10) = int n"
      by (metis div_mult_mod_eq of_nat_add of_nat_mult of_nat_numeral)
    ultimately show ?thesis using False "1.IH"
      unfolding nat_repr_snoc [of n] by (simp add: is_digit_def digits_value_def of_char_digit)
  qed
qed

lemma py_int_nat_repr: "py_int (nat_repr n) = Inr (int n)"
proof -
  obtain c cs where cs: "nat_repr n = c # cs" by (cases "nat_repr n") auto
  from digits_nat_repr [of n] cs have "is_digit c" "list_all is_digit (c # cs)" by simp_all
  then have "c \<noteq> CHR ''-''" "c \<noteq> CHR ''+''" by (auto simp: is_digit_def)
  with digits_nat_repr [of n] cs show ?thesis by (simp add: py_int_def)
qed

lemma map_r_py_int: "map_r py_int (map nat_repr xs) = Inr (map int xs)"
  by (induction xs) (simp_all add: py_int_nat_repr)

lemma space_not_digit: "CHR '' '' \<notin> set (nat_repr n)"
proof
  assume "CHR '' '' \<in> set (nat_repr n)"
  with digits_nat_repr [of n] have "is_digit (CHR '' '')" by (simp add: list_all_iff)
  then show False by (simp add: is_digit_def)
qed

lemma parse_default_permute: "0 < n \<Longrightarrow> parse_permute (default_permute n) = Inr (map int [0..<n])"
proof -
  assume "0 < n"
  then have "py_split CHR '' '' (default_permute n) = map nat_repr [0..<n]"
    unfolding default_permute_def using space_not_digit by (intro py_split_join) auto
  then show ?thesis by (simp add: parse_permute_def map_r_py_int)
qed

subsection \<open>Properties\<close>

text \<open>C28. \<open>is_jupyter\<close> returns \<open>'jupyter'\<close>, \<open>True\<close>, \<open>False\<close> or \<open>None\<close>, and
  \<open>False\<close> only in plain Python: in any other shell whose type names neither
  \<open>zmqshell\<close> nor \<open>terminal\<close> it returns \<open>None\<close>, where its docstring promises
  \<open>False\<close>.\<close>

theorem is_jupyter_values:
  "is_jupyter sh \<in> {JStr ''jupyter'', JBool True, JBool False, JNone} \<and>
   (is_jupyter sh = JBool False \<longleftrightarrow> sh = None) \<and>
   (is_jupyter sh = JNone \<longleftrightarrow> (\<exists>mc. sh = Some mc \<and> \<not> py_in ''zmqshell'' (type_str mc) \<and> \<not> py_in ''terminal'' (type_str mc)))"
  using is_jupyter_cases by (auto simp: is_jupyter_def split: option.splits)

text \<open>C29. \<open>markdown_if_jupyter\<close> displays the string and returns \<open>None\<close> exactly when the
  shell's type names \<open>zmqshell\<close> or \<open>terminal\<close>, so also in a terminal IPython, and
  returns the string otherwise.\<close>

theorem markdown_if_jupyter_spec:
  "markdown_if_jupyter sh s =
     (case sh of Some mc \<Rightarrow> if py_in ''zmqshell'' (type_str mc) \<or> py_in ''terminal'' (type_str mc)
                           then ([s], None) else ([], Some s)
      | None \<Rightarrow> ([], Some s))"
  by (auto simp: markdown_if_jupyter_def is_jupyter_def py_truthy_def split: option.splits)



text \<open>C31. \<open>clean_tb\<close> deletes the three traceback attributes of \<open>sys\<close> that exist, and
  every frame of the last traceback is left without local variables.\<close>

theorem clean_tb_spec:
  "clean_tb sy = (\<lparr>last_traceback = None, last_type = None, last_value = None\<rparr>,
                  map_option (map (\<lambda>_. [])) (last_traceback sy))"
proof -
  have "clear_frames = map (\<lambda>_. [])" by (rule ext) (simp add: clear_frames_def)
  then show ?thesis by (cases sy) (simp add: clean_tb_def Let_def)
qed

text \<open>C36. Every position of the sliders of \<open>show_slices\<close> gives a view: the
  ranges \<open>(0, v - 1)\<close> follow the axes, so indexing never raises, and the view keeps
  the axes after those indexed (the last two, and the colour axis when \<open>color\<close>
  holds).\<close>

theorem show_slices_safe:
  assumes "in_ranges (slider_ranges shape) vs"
  shows "show_slices_view shape color vs = Inr (drop (length (slider_values color vs)) shape)"
proof -
  from assms have len: "length vs = length (take (length shape - 2) shape)"
    unfolding in_ranges_def slider_ranges_def by (auto dest: list_all2_lengthD)
  from assms have "list_all2 (\<lambda>d v. 0 \<le> v \<and> v < int d) (take (length vs) shape) vs"
    by (auto simp: in_ranges_def slider_ranges_def len list_all2_map1 elim!: list_all2_mono)
  note key = index_view_ok [OF this]
  define k where "k = (if color then length vs - 1 else length vs)"
  have k: "slider_values color vs = take k vs" "k \<le> length vs"
    by (simp_all add: k_def slider_values_def butlast_conv_take)
  have "length vs \<le> length shape" using len by simp
  from key [OF this, of k] k show ?thesis by (simp add: show_slices_view_def min_def)
qed

theorem show_slices_safe_witness:
  "show_slices_view [3, 4, 5, 5] False [2, 3] = Inr [5, 5]"
proof -
  have "in_ranges (slider_ranges [3, 4, 5, 5]) [2, 3]" by (simp add: in_ranges_def slider_ranges_def)
  from show_slices_safe [OF this, of False] show ?thesis by (simp add: slider_values_def)
qed

text \<open>C37. The permutation string of \<open>show_slices_arr\<close> is a round trip:
  \<open>[int(i) for i in " ".join(str(i) for i in range(n)).split(" ")]\<close> is
  \<open>[0, \<dots>, n-1]\<close> for every \<open>n > 0\<close>, so the default view is the array itself.\<close>

theorem default_permute_roundtrip:
  assumes "0 < n"
  shows "parse_permute (default_permute n) = Inr (map int [0..<n])"
  using assms by (rule parse_default_permute)

theorem default_permute_roundtrip_witness:
  "parse_permute (default_permute 3) = Inr [0, 1, 2]"
  using default_permute_roundtrip [of 3] by (simp add: upt_rec)

text \<open>C38. The sliders of \<open>show_slices_arr\<close> range over \<open>(0, max(shape) - 1)\<close> for
  every axis: on an array whose indexed axes are not all of the largest size, some
  slider position within the ranges makes the view raise \<open>IndexError\<close>
  (\<open>show_slices\<close> uses \<open>(0, v - 1)\<close>).\<close>

theorem show_slices_arr_slider_error:
  assumes "i < length shape - 2" and "shape ! i < Max (set shape)"
  shows "\<exists>vs. in_ranges (slider_ranges_arr shape) vs \<and>
              show_slices_arr_view shape (default_permute (length shape)) False vs = Inl IndexError"
proof -
  let ?m = "int (Max (set shape)) - 1"
  define vs where "vs = replicate i 0 @ ?m # replicate (length shape - 2 - Suc i) 0"
  have pos: "0 \<le> ?m" using assms by (simp add: of_nat_less_iff)
  have "in_ranges (slider_ranges_arr shape) vs"
    using assms pos by (auto simp: in_ranges_def slider_ranges_arr_def vs_def list_all2_conv_all_nth
        nth_append nth_Cons' less_Suc_eq)
  moreover have "sort (map int [0..<length shape]) = map int [0..<length shape]"
    by (intro sorted_sort_id) (simp add: sorted_map sorted_wrt_iff_nth_less)
  moreover have "map (\<lambda>a. shape ! nat a) (map int [0..<length shape]) = shape"
    by (simp add: comp_def map_nth)
  moreover have "index_view shape vs = Inl IndexError"
    using assms by (simp add: vs_def index_view_out)
  moreover have "parse_permute (default_permute (length shape)) = Inr (map int [0..<length shape])"
    using assms(1) by (intro parse_default_permute) linarith
  ultimately have "in_ranges (slider_ranges_arr shape) vs \<and>
      show_slices_arr_view shape (default_permute (length shape)) False vs = Inl IndexError"
    by (simp add: show_slices_arr_view_def slider_values_def comp_def)
  then show ?thesis ..
qed

theorem show_slices_arr_slider_error_witness:
  "\<exists>vs. in_ranges (slider_ranges_arr [2, 5, 5]) vs \<and>
        show_slices_arr_view [2, 5, 5] (default_permute 3) False vs = Inl IndexError"
  using show_slices_arr_slider_error [of 0 "[2, 5, 5]"] by (simp add: numeral_3_eq_3)

end
