(* ===== verification/Geometry.thy ===== *)
theory Geometry
  imports Prelude "HOL-Library.Multiset"
begin

text \<open>
  Index and shape arithmetic of \<^verbatim>\<open>src/glio/torch_tools.py\<close>: \<open>stepchunk\<close>
  (lines 570--572), \<open>map_to_base\<close> (lines 615--631) and \<open>area_around\<close> (lines
  412--451).  A vector is a list; a tensor is seen through its shape, and slicing it
  through the bounds of each slice, since the helpers only choose indices.  Python's
  \<open>a[i:j:k]\<close> for non-negative bounds is \<open>py_slice\<close>, \<open>int(x)\<close> of a float truncates
  (\<open>py_trunc\<close>).
\<close>

subsection \<open>Python slices\<close>

text \<open>\<open>xs[a:b:k]\<close> for \<open>0 \<le> a\<close>, \<open>0 \<le> b\<close> and \<open>k > 0\<close>: the elements at \<open>a\<close>,
  \<open>a + k\<close>, \<dots> below \<open>min b (len xs)\<close>.\<close>

definition py_slice :: "'a list \<Rightarrow> nat \<Rightarrow> nat \<Rightarrow> nat \<Rightarrow> 'a list" where
  "py_slice xs a b k = map (nth xs) (filter (\<lambda>j. (j - a) mod k = 0) [a..<min b (length xs)])"

text \<open>The length of \<open>t[a:b]\<close> along an axis of size \<open>n\<close>, for any int bounds: a negative
  bound counts from the end, bounds are clamped to \<open>[0, n]\<close>.\<close>

definition py_slice_len :: "nat \<Rightarrow> int \<Rightarrow> int \<Rightarrow> nat" where
  "py_slice_len n a b =
     (let norm = (\<lambda>i. if i < 0 then max 0 (i + int n) else min i (int n)) in nat (norm b - norm a))"

definition py_trunc :: "real \<Rightarrow> int" where
  "py_trunc x = (if 0 \<le> x then \<lfloor>x\<rfloor> else \<lceil>x\<rceil>)"

subsection \<open>\<open>stepchunk\<close> (lines 570--572)\<close>

text \<open>\<open>maxlength or vec.shape[0]\<close>: \<open>None\<close> and \<open>0\<close> both mean the whole length;
  \<open>range(chunks)\<close> is empty for \<open>chunks \<le> 0\<close>.\<close>

definition stepchunk :: "'a list \<Rightarrow> int \<Rightarrow> nat option \<Rightarrow> 'a list list" where
  "stepchunk vec chunks maxlength =
     (let m = (case maxlength of None \<Rightarrow> length vec | Some 0 \<Rightarrow> length vec | Some l \<Rightarrow> l)
      in map (\<lambda>i. py_slice vec i (i + m) (nat chunks)) [0..<nat chunks])"

subsection \<open>\<open>map_to_base\<close> (lines 615--631)\<close>




subsection \<open>\<open>area_around\<close> (lines 412--451)\<close>

text \<open>One axis of lines 422--427 and 441--444: the centre is pushed inside so that
  \<open>x - s \<ge> 0\<close>, then so that \<open>x + s + 1 \<le> n\<close>; the slice is \<open>[x - s, x + s)\<close>.\<close>

definition window :: "int \<Rightarrow> int \<Rightarrow> nat \<Rightarrow> int \<times> int" where
  "window x s n =
     (let x1 = (if x - s < 0 then x - (x - s) else x);
          x2 = (if x1 + s + 1 > int n then x1 - (x1 + s + 1 - int n) else x1)
      in (x2 - s, x2 + s))"

text \<open>\<open>int(sx/2)\<close>.\<close>

definition half :: "int \<Rightarrow> int" where
  "half s = py_trunc (real_of_int s / 2)"

text \<open>The whole function for a tensor of shape \<open>dims\<close>: the leading axes kept whole and
  the slice of each spatial axis (\<open>sz\<close> is the argument \<open>size\<close>); unpacking a \<open>coord\<close> or \<open>size\<close> of the wrong length
  raises \<open>ValueError\<close>.\<close>

definition area_around :: "nat list \<Rightarrow> int list \<Rightarrow> int list \<Rightarrow> (nat list \<times> (int \<times> int) list) result" where
  "area_around dims coord sz =
     (if length coord = 3 then
        (if length sz \<noteq> 3 then Inl ValueError
         else if length dims = 3 \<or> length dims = 4 then
           (let shape = drop (length dims - 3) dims
            in Inr (take (length dims - 3) dims, map (\<lambda>i. window (coord ! i) (half (sz ! i)) (shape ! i)) [0..<3]))
         else Inl NotImplementedError)
      else if length coord = 2 then
        (if length sz \<noteq> 2 then Inl ValueError
         else if length dims \<in> {2, 3, 4} then
           (let shape = drop (length dims - 2) dims
            in Inr (take (length dims - 2) dims, map (\<lambda>i. window (coord ! i) (half (sz ! i)) (shape ! i)) [0..<2]))
         else Inl NotImplementedError)
      else Inl NotImplementedError)"

text \<open>The shape of the tensor \<open>area_around\<close> returns.\<close>

definition area_shape :: "nat list \<Rightarrow> nat list \<times> (int \<times> int) list \<Rightarrow> nat list" where
  "area_shape dims r =
     fst r @ map (\<lambda>(n, (a, b)). py_slice_len n a b) (zip (drop (length (fst r)) dims) (snd r))"

subsection \<open>Lemmas: \<open>stepchunk\<close>\<close>

lemma filter_residue:
  assumes "i < k"
  shows "filter (\<lambda>j. (j - i) mod k = 0) [i..<n] = filter (\<lambda>j. j mod k = i) [0..<n]"
proof (induction n)
  case 0
  then show ?case by simp
next
  case (Suc n)
  show ?case
  proof (cases "i \<le> n")
    case True
    have "(n - i) mod k = 0 \<longleftrightarrow> n mod k = i"
    proof
      assume h: "(n - i) mod k = 0"
      have "n mod k = ((n - i) + i) mod k" using True by simp
      also have "\<dots> = ((n - i) mod k + i) mod k" by (simp add: mod_add_left_eq)
      also have "\<dots> = i" using h assms by simp
      finally show "n mod k = i" .
    next
      assume "n mod k = i"
      then have "n - i = k * (n div k)" by (metis minus_mod_eq_mult_div)
      then show "(n - i) mod k = 0" by simp
    qed
    with Suc True show ?thesis by simp
  next
    case False
    with assms have "n mod k \<noteq> i" by simp
    with Suc False show ?thesis by simp
  qed
qed

lemma py_slice_whole:
  "i < k \<Longrightarrow> py_slice xs i (i + length xs) k = map (nth xs) (filter (\<lambda>j. j mod k = i) [0..<length xs])"
  by (simp add: py_slice_def filter_residue)

lemma sum_filter_mset:
  "(\<forall>x \<in># M. f x < k) \<Longrightarrow> sum_list (map (\<lambda>i. filter_mset (\<lambda>x. f x = i) M) [0..<k]) = M"
proof (induction M)
  case empty
  then show ?case by (simp add: sum_list_triv)
next
  case (add x M)
  have "sum_list (map (\<lambda>i. filter_mset (\<lambda>y. f y = i) (add_mset x M)) [0..<k]) =
        sum_list (map (\<lambda>i. (if f x = i then {#x#} else {#}) + filter_mset (\<lambda>y. f y = i) M) [0..<k])"
    by (intro arg_cong [where f = sum_list] map_cong) auto
  also have "\<dots> = sum_list (map (\<lambda>i. if f x = i then {#x#} else {#}) [0..<k]) + M"
    using add by (simp add: sum_list_addf)
  also have "sum_list (map (\<lambda>i. if f x = i then {#x#} else {#}) [0..<k]) = {#x#}"
    using add.prems by (simp add: sum_set_upt_conv_sum_list_nat [symmetric] sum.delta)
  finally show ?case by simp
qed

subsection \<open>Lemmas: \<open>map_to_base\<close>\<close>






subsection \<open>Lemmas: \<open>area_around\<close>\<close>

lemma half_nonneg: "0 \<le> s \<Longrightarrow> half s = s div 2"
  using floor_divide_of_int_eq [of s 2] by (simp add: half_def py_trunc_def)

lemma window_fits:
  assumes "0 \<le> s" and "2 * s + 1 \<le> int n" and "window x s n = (a, b)"
  shows "0 \<le> a \<and> b \<le> int n - 1 \<and> b - a = 2 * s"
  using assms by (auto simp: window_def Let_def split: if_splits)

lemma py_slice_len_inside: "0 \<le> a \<Longrightarrow> a \<le> b \<Longrightarrow> b \<le> int n \<Longrightarrow> py_slice_len n a b = nat (b - a)"
  by (simp add: py_slice_len_def Let_def)

lemma area_around_Inr:
  assumes "area_around dims coord sz = Inr r"
  shows "length sz = length coord \<and> length coord \<in> {2, 3} \<and> length coord \<le> length dims \<and>
         r = (take (length dims - length coord) dims,
              map (\<lambda>i. window (coord ! i) (half (sz ! i)) (drop (length dims - length coord) dims ! i))
                  [0..<length coord])"
  using assms by (auto simp: area_around_def Let_def split: if_splits)

subsection \<open>Properties\<close>

text \<open>C32. \<open>stepchunk(vec, chunks)\<close> with \<open>chunks > 0\<close> and no \<open>maxlength\<close> deals
  the vector out into \<open>chunks\<close> chunks like cards: chunk \<open>i\<close> holds the elements at
  the indices congruent to \<open>i\<close>, and together the chunks hold every element exactly
  once.\<close>

theorem stepchunk_partition:
  assumes "0 < c"
  shows "length (stepchunk vec c None) = nat c \<and>
         (\<forall>i < nat c. stepchunk vec c None ! i = map (nth vec) (filter (\<lambda>j. j mod nat c = i) [0..<length vec])) \<and>
         mset (concat (stepchunk vec c None)) = mset vec"
proof -
  have chunks: "stepchunk vec c None =
      map (\<lambda>i. map (nth vec) (filter (\<lambda>j. j mod nat c = i) [0..<length vec])) [0..<nat c]"
    by (simp add: stepchunk_def py_slice_whole add.commute)
  have "concat (stepchunk vec c None) =
        map (nth vec) (concat (map (\<lambda>i. filter (\<lambda>j. j mod nat c = i) [0..<length vec]) [0..<nat c]))"
    by (simp add: chunks map_concat comp_def)
  then have "mset (concat (stepchunk vec c None)) =
        image_mset (nth vec) (sum_list (map (\<lambda>i. filter_mset (\<lambda>j. j mod nat c = i) (mset [0..<length vec])) [0..<nat c]))"
    by (simp add: mset_concat comp_def mset_filter)
  also have "\<dots> = image_mset (nth vec) (mset [0..<length vec])"
    using assms by (subst sum_filter_mset) auto
  also have "\<dots> = mset vec"
    by (metis map_nth mset_map)
  finally show ?thesis by (simp add: chunks)
qed

theorem stepchunk_partition_witness:
  "stepchunk [1, 2, 3, 4, 5 :: int] 2 None = [[1, 3, 5], [2, 4]] \<and>
   mset (concat (stepchunk [1, 2, 3, 4, 5 :: int] 2 None)) = mset [1, 2, 3, 4, 5]"
  using stepchunk_partition [of 2 "[1, 2, 3, 4, 5 :: int]"]
  by (simp add: stepchunk_def py_slice_def upt_rec)





text \<open>C35. \<open>area_around\<close> on an axis the window fits in (\<open>2 * (size // 2) + 1 \<le>\<close> the
  axis) returns a slice that lies inside the axis, never reaches its last index, and
  has length \<open>2 * (size // 2)\<close>: an odd \<open>size\<close> gives one less than asked, against the
  docstring's "a tensor of \<open>size\<close> size".  The leading (batch, channel) axes are kept
  whole.\<close>

theorem area_around_window:
  assumes "area_around dims coord sz = Inr r"
    and "\<forall>i < length sz. 0 \<le> sz ! i \<and> 2 * (sz ! i div 2) + 1 \<le> int (drop (length dims - length sz) dims ! i)"
  shows "area_shape dims r = take (length dims - length sz) dims @ map (\<lambda>s. nat (2 * (s div 2))) sz \<and>
         (\<forall>i < length sz. 0 \<le> fst (snd r ! i) \<and> snd (snd r ! i) \<le> int (drop (length dims - length sz) dims ! i) - 1)"
proof -
  from area_around_Inr [OF assms(1)] have L: "length sz = length coord" "length coord \<le> length dims"
    and r: "r = (take (length dims - length coord) dims,
                 map (\<lambda>i. window (coord ! i) (half (sz ! i)) (drop (length dims - length coord) dims ! i))
                     [0..<length coord])" by auto
  let ?sp = "drop (length dims - length sz) dims"
  have w: "0 \<le> fst (snd r ! i) \<and> snd (snd r ! i) \<le> int (?sp ! i) - 1 \<and>
           py_slice_len (?sp ! i) (fst (snd r ! i)) (snd (snd r ! i)) = nat (2 * (sz ! i div 2))"
    if "i < length sz" for i
  proof -
    obtain a b where ab: "window (coord ! i) (half (sz ! i)) (?sp ! i) = (a, b)" by fastforce
    from assms(2) that have "0 \<le> sz ! i" "2 * (sz ! i div 2) + 1 \<le> int (?sp ! i)" by auto
    with window_fits [of "sz ! i div 2" "?sp ! i" "coord ! i" a b] ab
    have "0 \<le> a \<and> b \<le> int (?sp ! i) - 1 \<and> b - a = 2 * (sz ! i div 2)" by (simp add: half_nonneg)
    moreover have "0 \<le> sz ! i div 2" using \<open>0 \<le> sz ! i\<close> by (simp add: pos_imp_zdiv_nonneg_iff)
    ultimately have "a \<le> b" "b \<le> int (?sp ! i)" "0 \<le> a" "b - a = 2 * (sz ! i div 2)" by linarith+
    then have "py_slice_len (?sp ! i) a b = nat (2 * (sz ! i div 2))"
      by (simp add: py_slice_len_inside)
    moreover have "0 \<le> a \<and> b \<le> int (?sp ! i) - 1"
      using window_fits [of "sz ! i div 2" "?sp ! i" "coord ! i" a b] ab \<open>0 \<le> sz ! i\<close>
        \<open>2 * (sz ! i div 2) + 1 \<le> int (?sp ! i)\<close> by (simp add: half_nonneg)
    ultimately show ?thesis using ab that L by (simp add: r)
  qed
  have "area_shape dims r = take (length dims - length sz) dims @ map (\<lambda>s. nat (2 * (s div 2))) sz"
  proof -
    have "map (\<lambda>(n, (a, b)). py_slice_len n a b) (zip (drop (length (fst r)) dims) (snd r)) =
          map (\<lambda>s. nat (2 * (s div 2))) sz"
    proof (rule nth_equalityI)
      show "length (map (\<lambda>(n, (a, b)). py_slice_len n a b) (zip (drop (length (fst r)) dims) (snd r))) =
            length (map (\<lambda>s. nat (2 * (s div 2))) sz)" using L by (simp add: r)
      fix i assume "i < length (map (\<lambda>(n, (a, b)). py_slice_len n a b) (zip (drop (length (fst r)) dims) (snd r)))"
      then have i: "i < length sz" using L by (simp add: r)
      from w [OF i] L i have "py_slice_len (drop (length (fst r)) dims ! i) (fst (snd r ! i)) (snd (snd r ! i)) =
          nat (2 * (sz ! i div 2))" by (simp add: r)
      with L i show "map (\<lambda>(n, (a, b)). py_slice_len n a b) (zip (drop (length (fst r)) dims) (snd r)) ! i =
            map (\<lambda>s. nat (2 * (s div 2))) sz ! i"
        by (simp add: r case_prod_beta)
    qed
    then show ?thesis using L by (simp add: area_shape_def r)
  qed
  with w show ?thesis by blast
qed

theorem area_around_window_witness:
  "area_shape [10, 10, 10] (projr (area_around [10, 10, 10] [0, 5, 9] [3, 4, 5])) = [2, 4, 4]"
proof -
  have run: "area_around [10, 10, 10] [0, 5, 9] [3, 4, 5] = Inr ([], [(0, 2), (3, 7), (5, 9)])"
    by (simp add: area_around_def window_def half_def py_trunc_def upt_rec Let_def)
  have "\<forall>i < length [3, 4, 5 :: int]. 0 \<le> [3, 4, 5 :: int] ! i \<and>
          2 * ([3, 4, 5 :: int] ! i div 2) + 1 \<le> int (drop (length [10, 10, 10 :: nat] - length [3, 4, 5 :: int]) [10, 10, 10 :: nat] ! i)"
    by (auto simp: less_Suc_eq numeral_eq_Suc)
  from area_around_window [OF run this] run show ?thesis by simp
qed

end
