(* ===== verification/Monai.thy ===== *)
theory Monai
  imports Prelude
begin

text \<open>
  The MONAI metric callbacks of \<^verbatim>\<open>src/glio/train2/cbs_monai.py\<close>: \<open>MONAI_Dice\<close>,
  \<open>MONAI_GeneralizedDice\<close>, \<open>MONAI_IoU\<close> and \<open>MONAI_ROCAUC\<close>.  Each is a
  configuration (\<open>__init__\<close>) and a call (\<open>__call__\<close>) that prepares the learner's
  predictions and targets and hands them to a MONAI function, which computes the number.
  The model keeps the configuration and describes the call: the tensor expressions
  passed and the options, with the element type of each expression, since
  \<open>F.one_hot\<close> accepts only integer tensors.  The base class \<open>CBMetric\<close>
  (\<^verbatim>\<open>train2/cbs_metrics.py\<close>, not among the sources) is seen through the arguments
  passed to its \<open>__init__\<close> and the batch conditions it is given.
\<close>

subsection \<open>Configuration\<close>

text \<open>\<open>train_cond\<close>, \<open>test_cond\<close>: \<open>None\<close>, or \<open>lambda _, i: i % step == 0\<close>,
  kept as its \<open>step\<close>.\<close>

record metric_cfg =
  cb_train :: bool
  cb_test :: bool
  num_classes :: nat
  argmax_preds :: bool
  argmax_targets :: bool
  include_background :: bool
  ignore_bg :: bool
  to_onehot_targets :: bool
  average :: string
  train_cond :: "int option"
  test_cond :: "int option"
  metric_name :: string

text \<open>Lines 17, 34, 52, 72, 73.\<close>

definition step_cond :: "int \<Rightarrow> int option" where
  "step_cond step = (if step \<le> 1 then None else Some step)"

text \<open>Whether a condition lets batch \<open>i\<close> through: \<open>None\<close> imposes nothing.\<close>

definition cond_holds :: "int option \<Rightarrow> nat \<Rightarrow> bool" where
  "cond_holds c i = (case c of None \<Rightarrow> True | Some step \<Rightarrow> int i mod step = 0)"

text \<open>Lines 12--18, 29--35 and 47--53: the three segmentation metrics share their
  \<open>__init__\<close> but for the name.\<close>

definition seg_metric_init :: "nat \<Rightarrow> bool \<Rightarrow> bool \<Rightarrow> bool \<Rightarrow> int \<Rightarrow> string \<Rightarrow> metric_cfg" where
  "seg_metric_init nc amp amt ibg step name =
     \<lparr>cb_train = True, cb_test = True, num_classes = nc, argmax_preds = amp, argmax_targets = amt,
      include_background = (\<not> ibg), ignore_bg = False, to_onehot_targets = False, average = [],
      train_cond = step_cond step, test_cond = None, metric_name = name\<rparr>"

definition dice_init :: "nat \<Rightarrow> bool \<Rightarrow> bool \<Rightarrow> bool \<Rightarrow> int \<Rightarrow> string \<Rightarrow> metric_cfg" where
  "dice_init = seg_metric_init"

definition generalized_dice_init :: "nat \<Rightarrow> bool \<Rightarrow> bool \<Rightarrow> bool \<Rightarrow> int \<Rightarrow> string \<Rightarrow> metric_cfg" where
  "generalized_dice_init = seg_metric_init"

definition iou_init :: "nat \<Rightarrow> bool \<Rightarrow> bool \<Rightarrow> bool \<Rightarrow> int \<Rightarrow> string \<Rightarrow> metric_cfg" where
  "iou_init = seg_metric_init"

text \<open>Lines 67--75.\<close>

definition roc_auc_init :: "nat \<Rightarrow> bool \<Rightarrow> bool \<Rightarrow> string \<Rightarrow> int \<Rightarrow> int \<Rightarrow> string \<Rightarrow> metric_cfg" where
  "roc_auc_init nc oh ibg avg step teststep name =
     \<lparr>cb_train = True, cb_test = True, num_classes = nc, argmax_preds = False, argmax_targets = False,
      include_background = True, ignore_bg = ibg, to_onehot_targets = oh, average = avg,
      train_cond = step_cond step, test_cond = step_cond teststep, metric_name = name\<rparr>"

subsection \<open>Calls\<close>

text \<open>The tensors a call builds from \<open>learner.preds\<close> (model outputs, floating point)
  and \<open>learner.targets\<close> (integer labels, or floating point when one-hot).\<close>

datatype dtype = Float | Long

datatype texpr =
    Preds | Targets
  | Argmax1 texpr
  | OneHotSwap nat texpr
  | OneHot nat texpr
  | Flatten1 texpr
  | DropChannel0 texpr

text \<open>The element type of an expression; \<open>F.one_hot\<close> of a floating-point tensor
  raises \<open>RuntimeError\<close>.\<close>

fun dtype_of :: "dtype \<Rightarrow> texpr \<Rightarrow> dtype result" where
  "dtype_of td Preds = Inr Float"
| "dtype_of td Targets = Inr td"
| "dtype_of td (Argmax1 e) = bind_r (dtype_of td e) (\<lambda>_. Inr Long)"
| "dtype_of td (OneHotSwap n e) = bind_r (dtype_of td e) (\<lambda>t. if t = Long then Inr Long else Inl RuntimeError)"
| "dtype_of td (OneHot n e) = bind_r (dtype_of td e) (\<lambda>t. if t = Long then Inr Long else Inl RuntimeError)"
| "dtype_of td (Flatten1 e) = dtype_of td e"
| "dtype_of td (DropChannel0 e) = dtype_of td e"

datatype monai_call =
    ComputeDice texpr texpr bool nat
  | ComputeGeneralizedDice texpr texpr bool
  | ComputeIoU texpr texpr bool
  | ComputeRocAuc texpr texpr string

text \<open>Lines 21--24, 38--41, 56--59: the argmax over the channel axis, if configured.\<close>

definition seg_inputs :: "metric_cfg \<Rightarrow> texpr \<times> texpr" where
  "seg_inputs c = (if argmax_preds c then Argmax1 Preds else Preds,
                   if argmax_targets c then Argmax1 Targets else Targets)"

text \<open>A call is carried out when every expression it passes can be built.\<close>

definition checked :: "dtype \<Rightarrow> texpr list \<Rightarrow> monai_call \<Rightarrow> monai_call result" where
  "checked td es mc = (if list_all (\<lambda>e. dtype_of td e \<noteq> Inl RuntimeError) es then Inr mc else Inl RuntimeError)"


text \<open>Lines 37--42: \<open>num_classes\<close> is not passed.\<close>

definition generalized_dice_call :: "metric_cfg \<Rightarrow> dtype \<Rightarrow> monai_call result" where
  "generalized_dice_call c td =
     (case seg_inputs c of (p, t) \<Rightarrow> checked td [p, t] (ComputeGeneralizedDice p t (include_background c)))"


text \<open>Lines 77--84.\<close>

definition roc_auc_call :: "metric_cfg \<Rightarrow> dtype \<Rightarrow> monai_call result" where
  "roc_auc_call c td =
     (let p = Flatten1 Preds;
          t = (if to_onehot_targets c then OneHot (num_classes c) Targets else Flatten1 Targets);
          p' = (if ignore_bg c then DropChannel0 p else p);
          t' = (if ignore_bg c then DropChannel0 t else t)
      in checked td [p', t'] (ComputeRocAuc p' t' (average c)))"

subsection \<open>Lemmas\<close>

lemma seg_inits_agree: "dice_init = seg_metric_init" "generalized_dice_init = seg_metric_init" "iou_init = seg_metric_init"
  by (simp_all add: dice_init_def generalized_dice_init_def iou_init_def)

lemma count_multiples:
  assumes "0 < k"
  shows "length (filter (\<lambda>i. i mod k = 0) [0..<n]) = (n + k - 1) div k"
proof (induction n)
  case 0
  then show ?case using assms by simp
next
  case (Suc n)
  have "(Suc n + k - 1) div k = Suc (n + k - 1) div k" using assms by simp
  also have "\<dots> = (if n mod k = 0 then Suc ((n + k - 1) div k) else (n + k - 1) div k)"
  proof -
    have "Suc (n + k - 1) mod k = n mod k" using assms by (simp add: Suc_diff_le)
    then show ?thesis by (simp add: div_Suc)
  qed
  finally show ?case using Suc by simp
qed

lemma cond_holds_step:
  assumes "1 < s"
  shows "cond_holds (Some s) i = (i mod nat s = 0)"
proof -
  have "int i mod s = int (i mod nat s)"
    using assms by (simp add: of_nat_mod)
  then show ?thesis by (simp add: cond_holds_def)
qed

subsection \<open>Properties\<close>



text \<open>C40. With \<open>step > 1\<close> a metric is computed on the training batches whose index
  is a multiple of \<open>step\<close>: \<open>ceil(n / step)\<close> of the first \<open>n\<close>; with \<open>step \<le> 1\<close>
  on all of them.\<close>

theorem train_cond_count:
  "length (filter (cond_holds (train_cond (dice_init nc amp amt ibg step name))) [0..<n]) =
     (if step \<le> 1 then n else (n + nat step - 1) div nat step)"
proof (cases "step \<le> 1")
  case True
  then show ?thesis by (simp add: dice_init_def seg_metric_init_def step_cond_def cond_holds_def)
next
  case False
  then have "filter (cond_holds (train_cond (dice_init nc amp amt ibg step name))) [0..<n] =
             filter (\<lambda>i. i mod nat step = 0) [0..<n]"
    by (simp add: dice_init_def seg_metric_init_def step_cond_def cond_holds_step cong: filter_cong)
  with False show ?thesis by (simp add: count_multiples)
qed

end
