(* ===== verification/Spec2Isabelle.thy ===== *)
theory Spec2Isabelle
  imports Learner StateDict Trainer Jupyter Geometry Monai
begin

text \<open>
  \<^bold>\<open>A verification development of the glio utility library.\<close>

  glio (\<^verbatim>\<open>src/glio\<close>) is a small library around a deep-learning framework: recursive
  tensor helpers and training utilities (\<^verbatim>\<open>torch_tools.py\<close>), notebook helpers
  (\<^verbatim>\<open>jupyter_tools.py\<close>), the default callbacks of an event-driven training loop
  (\<^verbatim>\<open>train/cbs_default.py\<close>) and metric wrappers (\<^verbatim>\<open>train2/cbs_monai.py\<close>).
  The library has three training loops: the event-driven \<open>Learner\<close> whose default
  callbacks call the framework, the function \<open>one_batch\<close>, and the class \<open>Trainer\<close>
  with its best-loss bookkeeping, which \<open>lr_finder_fn\<close> drives while it raises the
  learning rate.  Backups of a model (\<open>copy_state_dict\<close>, \<open>BackupModule\<close>) and
  freezing (\<open>FreezeModel\<close>) act on the framework's tensors, which the framework shares
  by reference and changes in place.  The numerical work (forward pass, autograd,
  optimizer arithmetic) is the framework's and is not modelled: the model, the loss
  function and the optimizer's update rule are arguments of the definitions.

  \<^bold>\<open>Theories.\<close>
  \<^item> \<open>Prelude\<close>: the Python exceptions as the datatype \<open>py_error\<close>, results
    \<open>'a result = py_error + 'a\<close> with their sequencing \<open>bind_r\<close> (an uncaught
    exception propagates), Python's \<open>%\<close> as \<open>py_mod\<close>, and list lemmas shared by the
    components.
  \<^item> \<open>TensorTools\<close>: \<open>to_device\<close>, \<open>smart_detach\<close>, \<open>smart_to_cpu\<close>,
    \<open>smart_detach_cpu\<close> and \<open>smart_to_float\<close> of \<^verbatim>\<open>torch_tools.py\<close> (lines 16--45)
    over \<open>pyval\<close>, a Python value that is a tensor (data, device, autograd flag), a list,
    a tuple or a leaf.  The lemmas show that each helper acts on the tensors of a value
    one by one and keeps its shape; the properties (C12--C16) are the equivalence of
    \<open>smart_detach_cpu\<close> with the composition of the two others, what each helper
    guarantees, and that \<open>smart_detach\<close> and \<open>smart_to_cpu\<close> each do half of what their
    docstrings promise.
  \<^item> \<open>Learner\<close>: the default callbacks of \<^verbatim>\<open>train/cbs_default.py\<close>, one definition
    per callback class (\<open>forward_cb\<close> \<dots> \<open>log_cb\<close>), \<open>DefaultOneBatchCB\<close> split as its
    source is into \<open>move_batch\<close>, \<open>batch_body\<close> and \<open>backprop\<close>, \<open>DefaultFitCB\<close> into
    \<open>fit_epoch\<close> and its three blocks.  The learner (\<^verbatim>\<open>train/Learner.py\<close>, not among the
    sources) is a record of the fields the callbacks read and write; every framework call,
    event and context is appended to its field \<open>calls\<close>; \<open>torch.no_grad()\<close> is the
    flag \<open>grad_enabled\<close>.  Every event reaches its default callback: the dispatch table of
    \<^verbatim>\<open>design/EventModel.py\<close> and user callbacks are not modelled.  The specification is
    a set of trace functions (\<open>batch_calls\<close>, \<open>epoch_calls\<close>, \<open>fit_epoch_calls\<close>) that
    the callbacks refine; the properties (C1--C11) are the order of the calls of a batch,
    evaluation without updates, the train-mode defect of evaluation batches, the trace
    refinement and progress of \<open>fit\<close>, its \<open>ZeroDivisionError\<close> for
    \<open>test_every = 0\<close>, call counts, and inference.
  \<^item> \<open>StateDict\<close>: \<open>copy_state_dict\<close>, \<open>BackupModule\<close> and \<open>FreezeModel\<close> of
    \<^verbatim>\<open>torch_tools.py\<close> (lines 47--61, 175--200).  Tensors live in an explicit store
    (\<open>heap\<close> from addresses to data, \<open>next_addr\<close> the next free address); a state dict is
    a tree of addresses, nested dicts and leaves; a module is its parameters by name and
    address; \<open>module.state_dict()\<close> returns references (\<open>module_sd\<close>) and
    \<open>load_state_dict\<close> (strict, modelled from the framework's documentation) copies data
    in place.  The properties (C17--C20): the copy is deep, backup and restore is a round
    trip whatever in-place training happened in between, freezing and unfreezing is a
    round trip, and \<open>unfreeze\<close> raises \<open>IndexError\<close> on a model that gained
    parameters.
  \<^item> \<open>Trainer\<close>: \<open>one_batch\<close>, \<open>Trainer\<close> (lines 113--172), \<open>get_lr\<close>,
    \<open>set_lr\<close>, \<open>change_lr\<close> and \<open>lr_finder_fn\<close> (lines 203--255).  Parameters live
    in the store of \<open>StateDict\<close> and \<open>optimizer.step()\<close> updates them in place by an
    abstract rule; an optimizer is the learning rates of its parameter groups; the loop of
    \<open>lr_finder_fn\<close> is stated for any one-batch function over any state (a type
    variable), so it applies to \<open>Trainer.one_batch\<close> and to any other.  The properties
    (C21, C22, C24--C27): the invariant of the best-loss bookkeeping, the aliasing of
    \<open>best_model\<close> with the live weights (a defect), termination of \<open>lr_finder_fn\<close>, its
    non-termination on an empty loader, its \<open>ZeroDivisionError\<close> on a zero loss, and the
    learning-rate schedule it records.
  \<^item> \<open>Jupyter\<close>: \<open>clean_ipython_hist\<close>, \<open>clean_tb\<close>, \<open>clean_mem\<close>,
    \<open>is_jupyter\<close>, \<open>isnotebook\<close>, \<open>markdown_if_jupyter\<close> of \<^verbatim>\<open>jupyter_tools.py\<close>
    (lines 9--122) over an explicit interpreter: the shell (module and class), its user
    namespace and histories, and the traceback attributes of \<open>sys\<close>.  The properties
    (C28--C31): the values of \<open>is_jupyter\<close> (\<open>None\<close> where the docstring says
    \<open>False\<close>), when \<open>markdown_if_jupyter\<close> displays, and what the two cleaners leave.
    \<open>show_slices\<close> and \<open>show_slices_arr\<close> (lines 124--208) are modelled through
    the shape of the view each slider position selects, the slider ranges and the
    permutation string (\<open>' '.join\<close>, \<open>split(' ')\<close>, \<open>int\<close> as \<open>py_join\<close>,
    \<open>py_split\<close>, \<open>py_int\<close>); the properties (C36--C38): every slider position of
    \<open>show_slices\<close> gives a view, the default permutation string parses back to the
    identity, and \<open>show_slices_arr\<close> gives its sliders the range of the largest axis,
    so that a position past a shorter axis raises \<open>IndexError\<close>.
  \<^item> \<open>Geometry\<close>: \<open>stepchunk\<close>, \<open>map_to_base\<close> and \<open>area_around\<close> of
    \<^verbatim>\<open>torch_tools.py\<close>, over lists and shapes.  The floating-point quotient of
    logarithms in \<open>map_to_base\<close> is an argument \<open>lg\<close>, with the exact quotient
    \<open>exact_log\<close> as one instance.  The properties (C32--C35): \<open>stepchunk\<close> partitions
    the vector (a multiset equality), \<open>map_to_base\<close> is a round trip with exact
    logarithms and loses the leading digit when rounding falls below an integer, and the
    windows of \<open>area_around\<close> stay inside the tensor, with length \<open>2 * (size // 2)\<close>.
  \<^item> \<open>Monai\<close>: \<open>MONAI_Dice\<close>, \<open>MONAI_GeneralizedDice\<close>, \<open>MONAI_IoU\<close> and
    \<open>MONAI_ROCAUC\<close> of \<^verbatim>\<open>train2/cbs_monai.py\<close>.  Each \<open>__init__\<close> is a
    configuration record \<open>metric_cfg\<close>, the batch condition \<open>lambda _, i: i%step==0\<close>
    kept as its step; each \<open>__call__\<close> is the call it makes to \<open>monai.metrics\<close>, with
    the tensor expressions passed (\<open>texpr\<close>) and their element types, so that the
    \<open>RuntimeError\<close> of \<open>F.one_hot\<close> on a floating-point tensor is an \<open>Inl\<close> value.
    The properties (C39, C40): \<open>MONAI_IoU\<close> raises exactly when the predictions are not
    argmaxed or the targets are floating point, and the step condition lets through
    \<open>ceil(n / step)\<close> of \<open>n\<close> training batches.
  \<^item> This theory: the property that spans components, C23: the three training loops
    issue the same framework calls for a batch, except the mode switch.

  \<^bold>\<open>Loops, fuel and errors.\<close>  Every loop of the modelled code runs over a finite list
  (batches of a loader, epochs, parameters, digits, indices) and is structural recursion,
  except the \<open>while True\<close> loop of \<open>lr_finder_fn\<close>, which runs until the learning
  rate passes \<open>end\<close> or the loss ratio passes \<open>max_increase\<close> and may run forever: it
  is \<open>lr_loop\<close>, a \<open>partial_function (option)\<close> (\<open>None\<close>: never returns), with the
  theorem that it returns whenever the loader is not empty, \<open>end\<close> is given and the
  learning rate grows without bound (\<open>lr_loop_returns\<close> by induction on the number of
  steps the rate needs to pass \<open>end\<close>, \<open>lr_unbounded\<close> for the bound), and the theorem
  that it never returns on an empty loader (fixpoint induction).  No fuel is used.  An
  exception is an \<open>Inl\<close> value; the state an exception leaves behind in Python is not
  kept, since no modelled caller catches it.

  \<^bold>\<open>Not modelled.\<close>
  \<^item> \<open>summary\<close> and its hooks, \<open>is_container\<close>, \<open>param_count\<close>, \<open>buffer_count\<close>,
    \<open>count_parameters\<close>: printing and counting over the framework's module tree.
  \<^item> \<open>lr_finder\<close> (lines 257--323): averaging over iterations with backups; its parts
    (\<open>BackupModule\<close>, \<open>Trainer\<close>, \<open>lr_finder_fn\<close>) are modelled.
  \<^item> \<open>has_nonzero_weight\<close>, \<open>apply_init_fn\<close>, \<open>smart_tonumpy\<close>, \<open>to_binary\<close>,
    \<open>center_of_mass\<close>, \<open>binary_erode3d\<close>, \<open>one_hot_mask\<close>, \<open>unonehot\<close>,
    \<open>preds_batch_to_onehot\<close>, \<open>angle\<close>, \<open>sliding_inference_around_3d\<close>: numerical
    tensor operations delegated to the framework.
  \<^item> \<open>replace_layers\<close>, \<open>replace_conv\<close>, \<open>replace_conv_transpose\<close>: \<open>setattr\<close> on
    the framework's module tree (the last calls \<open>replace_conv\<close> on nested modules, a
    defect recorded in the manifest).
  \<^item> \<open>seeded_rng\<close>, \<open>seed0_worker\<close>, \<open>seeded_randperm\<close>: random-number state of three
    libraries.
  \<^item> \<open>ConcatZeroChannelsToDataloader\<close>, \<open>BatchInputTransforms\<close>, \<open>map_to_base_np\<close>:
    tensor and numpy operations.
  \<^item> The plotting and the statistics shown by \<open>show_slices\<close> and \<open>show_slices_arr\<close>,
    and \<open>sequence_to_table\<close>: widgets and display.
  \<^item> The numbers the MONAI metrics compute, and the base class \<open>CBMetric\<close> and the
    \<open>Learner\<close> of \<^verbatim>\<open>train2\<close> (not among the sources), which are seen only
    through the configuration the wrappers give them.
\<close>

text \<open>C23. The three training loops of the library issue the same framework calls for a
  batch: \<open>torch_tools.one_batch\<close> makes the calls of \<open>DefaultOneBatchCB\<close> without the
  mode switch, and \<open>Trainer.one_batch\<close> makes them with the mode switch, except that on
  an evaluation batch \<open>Trainer\<close> calls \<open>model.eval()\<close> where \<open>DefaultOneBatchCB\<close>
  calls \<open>model.train()\<close>.  (The learner's model has \<open>train\<close>/\<open>eval\<close>, its optimizer
  has not, and there is no accelerator.)\<close>

theorem batch_loops_agree:
  assumes "one_batch_cb l x y b = Inr l'" and "trainer_one_batch tr s x' y' b = Inr (tr', s', v, p)"
    and "one_batch f s0 x0 y0 b = Inr (s1, cs, v1, p1)"
    and "model_has_mode l" and "\<not> opt_has_mode l" and "\<not> accelerator l"
    and "fw_scheduler tr = scheduler l" and "fw_scheduler f = scheduler l"
  shows "calls l' = calls l @ ModelTrain # cs \<and>
         tr_calls tr' = tr_calls tr @ (if b then ModelTrain else ModelEval) # cs"
  using one_batch_calls [OF assms(1)] trainer_one_batch_calls [OF assms(2)] one_batch_calls_fn [OF assms(3)]
    assms(4-8)
  by (simp add: batch_calls_def train_calls_def)

theorem batch_loops_agree_witness:
  "\<exists>l' tr' s' v p s1 cs v1 p1.
     one_batch_cb ex_learner (fst ex_batch) (snd ex_batch) True = Inr l' \<and>
     trainer_one_batch (trainer_init ex_setup False True True) ex_store (ex_scalar 2) (ex_scalar 0) True
       = Inr (tr', s', v, p) \<and>
     one_batch ex_setup ex_store (ex_scalar 2) (ex_scalar 0) True = Inr (s1, cs, v1, p1) \<and>
     calls l' = ModelTrain # cs \<and> tr_calls tr' = ModelTrain # cs"
proof -
  obtain l' where h1: "one_batch_cb ex_learner (fst ex_batch) (snd ex_batch) True = Inr l'"
    by (simp add: learner_eval)
  obtain tr' s' v p where h2: "trainer_one_batch (trainer_init ex_setup False True True) ex_store
      (ex_scalar 2) (ex_scalar 0) True = Inr (tr', s', v, p)"
    by (simp add: trainer_one_batch_def tr_forward_def tr_backprop_def track_best_def fw_backprop_def
      trainer_init_def ex_setup_def ex_scalar_def loss_scalar_def tensor_backward_def grad_run_def
      below_lowest_def tensor_ops Let_def)
  obtain s1 cs v1 p1 where h3: "one_batch ex_setup ex_store (ex_scalar 2) (ex_scalar 0) True = Inr (s1, cs, v1, p1)"
    by (simp add: one_batch_def fw_backprop_def ex_setup_def ex_scalar_def tensor_backward_def tensor_ops Let_def)
  from batch_loops_agree [OF h1 h2 h3] h1 h2 h3 show ?thesis
    by (auto simp: ex_learner_def ex_setup_def trainer_init_def)
qed

end
